theory Spec2Isabelle
  imports Complex_Main "HOL-Library.AList"
begin

section \<open>Data model\<close>

text \<open>
  The development embeds \<^verbatim>\<open>ApplyResourceChange\<close> of
  \<^verbatim>\<open>manifest/provider/apply.go\<close>. The function is one long sequence of calls
  to collaborators (the tftypes library, the morph and payload packages, the Kubernetes
  dynamic client, other methods of the provider server). None of them is part of the
  embedded file, so each is a field of the record \<open>env\<close> below and every theorem holds
  for all behaviours of the collaborators.
\<close>

subsection \<open>tftypes: types, values, attribute paths\<close>

text \<open>
  \<^verbatim>\<open>tftypes.Type\<close>. The function never inspects a type, it only hands types on.
  \<open>NilType\<close> is the nil interface value, the type of the zero \<^verbatim>\<open>tftypes.Value{}\<close>.
\<close>

datatype ty =
    NilType
  | DynamicPseudoType
  | String
  | Number
  | Bool
  | List ty
  | Set ty
  | Map ty
  | Tuple "ty list"
  | Object "(string \<times> ty) list"

datatype prim = PString string | PNumber rat | PBool bool

text \<open>
  \<^verbatim>\<open>tftypes.Value\<close>: a type together with nil (Null), the unknown marker, a primitive,
  a \<^verbatim>\<open>[]Value\<close> (list, set, tuple) or a \<^verbatim>\<open>map[string]Value\<close> (map, object). A Go map
  is kept as an association list read with \<open>map_of\<close>.
\<close>

datatype tfvalue =
    Null (Type: ty)
  | Unknown (Type: ty)
  | Prim (Type: ty) prim
  | Seq (Type: ty) "tfvalue list"
  | Assoc (Type: ty) "(string \<times> tfvalue) list"

datatype AttributePathStep =
    AttributeName string
  | ElementKeyString string
  | ElementKeyInt int
  | ElementKeyValue tfvalue

type_synonym AttributePath = "AttributePathStep list"

subsection \<open>Errors\<close>

record StatusCause =
  cause_type :: string
  cause_message :: string
  cause_field :: string

record StatusDetails =
  details_name :: string
  details_group :: string
  details_kind :: string
  details_causes :: "StatusCause list"

text \<open>\<^verbatim>\<open>metav1.Status\<close>; the details are a pointer, \<open>None\<close> when it is nil.\<close>

record Status =
  status_status :: string
  status_message :: string
  status_reason :: string
  status_details :: "StatusDetails option"
  status_code :: int

text \<open>
  Go \<^verbatim>\<open>error\<close> values: the ones the function builds itself (\<^verbatim>\<open>fmt.Errorf\<close>,
  \<^verbatim>\<open>ap.NewError\<close>) and the API status errors of the Kubernetes client.
\<close>

datatype go_error =
    errorString string
  | AttributePathError AttributePath go_error
  | StatusError Status

subsection \<open>tfprotov5: diagnostics, request, response\<close>

datatype DiagnosticSeverity =
    DiagnosticSeverityInvalid
  | DiagnosticSeverityError
  | DiagnosticSeverityWarning

record Diagnostic =
  Severity :: DiagnosticSeverity
  Summary :: string
  Detail :: string

datatype DynamicValue = DynamicValue (MsgPack: string) (JSON: string)

record ApplyResourceChangeRequest =
  TypeName :: string
  PriorState :: DynamicValue
  PlannedState :: DynamicValue

record ApplyResourceChangeResponse =
  NewState :: "DynamicValue option"
  Diagnostics :: "Diagnostic list"

subsection \<open>Untyped objects and the store\<close>

text \<open>The \<^verbatim>\<open>interface{}\<close> trees of the payload package and of \<^verbatim>\<open>unstructured\<close>.\<close>

datatype json =
    JNull
  | JBool bool
  | JNumber rat
  | JString string
  | JArray "json list"
  | JObject "(string \<times> json) list"

type_synonym unstructured = "(string \<times> json) list"

datatype GroupVersionKind = GroupVersionKind string string string

datatype GroupVersionResource = GroupVersionResource string string string

datatype client = DynamicClient

datatype mapper = RESTMapper

text \<open>
  \<^verbatim>\<open>dynamic.ResourceInterface\<close>: \<^verbatim>\<open>c.Resource(gvr)\<close>, or
  \<^verbatim>\<open>c.Resource(gvr).Namespace(ns)\<close>.
\<close>

datatype ResourceInterface =
    Resource client GroupVersionResource
  | Namespace ResourceInterface string

text \<open>
  The requests the call sends to the store, in the order it sends them. The completion
  waiter polls the store through the handle it is given: its invocation is one entry.
\<close>

datatype store_call =
    CallGet ResourceInterface string
  | CallPatch ResourceInterface string string string string
  | CallDelete ResourceInterface string
  | CallWaitFor ResourceInterface string

datatype Foundry = Foundry string

text \<open>
  The state the call reads and writes: the field \<^verbatim>\<open>s.OAPIFoundry\<close> of the server
  (\<open>None\<close> is nil) and the log of the requests sent to the store.
\<close>

record state =
  OAPIFoundry :: "Foundry option"
  store_calls :: "store_call list"

text \<open>How a call ends: it returns \<^verbatim>\<open>(resp, err)\<close>, or a type assertion panics.\<close>

datatype ret =
    Return ApplyResourceChangeResponse "go_error option"
  | Panic


section \<open>Collaborators\<close>

text \<open>
  Everything \<^verbatim>\<open>ApplyResourceChange\<close> calls that is not defined in
  \<^verbatim>\<open>apply.go\<close>. A function returning \<^verbatim>\<open>(x, err)\<close> returns \<open>go_error + 'a\<close>
  (\<open>Inl\<close> the error); one returning only \<^verbatim>\<open>error\<close> returns \<open>go_error option\<close>.
  The context argument and the logger are left out: the function only passes them on.
  \<open>TFTypeFromOpenAPI\<close> reads and may fill the cache \<^verbatim>\<open>s.OAPIFoundry\<close>, which it is
  given and returns. \<open>Get\<close>, \<open>Patch\<close> and \<open>Delete\<close> are the answers of the store;
  \<open>path_String\<close> is \<^verbatim>\<open>(*AttributePath).String\<close>, \<open>Error\<close> is \<^verbatim>\<open>err.Error()\<close>,
  \<open>APIStatus\<close> is \<^verbatim>\<open>errors.As(err, &status)\<close> followed by \<^verbatim>\<open>status.Status()\<close>,
  \<open>NamespacedName_String\<close> is \<^verbatim>\<open>types.NamespacedName{...}.String()\<close> and \<open>fmt_q\<close>
  is the verb \<^verbatim>\<open>%q\<close> of \<^verbatim>\<open>fmt.Sprintf\<close>.
\<close>

record env =
  canExecute :: "Diagnostic list"
  GetResourceType :: "string \<Rightarrow> go_error + ty"
  Unmarshal :: "DynamicValue \<Rightarrow> ty \<Rightarrow> go_error + tfvalue"
  FieldPathToTftypesPath :: "string \<Rightarrow> go_error + AttributePath"
  path_String :: "AttributePath \<Rightarrow> string"
  getDynamicClient :: "go_error + client"
  getRestMapper :: "go_error + mapper"
  GVKFromTftypesObject :: "tfvalue \<Rightarrow> mapper \<Rightarrow> go_error + GroupVersionKind"
  TFTypeFromOpenAPI ::
    "Foundry option \<Rightarrow> GroupVersionKind \<Rightarrow> bool \<Rightarrow> (go_error + ty) \<times> Foundry option"
  Transform ::
    "tfvalue \<Rightarrow> (AttributePath \<Rightarrow> tfvalue \<Rightarrow> go_error + tfvalue) \<Rightarrow> go_error + tfvalue"
  WalkAttributePath :: "tfvalue \<Rightarrow> AttributePath \<Rightarrow> tfvalue \<times> AttributePath \<times> go_error option"
  ValueToType :: "tfvalue \<Rightarrow> ty \<Rightarrow> AttributePath \<Rightarrow> go_error + tfvalue"
  UnknownToNull :: "tfvalue \<Rightarrow> tfvalue"
  FromTFValue :: "tfvalue \<Rightarrow> AttributePath \<Rightarrow> go_error + json"
  mapRemoveNulls :: "unstructured \<Rightarrow> unstructured"
  GetNamespace :: "unstructured \<Rightarrow> string"
  GetName :: "unstructured \<Rightarrow> string"
  NamespacedName_String :: "string \<Rightarrow> string \<Rightarrow> string"
  GVRFromUnstructured :: "unstructured \<Rightarrow> mapper \<Rightarrow> go_error + GroupVersionResource"
  IsResourceNamespaced :: "GroupVersionKind \<Rightarrow> mapper \<Rightarrow> go_error + bool"
  Get :: "ResourceInterface \<Rightarrow> string \<Rightarrow> go_error + unstructured"
  IsNotFound :: "go_error \<Rightarrow> bool"
  MarshalJSON :: "unstructured \<Rightarrow> go_error + string"
  Patch :: "ResourceInterface \<Rightarrow> string \<Rightarrow> string \<Rightarrow> string \<Rightarrow> string \<Rightarrow> go_error + unstructured"
  APIStatus :: "go_error \<Rightarrow> Status option"
  APIStatusErrorToDiagnostics :: "Status \<Rightarrow> Diagnostic list"
  RemoveServerSideFields :: "unstructured \<Rightarrow> unstructured"
  ToTFValue :: "unstructured \<Rightarrow> ty \<Rightarrow> AttributePath \<Rightarrow> go_error + tfvalue"
  waitForCompletion :: "tfvalue \<Rightarrow> ResourceInterface \<Rightarrow> string \<Rightarrow> ty \<Rightarrow> go_error option"
  DeepUnknown :: "ty \<Rightarrow> tfvalue \<Rightarrow> AttributePath \<Rightarrow> go_error + tfvalue"
  NewDynamicValue :: "ty \<Rightarrow> tfvalue \<Rightarrow> go_error + DynamicValue"
  Delete :: "ResourceInterface \<Rightarrow> string \<Rightarrow> go_error option"
  Error :: "go_error \<Rightarrow> string"
  fmt_q :: "string \<Rightarrow> string"


section \<open>The tftypes accessors the function uses\<close>

text \<open>
  \<^verbatim>\<open>IsNull\<close> holds of a nil value, \<^verbatim>\<open>IsKnown\<close> of everything but the unknown marker
  (so a Null value is known). \<^verbatim>\<open>As\<close> refuses an unknown value, gives the zero value
  of the target (the empty map, the empty slice, the empty string) for Null, and fails
  when the value is of another kind than the target.
\<close>

fun IsNull :: "tfvalue \<Rightarrow> bool" where
  "IsNull (Null t) = True"
| "IsNull (Unknown t) = False"
| "IsNull (Prim t p) = False"
| "IsNull (Seq t vs) = False"
| "IsNull (Assoc t m) = False"

fun IsKnown :: "tfvalue \<Rightarrow> bool" where
  "IsKnown (Unknown t) = False"
| "IsKnown (Null t) = True"
| "IsKnown (Prim t p) = True"
| "IsKnown (Seq t vs) = True"
| "IsKnown (Assoc t m) = True"

fun As_map :: "tfvalue \<Rightarrow> go_error + (string \<times> tfvalue) list" where
  "As_map (Unknown t) = Inl (errorString ''unmarshaling unknown values is not supported'')"
| "As_map (Null t) = Inr []"
| "As_map (Assoc t m) = Inr m"
| "As_map (Prim t p) = Inl (errorString ''can't unmarshal into map[string]tftypes.Value'')"
| "As_map (Seq t vs) = Inl (errorString ''can't unmarshal into map[string]tftypes.Value'')"

fun As_list :: "tfvalue \<Rightarrow> go_error + tfvalue list" where
  "As_list (Unknown t) = Inl (errorString ''unmarshaling unknown values is not supported'')"
| "As_list (Null t) = Inr []"
| "As_list (Seq t vs) = Inr vs"
| "As_list (Prim t p) = Inl (errorString ''can't unmarshal into []tftypes.Value'')"
| "As_list (Assoc t m) = Inl (errorString ''can't unmarshal into []tftypes.Value'')"

fun As_string :: "tfvalue \<Rightarrow> go_error + string" where
  "As_string (Unknown t) = Inl (errorString ''unmarshaling unknown values is not supported'')"
| "As_string (Null t) = Inr []"
| "As_string (Prim t (PString x)) = Inr x"
| "As_string (Prim t (PNumber x)) = Inl (errorString ''can't unmarshal into *string'')"
| "As_string (Prim t (PBool x)) = Inl (errorString ''can't unmarshal into *string'')"
| "As_string (Seq t vs) = Inl (errorString ''can't unmarshal into *string'')"
| "As_string (Assoc t m) = Inl (errorString ''can't unmarshal into *string'')"

text \<open>\<^verbatim>\<open>tftypes.NewValue\<close> is taken to pair the type and the map as they are given.\<close>

definition NewValue :: "ty \<Rightarrow> (string \<times> tfvalue) list \<Rightarrow> tfvalue" where
  "NewValue t m = Assoc t m"

text \<open>Reading a key of a \<^verbatim>\<open>map[string]tftypes.Value\<close> that is absent gives the zero Value.\<close>

definition index_or_zero :: "(string \<times> tfvalue) list \<Rightarrow> string \<Rightarrow> tfvalue" where
  "index_or_zero m k = (case map_of m k of None \<Rightarrow> Null NilType | Some v \<Rightarrow> v)"

section \<open>ApplyResourceChange\<close>

text \<open>
  The function is embedded part by part, in the order of the source; each part is named
  by the lines it embeds. A part returns the state together with either the way the
  call ends there (each \<^verbatim>\<open>return resp, ...\<close> of the source, and the panic of a
  failed type assertion) or the values the next part goes on with. Every request to the
  store is appended to \<open>store_calls\<close> at the place where the source sends it.
  The two states of a request are pointers in the source; they are taken to be present.
  A planned state that is decoded to a map is kept as the list of its attributes:
  \<^verbatim>\<open>plannedStateVal["object"] = v\<close> is \<open>AList.update\<close>.
\<close>

definition error_diag :: "string \<Rightarrow> string \<Rightarrow> Diagnostic" where
  "error_diag summary detail =
     \<lparr>Severity = DiagnosticSeverityError, Summary = summary, Detail = detail\<rparr>"

definition add_diag :: "ApplyResourceChangeResponse \<Rightarrow> Diagnostic \<Rightarrow> ApplyResourceChangeResponse" where
  "add_diag resp d = resp\<lparr>Diagnostics := Diagnostics resp @ [d]\<rparr>"

definition squote :: char where "squote = CHR 0x27"

definition dquote :: char where "dquote = CHR 0x22"

definition ApplyPatchType :: string where
  "ApplyPatchType = ''application/apply-patch+yaml''"

subsection \<open>Lines 72 to 105: the computed fields\<close>

text \<open>
  The loop over the entries of \<^verbatim>\<open>computed_fields\<close> (lines 79 to 97). An entry that
  is not a string is skipped; an entry that does not parse adds a diagnostic and is
  skipped; every other entry is stored under the string of its path.
\<close>

definition parse_diag :: "env \<Rightarrow> string \<Rightarrow> go_error \<Rightarrow> Diagnostic" where
  "parse_diag env vs err =
     error_diag (''[computed_fields] cannot parse filed path element: '' @ vs) (Error env err)"

fun computed_fields_loop ::
  "env \<Rightarrow> tfvalue list \<Rightarrow> (string \<rightharpoonup> AttributePath) \<times> ApplyResourceChangeResponse \<Rightarrow>
   (string \<rightharpoonup> AttributePath) \<times> ApplyResourceChangeResponse" where
  "computed_fields_loop env [] acc = acc"
| "computed_fields_loop env (v # cf) (computedFields, resp) =
     (case As_string v of
        Inl err \<Rightarrow> computed_fields_loop env cf (computedFields, resp)
      | Inr vs \<Rightarrow>
          (case FieldPathToTftypesPath env vs of
             Inl err \<Rightarrow> computed_fields_loop env cf (computedFields, add_diag resp (parse_diag env vs err))
           | Inr atp \<Rightarrow>
               computed_fields_loop env cf (computedFields(path_String env atp \<mapsto> atp), resp)))"

definition default_computed_fields :: "env \<Rightarrow> (string \<rightharpoonup> AttributePath)" where
  "default_computed_fields env =
     (let atp = [AttributeName ''metadata'', AttributeName ''annotations''];
          computedFields = Map.empty(path_String env atp \<mapsto> atp);
          atp = [AttributeName ''metadata'', AttributeName ''labels'']
      in computedFields(path_String env atp \<mapsto> atp))"

definition computed_fields ::
  "env \<Rightarrow> (string \<times> tfvalue) list \<Rightarrow> ApplyResourceChangeResponse \<Rightarrow>
   (string \<rightharpoonup> AttributePath) \<times> ApplyResourceChangeResponse" where
  "computed_fields env plannedStateVal resp =
     (case map_of plannedStateVal ''computed_fields'' of
        None \<Rightarrow> (default_computed_fields env, resp)
      | Some cfVal \<Rightarrow>
          if \<not> IsNull cfVal \<and> IsKnown cfVal
          then computed_fields_loop env (case As_list cfVal of Inl err \<Rightarrow> [] | Inr cf \<Rightarrow> cf)
                 (Map.empty, resp)
          else (default_computed_fields env, resp))"

subsection \<open>Lines 157 to 178: the function given to Transform\<close>

text \<open>
  The lookup of the path in the manifest returns the value found, the steps of the path
  that are left, and an error or none. In the source it returns an interface value,
  which the function asserts to be a \<^verbatim>\<open>tftypes.Value\<close>; the lookup of the model
  returns a value, so the assertion is not a case of its own. The comment of the source
  calls the case of an error with steps left over "attribute not in manifest".
\<close>

definition backfill ::
  "env \<Rightarrow> (string \<rightharpoonup> AttributePath) \<Rightarrow> (string \<times> tfvalue) list \<Rightarrow>
   AttributePath \<Rightarrow> tfvalue \<Rightarrow> go_error + tfvalue" where
  "backfill env computedFields plannedStateVal ap v =
     (case computedFields (path_String env ap) of
        None \<Rightarrow> Inr v
      | Some p \<Rightarrow>
          if IsKnown v then Inr v
          else
            (case WalkAttributePath env (index_or_zero plannedStateVal ''manifest'') ap of
               (ppMan, restPath, Some err) \<Rightarrow>
                 if length restPath > 0 then Inr v else Inl (AttributePathError ap err)
             | (ppMan, restPath, None) \<Rightarrow>
                 (case ValueToType env ppMan (Type v) [] of
                    Inl err \<Rightarrow> Inl (AttributePathError ap err)
                  | Inr nv \<Rightarrow> Inr nv)))"


subsection \<open>Lines 131 to 226: the object to write and the resource handle\<close>

type_synonym target =
  "unstructured \<times> string \<times> string \<times> ResourceInterface \<times> GroupVersionKind \<times> ty"

definition apply_prepare ::
  "env \<Rightarrow> state \<Rightarrow> (string \<times> tfvalue) list \<Rightarrow> (string \<rightharpoonup> AttributePath) \<Rightarrow> client \<Rightarrow> mapper \<Rightarrow>
   ApplyResourceChangeResponse \<Rightarrow> state \<times> (ret + target)" where
  "apply_prepare env s plannedStateVal computedFields c m resp =
     (case map_of plannedStateVal ''object'' of
        None \<Rightarrow>
          (s, Inl (Return (add_diag resp
             (error_diag ''Failed to find object value in planned resource state'' [])) None))
      | Some obj \<Rightarrow>
     (case GVKFromTftypesObject env obj m of
        Inl err \<Rightarrow>
          (s, Inl (Return resp
             (Some (errorString (''failed to determine resource GVK: '' @ Error env err)))))
      | Inr gvk \<Rightarrow>
     (case TFTypeFromOpenAPI env (OAPIFoundry s) gvk False of
        (Inl err, f) \<Rightarrow>
          (s\<lparr>OAPIFoundry := f\<rparr>, Inl (Return resp
             (Some (errorString (''failed to determine resource type ID: '' @ Error env err)))))
      | (Inr tsch, f) \<Rightarrow>
     (let s1 = s\<lparr>OAPIFoundry := f\<rparr> in
      case Transform env obj (backfill env computedFields plannedStateVal) of
        Inl err \<Rightarrow>
          (s1, Inl (Return (add_diag resp
             (error_diag ''Failed to backfill computed values in proposed object''
                (Error env err))) None))
      | Inr obj' \<Rightarrow>
     (let minObj = UnknownToNull env obj' in
      case FromTFValue env minObj [] of
        Inl err \<Rightarrow> (s1, Inl (Return resp (Some err)))
      | Inr pu \<Rightarrow>
     (case pu of
        JObject pum \<Rightarrow>
          (let rqObj = mapRemoveNulls env pum;
               uo = rqObj;
               rnamespace = GetNamespace env uo;
               rname = GetName env uo;
               rnn = NamespacedName_String env rnamespace rname
           in case GVRFromUnstructured env uo m of
                Inl err \<Rightarrow>
                  (s1, Inl (Return resp
                     (Some (errorString (''failed to determine resource GVR: '' @ Error env err)))))
              | Inr gvr \<Rightarrow>
             (case IsResourceNamespaced env gvk m of
                Inl err \<Rightarrow>
                  (s1, Inl (Return (add_diag resp
                     (error_diag (''Failed to discover scope of resource '' @ [squote] @ rnn @ [squote])
                        (Error env err))) None))
              | Inr ns \<Rightarrow>
                  (s1, Inr (uo, rname, rnn,
                     (if ns then Namespace (Resource c gvr) rnamespace else Resource c gvr),
                     gvk, tsch))))
      | JNull \<Rightarrow> (s1, Inl Panic)
      | JBool b \<Rightarrow> (s1, Inl Panic)
      | JNumber n \<Rightarrow> (s1, Inl Panic)
      | JString x \<Rightarrow> (s1, Inl Panic)
      | JArray xs \<Rightarrow> (s1, Inl Panic)))))))"

subsection \<open>Lines 228 to 248: a create checks that the resource does not exist\<close>

definition apply_check_exists ::
  "env \<Rightarrow> state \<Rightarrow> tfvalue \<Rightarrow> ResourceInterface \<Rightarrow> string \<Rightarrow> string \<Rightarrow>
   ApplyResourceChangeResponse \<Rightarrow> state \<times> ret option" where
  "apply_check_exists env s applyPriorState rs rname rnn resp =
     (if IsNull applyPriorState
      then
        (let s1 = s\<lparr>store_calls := store_calls s @ [CallGet rs rname]\<rparr> in
         case Get env rs rname of
           Inr found \<Rightarrow>
             (s1, Some (Return (add_diag resp
                (error_diag ''Cannot create resource that already exists''
                   (''resource '' @ fmt_q env rnn @ '' already exists''))) None))
         | Inl err \<Rightarrow>
             if \<not> IsNotFound env err
             then
               (s1, Some (Return (add_diag resp
                  (error_diag (''Failed to determine if resource '' @ fmt_q env rnn @ '' exists'')
                     (Error env err))) None))
             else (s1, None))
      else (s, None))"

subsection \<open>Lines 250 to 276: the write\<close>

definition patch_failed_summary :: "string \<Rightarrow> string" where
  "patch_failed_summary rnn =
     ''PATCH for resource '' @ [dquote] @ rnn @ [dquote] @ '' failed to apply''"

definition apply_write ::
  "env \<Rightarrow> state \<Rightarrow> unstructured \<Rightarrow> ResourceInterface \<Rightarrow> string \<Rightarrow> string \<Rightarrow>
   ApplyResourceChangeResponse \<Rightarrow> state \<times> (ret + unstructured)" where
  "apply_write env s uo rs rname rnn resp =
     (case MarshalJSON env uo of
        Inl err \<Rightarrow>
          (s, Inl (Return (add_diag resp
             (error_diag (''Failed to marshall resource '' @ [squote] @ rnn @ [squote] @ '' to JSON'')
                (Error env err))) None))
      | Inr jsonManifest \<Rightarrow>
          (let s1 = s\<lparr>store_calls := store_calls s @
                        [CallPatch rs rname ApplyPatchType jsonManifest ''Terraform'']\<rparr> in
           case Patch env rs rname ApplyPatchType jsonManifest ''Terraform'' of
             Inl err \<Rightarrow>
               (case APIStatus env err of
                  Some status \<Rightarrow>
                    (s1, Inl (Return
                       (resp\<lparr>Diagnostics := Diagnostics resp @ APIStatusErrorToDiagnostics env status\<rparr>)
                       None))
                | None \<Rightarrow>
                    (s1, Inl (Return (add_diag resp
                       (error_diag (patch_failed_summary rnn) (Error env err))) None)))
           | Inr result \<Rightarrow> (s1, Inr result)))"

subsection \<open>Lines 278 to 310: the new state\<close>

definition apply_finish ::
  "env \<Rightarrow> state \<Rightarrow> tfvalue \<Rightarrow> (string \<times> tfvalue) list \<Rightarrow> unstructured \<Rightarrow> ResourceInterface \<Rightarrow>
   string \<Rightarrow> GroupVersionKind \<Rightarrow> ty \<Rightarrow> ApplyResourceChangeResponse \<Rightarrow>
   state \<times> (ret + ApplyResourceChangeResponse)" where
  "apply_finish env s applyPlannedState plannedStateVal result rs rname gvk tsch resp =
     (case ToTFValue env (RemoveServerSideFields env result) tsch [] of
        Inl err \<Rightarrow> (s, Inl (Return resp (Some err)))
      | Inr newResObject \<Rightarrow>
     (case TFTypeFromOpenAPI env (OAPIFoundry s) gvk True of
        (Inl err, f) \<Rightarrow>
          (s\<lparr>OAPIFoundry := f\<rparr>, Inl (Return resp
             (Some (errorString (''failed to determine resource type ID: '' @ Error env err)))))
      | (Inr wt, f) \<Rightarrow>
     (let s1 = s\<lparr>OAPIFoundry := f\<rparr> in
      case (case map_of plannedStateVal ''wait_for'' of
              None \<Rightarrow> (s1, None)
            | Some wfVal \<Rightarrow>
                (s1\<lparr>store_calls := store_calls s1 @ [CallWaitFor rs rname]\<rparr>,
                 waitForCompletion env wfVal rs rname wt)) of
        (s2, Some err) \<Rightarrow> (s2, Inl (Return resp (Some err)))
      | (s2, None) \<Rightarrow>
     (case DeepUnknown env tsch newResObject [] of
        Inl err \<Rightarrow> (s2, Inl (Return resp (Some err)))
      | Inr compObj \<Rightarrow>
          (let plannedStateVal' = AList.update ''object'' (UnknownToNull env compObj) plannedStateVal;
               newStateVal = NewValue (Type applyPlannedState) plannedStateVal'
           in case NewDynamicValue env (Type newStateVal) newStateVal of
                Inl err \<Rightarrow> (s2, Inl (Return resp (Some err)))
              | Inr newResState \<Rightarrow> (s2, Inr (resp\<lparr>NewState := Some newResState\<rparr>)))))))"

subsection \<open>Lines 131 to 310: the first case of the switch\<close>

definition apply_resource ::
  "env \<Rightarrow> state \<Rightarrow> tfvalue \<Rightarrow> tfvalue \<Rightarrow> (string \<times> tfvalue) list \<Rightarrow> (string \<rightharpoonup> AttributePath) \<Rightarrow>
   client \<Rightarrow> mapper \<Rightarrow> ApplyResourceChangeResponse \<Rightarrow>
   state \<times> (ret + ApplyResourceChangeResponse)" where
  "apply_resource env s applyPlannedState applyPriorState plannedStateVal computedFields c m resp =
     (case apply_prepare env s plannedStateVal computedFields c m resp of
        (s1, Inl r) \<Rightarrow> (s1, Inl r)
      | (s1, Inr (uo, rname, rnn, rs, gvk, tsch)) \<Rightarrow>
     (case apply_check_exists env s1 applyPriorState rs rname rnn resp of
        (s2, Some r) \<Rightarrow> (s2, Inl r)
      | (s2, None) \<Rightarrow>
     (case apply_write env s2 uo rs rname rnn resp of
        (s3, Inl r) \<Rightarrow> (s3, Inl r)
      | (s3, Inr result) \<Rightarrow>
          apply_finish env s3 applyPlannedState plannedStateVal result rs rname gvk tsch resp)))"

subsection \<open>Lines 312 to 373: the second case of the switch\<close>

definition delete_resource ::
  "env \<Rightarrow> state \<Rightarrow> ApplyResourceChangeRequest \<Rightarrow> tfvalue \<Rightarrow> client \<Rightarrow> mapper \<Rightarrow>
   ApplyResourceChangeResponse \<Rightarrow> state \<times> (ret + ApplyResourceChangeResponse)" where
  "delete_resource env s req applyPriorState c m resp =
     (case As_map applyPriorState of
        Inl err \<Rightarrow>
          (s, Inl (Return (add_diag resp
             (error_diag ''Failed to extract prior resource state values'' (Error env err))) None))
      | Inr priorStateVal \<Rightarrow>
     (case map_of priorStateVal ''object'' of
        None \<Rightarrow>
          (s, Inl (Return (add_diag resp
             (error_diag ''Failed to find object value in prior resource state'' [])) None))
      | Some pco \<Rightarrow>
     (case FromTFValue env pco [] of
        Inl err \<Rightarrow> (s, Inl (Return resp (Some err)))
      | Inr pu \<Rightarrow>
     (case pu of
        JObject uo \<Rightarrow>
          (case GVRFromUnstructured env uo m of
             Inl err \<Rightarrow> (s, Inl (Return resp (Some err)))
           | Inr gvr \<Rightarrow>
          (case GVKFromTftypesObject env pco m of
             Inl err \<Rightarrow>
               (s, Inl (Return resp
                  (Some (errorString (''failed to determine resource GVK: '' @ Error env err)))))
           | Inr gvk \<Rightarrow>
          (case IsResourceNamespaced env gvk m of
             Inl err \<Rightarrow> (s, Inl (Return resp (Some err)))
           | Inr ns \<Rightarrow>
               (let rnamespace = GetNamespace env uo;
                    rname = GetName env uo;
                    rs = (if ns then Namespace (Resource c gvr) rnamespace else Resource c gvr);
                    s1 = s\<lparr>store_calls := store_calls s @ [CallDelete rs rname]\<rparr>
                in case Delete env rs rname of
                     Some err \<Rightarrow>
                       (let rn = NamespacedName_String env rnamespace rname in
                        (s1, Inl (Return (add_diag resp
                           (error_diag (''DELETE resource '' @ rn @ '' failed: '' @ Error env err)
                              (Error env err))) None)))
                   | None \<Rightarrow> (s1, Inr (resp\<lparr>NewState := Some (PlannedState req)\<rparr>))))))
      | JNull \<Rightarrow> (s, Inl Panic)
      | JBool b \<Rightarrow> (s, Inl Panic)
      | JNumber n \<Rightarrow> (s, Inl Panic)
      | JString x \<Rightarrow> (s, Inl Panic)
      | JArray xs \<Rightarrow> (s, Inl Panic)))))"

subsection \<open>The whole function\<close>

text \<open>
  A case of the switch either returns (\<open>Inl\<close>) or falls out of the switch with the
  response (\<open>Inr\<close>); only then are lines 375 to 379 reached, which set
  \<^verbatim>\<open>s.OAPIFoundry\<close> to nil and return the response.
\<close>

definition finish_call :: "state \<times> (ret + ApplyResourceChangeResponse) \<Rightarrow> state \<times> ret" where
  "finish_call x =
     (case x of
        (s, Inl r) \<Rightarrow> (s, r)
      | (s, Inr resp) \<Rightarrow> (s\<lparr>OAPIFoundry := None\<rparr>, Return resp None))"

definition ApplyResourceChange ::
  "env \<Rightarrow> state \<Rightarrow> ApplyResourceChangeRequest \<Rightarrow> state \<times> ret" where
  "ApplyResourceChange env s req =
     (let resp = \<lparr>NewState = None, Diagnostics = []\<rparr>;
          execDiag = canExecute env
      in
      if length execDiag > 0
      then (s, Return (resp\<lparr>Diagnostics := Diagnostics resp @ execDiag\<rparr>) None)
      else
     (case GetResourceType env (TypeName req) of
        Inl err \<Rightarrow>
          (s, Return (add_diag resp
             (error_diag ''Failed to determine planned resource type'' (Error env err))) None)
      | Inr rt \<Rightarrow>
     (case Unmarshal env (PlannedState req) rt of
        Inl err \<Rightarrow>
          (s, Return (add_diag resp
             (error_diag ''Failed to unmarshal planned resource state'' (Error env err))) None)
      | Inr applyPlannedState \<Rightarrow>
     (case Unmarshal env (PriorState req) rt of
        Inl err \<Rightarrow>
          (s, Return (add_diag resp
             (error_diag ''Failed to unmarshal prior resource state'' (Error env err))) None)
      | Inr applyPriorState \<Rightarrow>
     (case As_map applyPlannedState of
        Inl err \<Rightarrow>
          (s, Return (add_diag resp
             (error_diag ''Failed to extract planned resource state values'' (Error env err))) None)
      | Inr plannedStateVal \<Rightarrow>
     (case computed_fields env plannedStateVal resp of
        (computedFields, resp) \<Rightarrow>
     (case getDynamicClient env of
        Inl err \<Rightarrow>
          (s, Return (add_diag resp
             (error_diag ''Failed to retrieve Kubernetes dynamic client during apply''
                (Error env err))) None)
      | Inr c \<Rightarrow>
     (case getRestMapper env of
        Inl err \<Rightarrow>
          (s, Return (add_diag resp
             (error_diag ''Failed to retrieve Kubernetes RESTMapper client during apply''
                (Error env err))) None)
      | Inr m \<Rightarrow>
          if IsNull applyPriorState \<or> (\<not> IsNull applyPlannedState \<and> \<not> IsNull applyPriorState)
          then finish_call (apply_resource env s applyPlannedState applyPriorState plannedStateVal
                              computedFields c m resp)
          else if IsNull applyPlannedState
          then finish_call (delete_resource env s req applyPriorState c m resp)
          else finish_call (s, Inr resp)))))))))"


section \<open>Notions used to state the properties\<close>

text \<open>The kind of a request to the store, forgetting its arguments.\<close>

datatype call_kind = KGet | KPatch | KDelete | KWaitFor

fun kind :: "store_call \<Rightarrow> call_kind" where
  "kind (CallGet rs n) = KGet"
| "kind (CallPatch rs n pt d fm) = KPatch"
| "kind (CallDelete rs n) = KDelete"
| "kind (CallWaitFor rs n) = KWaitFor"

text \<open>
  The sequences of requests of the three operations. A create checks existence, writes,
  and may wait; an update writes and may wait; a delete deletes. Each may stop early.
\<close>

definition create_traces :: "call_kind list set" where
  "create_traces = {[], [KGet], [KGet, KPatch], [KGet, KPatch, KWaitFor]}"

definition update_traces :: "call_kind list set" where
  "update_traces = {[], [KPatch], [KPatch, KWaitFor]}"

definition delete_traces :: "call_kind list set" where
  "delete_traces = {[], [KDelete]}"

text \<open>The causes of a status: those of its details, none when it has no details.\<close>

definition status_causes :: "Status \<Rightarrow> StatusCause list" where
  "status_causes st = (case status_details st of None \<Rightarrow> [] | Some d \<Rightarrow> details_causes d)"

definition empty_response :: ApplyResourceChangeResponse where
  "empty_response = \<lparr>NewState = None, Diagnostics = []\<rparr>"

text \<open>
  What a part of the function does apart from the response it returns with: the state
  it leaves, and the values it hands to the next part when it does not return.
\<close>

definition erase :: "state \<times> (ret + 'a) \<Rightarrow> state \<times> (unit + 'a)" where
  "erase x = (fst x, map_sum (\<lambda>r. ()) id (snd x))"

section \<open>A model of the collaborators, for the examples\<close>

text \<open>
  Small executable versions of the collaborators, on which the function is run in the
  examples: a walk over a value that applies the given function to every node, children
  first; a lookup of a path in a value; conversions between values and untyped objects;
  a table of the encoded states.
\<close>

fun transform0 ::
  "(AttributePath \<Rightarrow> tfvalue \<Rightarrow> go_error + tfvalue) \<Rightarrow> AttributePath \<Rightarrow> tfvalue \<Rightarrow> go_error + tfvalue"
and transform0_seq ::
  "(AttributePath \<Rightarrow> tfvalue \<Rightarrow> go_error + tfvalue) \<Rightarrow> AttributePath \<Rightarrow> int \<Rightarrow> tfvalue list \<Rightarrow> go_error + tfvalue list"
and transform0_assoc ::
  "(AttributePath \<Rightarrow> tfvalue \<Rightarrow> go_error + tfvalue) \<Rightarrow> AttributePath \<Rightarrow> bool \<Rightarrow> (string \<times> tfvalue) list \<Rightarrow> go_error + (string \<times> tfvalue) list"
where
  "transform0 cb path (Null t) = cb path (Null t)"
| "transform0 cb path (Unknown t) = cb path (Unknown t)"
| "transform0 cb path (Prim t p) = cb path (Prim t p)"
| "transform0 cb path (Seq t vs) =
     (case transform0_seq cb path 0 vs of
        Inl err \<Rightarrow> Inl err
      | Inr vs' \<Rightarrow> cb path (Seq t vs'))"
| "transform0 cb path (Assoc t m) =
     (case transform0_assoc cb path (case t of Map et \<Rightarrow> True | _ \<Rightarrow> False) m of
        Inl err \<Rightarrow> Inl err
      | Inr m' \<Rightarrow> cb path (Assoc t m'))"
| "transform0_seq cb path i [] = Inr []"
| "transform0_seq cb path i (v # vs) =
     (case transform0 cb (path @ [ElementKeyInt i]) v of
        Inl err \<Rightarrow> Inl err
      | Inr v' \<Rightarrow>
          (case transform0_seq cb path (i + 1) vs of
             Inl err \<Rightarrow> Inl err
           | Inr vs' \<Rightarrow> Inr (v' # vs')))"
| "transform0_assoc cb path is_map [] = Inr []"
| "transform0_assoc cb path is_map ((k, v) # m) =
     (case transform0 cb (path @ [if is_map then ElementKeyString k else AttributeName k]) v of
        Inl err \<Rightarrow> Inl err
      | Inr v' \<Rightarrow>
          (case transform0_assoc cb path is_map m of
             Inl err \<Rightarrow> Inl err
           | Inr m' \<Rightarrow> Inr ((k, v') # m')))"

fun step0 :: "tfvalue \<Rightarrow> AttributePathStep \<Rightarrow> tfvalue option" where
  "step0 (Assoc t m) (AttributeName k) = map_of m k"
| "step0 (Assoc t m) (ElementKeyString k) = map_of m k"
| "step0 (Seq t vs) (ElementKeyInt i) = (if 0 \<le> i \<and> nat i < length vs then Some (vs ! nat i) else None)"
| "step0 v st = None"

fun walk0 :: "tfvalue \<Rightarrow> AttributePath \<Rightarrow> tfvalue \<times> AttributePath \<times> go_error option" where
  "walk0 v [] = (v, [], None)"
| "walk0 v (st # path) =
     (case step0 v st of
        None \<Rightarrow> (v, st # path, Some (errorString ''step cannot be applied to this value''))
      | Some v' \<Rightarrow> walk0 v' path)"

fun morph0 :: "tfvalue \<Rightarrow> ty \<Rightarrow> AttributePath \<Rightarrow> go_error + tfvalue" where
  "morph0 (Null t) t' p = Inr (Null t')"
| "morph0 (Unknown t) t' p = Inr (Unknown t')"
| "morph0 (Prim t x) t' p =
     (if t' = t \<or> t' = DynamicPseudoType then Inr (Prim t x)
      else Inl (errorString ''unsupported morph of primitive value''))"
| "morph0 (Seq t vs) t' p =
     (case t' of
        List et \<Rightarrow> Inr (Seq t' vs) | Set et \<Rightarrow> Inr (Seq t' vs) | Tuple ets \<Rightarrow> Inr (Seq t' vs)
      | DynamicPseudoType \<Rightarrow> Inr (Seq t vs)
      | _ \<Rightarrow> Inl (errorString ''unsupported morph of list value''))"
| "morph0 (Assoc t m) t' p =
     (case t' of
        Map et \<Rightarrow> Inr (Assoc t' m) | Object ats \<Rightarrow> Inr (Assoc t' m)
      | DynamicPseudoType \<Rightarrow> Inr (Assoc t m)
      | _ \<Rightarrow> Inl (errorString ''unsupported morph of object value''))"

fun unknown_to_null0 :: "tfvalue \<Rightarrow> tfvalue"
and unknown_to_null0_seq :: "tfvalue list \<Rightarrow> tfvalue list"
and unknown_to_null0_assoc :: "(string \<times> tfvalue) list \<Rightarrow> (string \<times> tfvalue) list" where
  "unknown_to_null0 (Unknown t) = Null t"
| "unknown_to_null0 (Null t) = Null t"
| "unknown_to_null0 (Prim t x) = Prim t x"
| "unknown_to_null0 (Seq t vs) = Seq t (unknown_to_null0_seq vs)"
| "unknown_to_null0 (Assoc t m) = Assoc t (unknown_to_null0_assoc m)"
| "unknown_to_null0_seq [] = []"
| "unknown_to_null0_seq (v # vs) = unknown_to_null0 v # unknown_to_null0_seq vs"
| "unknown_to_null0_assoc [] = []"
| "unknown_to_null0_assoc ((k, v) # m) = (k, unknown_to_null0 v) # unknown_to_null0_assoc m"

fun from_tf0 :: "tfvalue \<Rightarrow> go_error + json"
and from_tf0_seq :: "tfvalue list \<Rightarrow> go_error + json list"
and from_tf0_assoc :: "(string \<times> tfvalue) list \<Rightarrow> go_error + (string \<times> json) list" where
  "from_tf0 (Unknown t) = Inl (errorString ''cannot convert unknown value'')"
| "from_tf0 (Null t) = Inr JNull"
| "from_tf0 (Prim t (PString x)) = Inr (JString x)"
| "from_tf0 (Prim t (PNumber x)) = Inr (JNumber x)"
| "from_tf0 (Prim t (PBool x)) = Inr (JBool x)"
| "from_tf0 (Seq t vs) = (case from_tf0_seq vs of Inl err \<Rightarrow> Inl err | Inr js \<Rightarrow> Inr (JArray js))"
| "from_tf0 (Assoc t m) = (case from_tf0_assoc m of Inl err \<Rightarrow> Inl err | Inr jm \<Rightarrow> Inr (JObject jm))"
| "from_tf0_seq [] = Inr []"
| "from_tf0_seq (v # vs) =
     (case from_tf0 v of
        Inl err \<Rightarrow> Inl err
      | Inr j \<Rightarrow> (case from_tf0_seq vs of Inl err \<Rightarrow> Inl err | Inr js \<Rightarrow> Inr (j # js)))"
| "from_tf0_assoc [] = Inr []"
| "from_tf0_assoc ((k, v) # m) =
     (case from_tf0 v of
        Inl err \<Rightarrow> Inl err
      | Inr j \<Rightarrow> (case from_tf0_assoc m of Inl err \<Rightarrow> Inl err | Inr jm \<Rightarrow> Inr ((k, j) # jm)))"

fun remove_nulls0 :: "json \<Rightarrow> json"
and remove_nulls0_fields :: "(string \<times> json) list \<Rightarrow> (string \<times> json) list" where
  "remove_nulls0 (JObject m) = JObject (remove_nulls0_fields m)"
| "remove_nulls0 JNull = JNull"
| "remove_nulls0 (JBool b) = JBool b"
| "remove_nulls0 (JNumber n) = JNumber n"
| "remove_nulls0 (JString x) = JString x"
| "remove_nulls0 (JArray js) = JArray js"
| "remove_nulls0_fields [] = []"
| "remove_nulls0_fields ((k, j) # m) =
     (if j = JNull then remove_nulls0_fields m else (k, remove_nulls0 j) # remove_nulls0_fields m)"

definition nested_string0 :: "unstructured \<Rightarrow> string \<Rightarrow> string \<Rightarrow> string" where
  "nested_string0 uo k1 k2 =
     (case map_of uo k1 of
        Some (JObject m) \<Rightarrow> (case map_of m k2 of Some (JString x) \<Rightarrow> x | _ \<Rightarrow> [])
      | _ \<Rightarrow> [])"

definition server_side_fields0 :: "string list" where
  "server_side_fields0 = [''creationTimestamp'', ''resourceVersion'', ''uid'', ''managedFields'']"

fun remove_server_side0 :: "unstructured \<Rightarrow> unstructured" where
  "remove_server_side0 [] = []"
| "remove_server_side0 ((k, j) # m) =
     (if k = ''metadata''
      then (k, (case j of
                  JObject mm \<Rightarrow> JObject (filter (\<lambda>kv. fst kv \<notin> set server_side_fields0) mm)
                | _ \<Rightarrow> j)) # remove_server_side0 m
      else (k, j) # remove_server_side0 m)"

definition attr_type0 :: "ty \<Rightarrow> string \<Rightarrow> ty" where
  "attr_type0 t k =
     (case t of
        Object ats \<Rightarrow> (case map_of ats k of Some kt \<Rightarrow> kt | None \<Rightarrow> DynamicPseudoType)
      | Map et \<Rightarrow> et
      | _ \<Rightarrow> DynamicPseudoType)"

fun to_tf0 :: "ty \<Rightarrow> json \<Rightarrow> tfvalue"
and to_tf0_fields :: "ty \<Rightarrow> (string \<times> json) list \<Rightarrow> (string \<times> tfvalue) list" where
  "to_tf0 t JNull = Null t"
| "to_tf0 t (JBool b) = Prim Bool (PBool b)"
| "to_tf0 t (JNumber n) = Prim Number (PNumber n)"
| "to_tf0 t (JString x) = Prim String (PString x)"
| "to_tf0 t (JArray js) = Seq t []"
| "to_tf0 t (JObject m) = Assoc t (to_tf0_fields t m)"
| "to_tf0_fields t [] = []"
| "to_tf0_fields t ((k, j) # m) = (k, to_tf0 (attr_type0 t k) j) # to_tf0_fields t m"

fun deep_unknown0 :: "ty \<Rightarrow> tfvalue \<Rightarrow> tfvalue"
and deep_unknown0_attrs :: "(string \<times> ty) list \<Rightarrow> (string \<times> tfvalue) list \<Rightarrow> (string \<times> tfvalue) list" where
  "deep_unknown0 (Object ats) v =
     (case v of
        Assoc t m \<Rightarrow> Assoc (Object ats) (deep_unknown0_attrs ats m)
      | Null t \<Rightarrow> Unknown (Object ats)
      | _ \<Rightarrow> v)"
| "deep_unknown0 NilType v = (if IsNull v then Unknown NilType else v)"
| "deep_unknown0 DynamicPseudoType v = (if IsNull v then Unknown DynamicPseudoType else v)"
| "deep_unknown0 String v = (if IsNull v then Unknown String else v)"
| "deep_unknown0 Number v = (if IsNull v then Unknown Number else v)"
| "deep_unknown0 Bool v = (if IsNull v then Unknown Bool else v)"
| "deep_unknown0 (List et) v = (if IsNull v then Unknown (List et) else v)"
| "deep_unknown0 (Set et) v = (if IsNull v then Unknown (Set et) else v)"
| "deep_unknown0 (Map et) v = (if IsNull v then Unknown (Map et) else v)"
| "deep_unknown0 (Tuple ets) v = (if IsNull v then Unknown (Tuple ets) else v)"
| "deep_unknown0_attrs [] m = []"
| "deep_unknown0_attrs ((k, kt) # ats) m =
     (k, (case map_of m k of None \<Rightarrow> Unknown kt | Some x \<Rightarrow> deep_unknown0 kt x))
       # deep_unknown0_attrs ats m"

fun render0 :: "tfvalue \<Rightarrow> string"
and render0_seq :: "tfvalue list \<Rightarrow> string"
and render0_assoc :: "(string \<times> tfvalue) list \<Rightarrow> string" where
  "render0 (Null t) = ''null''"
| "render0 (Unknown t) = ''unknown''"
| "render0 (Prim t (PString x)) = [dquote] @ x @ [dquote]"
| "render0 (Prim t (PNumber x)) = ''number''"
| "render0 (Prim t (PBool x)) = (if x then ''true'' else ''false'')"
| "render0 (Seq t vs) = ''['' @ render0_seq vs @ '']''"
| "render0 (Assoc t m) = ''{'' @ render0_assoc m @ ''}''"
| "render0_seq [] = []"
| "render0_seq (v # vs) = render0 v @ '','' @ render0_seq vs"
| "render0_assoc [] = []"
| "render0_assoc ((k, v) # m) = k @ '':'' @ render0 v @ '','' @ render0_assoc m"

fun split_dots0 :: "string \<Rightarrow> string \<Rightarrow> string list" where
  "split_dots0 acc [] = [acc]"
| "split_dots0 acc (c # cs) =
     (if c = CHR ''.'' then acc # split_dots0 [] cs else split_dots0 (acc @ [c]) cs)"

definition parse_path0 :: "string \<Rightarrow> go_error + AttributePath" where
  "parse_path0 x =
     (let parts = split_dots0 [] x in
      if [] \<in> set parts then Inl (errorString ''empty path element'')
      else Inr (map AttributeName parts))"

fun step_string0 :: "AttributePathStep \<Rightarrow> string" where
  "step_string0 (AttributeName k) = k"
| "step_string0 (ElementKeyString k) = k"
| "step_string0 (ElementKeyInt i) = ''#''"
| "step_string0 (ElementKeyValue v) = ''*''"

fun path_string0 :: "AttributePath \<Rightarrow> string" where
  "path_string0 [] = []"
| "path_string0 [st] = step_string0 st"
| "path_string0 (st # p) = step_string0 st @ ''.'' @ path_string0 p"

fun error0 :: "go_error \<Rightarrow> string" where
  "error0 (errorString x) = x"
| "error0 (AttributePathError p err) = path_string0 p @ '': '' @ error0 err"
| "error0 (StatusError st) = status_message st"

fun api_status0 :: "go_error \<Rightarrow> Status option" where
  "api_status0 (StatusError st) = Some st"
| "api_status0 (AttributePathError p err) = api_status0 err"
| "api_status0 (errorString x) = None"

definition is_not_found0 :: "go_error \<Rightarrow> bool" where
  "is_not_found0 err =
     (case api_status0 err of Some st \<Rightarrow> status_reason st = ''NotFound'' | None \<Rightarrow> False)"

text \<open>
  A translator of a status into diagnostics, of the shape of the provider's
  \<^verbatim>\<open>APIStatusErrorToDiagnostics\<close> (which is not part of \<^verbatim>\<open>apply.go\<close>): one
  diagnostic for the status, and, when the status has details, one for the details and
  one for each of their causes.
\<close>

definition group_kind0 :: "StatusDetails \<Rightarrow> string" where
  "group_kind0 d =
     (if details_group d = [] then details_kind d else details_kind d @ ''.'' @ details_group d)"

definition status_diags0 :: "Status \<Rightarrow> Diagnostic list" where
  "status_diags0 st =
     error_diag (''API response status: '' @ status_status st) (status_message st) #
     (case status_details st of
        None \<Rightarrow> []
      | Some d \<Rightarrow>
          error_diag (''Kubernetes API Error: '' @ status_reason st @ '' '' @ group_kind0 d @
                        '' ['' @ details_name d @ '']'') [] #
          map (\<lambda>c. error_diag (cause_field c) (cause_message c)) (details_causes d))"


definition metaT :: ty where
  "metaT = Object [(''name'', String), (''namespace'', String),
                   (''labels'', Map String), (''annotations'', Map String)]"

definition specT :: ty where
  "specT = Object [(''replicas'', Number)]"

definition objT :: ty where
  "objT = Object [(''metadata'', metaT), (''spec'', specT)]"

definition objT_status :: ty where
  "objT_status = Object [(''metadata'', metaT), (''spec'', specT), (''status'', Map String)]"

definition rt0 :: ty where
  "rt0 = Object [(''manifest'', DynamicPseudoType), (''object'', DynamicPseudoType),
                 (''computed_fields'', List String), (''wait_for'', Map String)]"

definition manifest0 :: tfvalue where
  "manifest0 =
     Assoc objT
       [(''metadata'', Assoc metaT
           [(''name'', Prim String (PString ''x'')),
            (''namespace'', Prim String (PString ''ns'')),
            (''labels'', Assoc (Map String) [(''app'', Prim String (PString ''web''))])]),
        (''spec'', Assoc specT [(''replicas'', Prim Number (PNumber 3))])]"

definition obj0 :: tfvalue where
  "obj0 =
     Assoc objT
       [(''metadata'', Assoc metaT
           [(''name'', Prim String (PString ''x'')),
            (''namespace'', Prim String (PString ''ns'')),
            (''labels'', Unknown (Map String)),
            (''annotations'', Unknown (Map String))]),
        (''spec'', Assoc specT [(''replicas'', Prim Number (PNumber 3))])]"

definition planned0 :: tfvalue where
  "planned0 = Assoc rt0 [(''manifest'', manifest0), (''object'', obj0)]"

definition stored0 :: tfvalue where
  "stored0 =
     Assoc objT
       [(''metadata'', Assoc metaT
           [(''name'', Prim String (PString ''x'')),
            (''namespace'', Prim String (PString ''ns''))]),
        (''spec'', Assoc specT [(''replicas'', Prim Number (PNumber 1))])]"

definition prior0 :: tfvalue where
  "prior0 = Assoc rt0 [(''manifest'', manifest0), (''object'', stored0)]"

text \<open>The planned state with a completion condition.\<close>

definition planned_wait0 :: tfvalue where
  "planned_wait0 =
     Assoc rt0 [(''manifest'', manifest0), (''object'', obj0),
                (''wait_for'', Assoc (Map String) [(''rollout'', Prim String (PString ''true''))])]"

text \<open>The planned state with two computed fields, the second of which does not parse.\<close>

definition planned_cf0 :: tfvalue where
  "planned_cf0 =
     Assoc rt0 [(''manifest'', manifest0), (''object'', obj0),
                (''computed_fields'', Seq (List String)
                   [Prim String (PString ''metadata.labels''),
                    Prim String (PString ''spec..replicas'')])]"

text \<open>The planned state with an empty list of computed fields.\<close>

definition planned_empty_cf0 :: tfvalue where
  "planned_empty_cf0 =
     Assoc rt0 [(''manifest'', manifest0), (''object'', obj0),
                (''computed_fields'', Seq (List String) [])]"

text \<open>A manifest whose labels are a string, which cannot become a map.\<close>

definition manifest_bad0 :: tfvalue where
  "manifest_bad0 =
     Assoc objT
       [(''metadata'', Assoc metaT
           [(''name'', Prim String (PString ''x'')),
            (''namespace'', Prim String (PString ''ns'')),
            (''labels'', Prim String (PString ''web''))])]"

definition planned_bad0 :: tfvalue where
  "planned_bad0 = Assoc rt0 [(''manifest'', manifest_bad0), (''object'', obj0)]"


definition result0 :: unstructured where
  "result0 =
     [(''metadata'', JObject
         [(''name'', JString ''x''),
          (''namespace'', JString ''ns''),
          (''labels'', JObject [(''app'', JString ''web'')]),
          (''resourceVersion'', JString ''42'')]),
      (''spec'', JObject [(''replicas'', JNumber 3)])]"

definition encode0 :: "tfvalue \<Rightarrow> DynamicValue" where
  "encode0 v = DynamicValue [] (render0 v)"

definition decode0 :: "tfvalue list \<Rightarrow> DynamicValue \<Rightarrow> ty \<Rightarrow> go_error + tfvalue" where
  "decode0 known dv t =
     (case find (\<lambda>v. encode0 v = dv) known of
        None \<Rightarrow> Inl (errorString ''cannot decode the value'')
      | Some v \<Rightarrow> Inr v)"

definition not_found0 :: go_error where
  "not_found0 =
     StatusError \<lparr>status_status = ''Failure'', status_message = ''deployments x not found'',
                  status_reason = ''NotFound'', status_details = None, status_code = 404\<rparr>"

definition env0 :: env where
  "env0 =
     \<lparr>canExecute = [],
      GetResourceType = (\<lambda>n. if n = ''kubernetes_manifest'' then Inr rt0
                             else Inl (errorString ''unknown resource type'')),
      Unmarshal = decode0 [Null rt0, planned0, prior0, planned_wait0, planned_cf0,
                           planned_empty_cf0, planned_bad0],
      FieldPathToTftypesPath = parse_path0,
      path_String = path_string0,
      getDynamicClient = Inr DynamicClient,
      getRestMapper = Inr RESTMapper,
      GVKFromTftypesObject = (\<lambda>v m. Inr (GroupVersionKind ''apps'' ''v1'' ''Deployment'')),
      TFTypeFromOpenAPI = (\<lambda>f gvk status.
         (Inr (if status then objT_status else objT), Some (Foundry ''openapi v2''))),
      Transform = (\<lambda>v cb. transform0 cb [] v),
      WalkAttributePath = walk0,
      ValueToType = morph0,
      UnknownToNull = unknown_to_null0,
      FromTFValue = (\<lambda>v p. from_tf0 v),
      mapRemoveNulls = remove_nulls0_fields,
      GetNamespace = (\<lambda>uo. nested_string0 uo ''metadata'' ''namespace''),
      GetName = (\<lambda>uo. nested_string0 uo ''metadata'' ''name''),
      NamespacedName_String = (\<lambda>ns n. ns @ ''/'' @ n),
      GVRFromUnstructured = (\<lambda>uo m. Inr (GroupVersionResource ''apps'' ''v1'' ''deployments'')),
      IsResourceNamespaced = (\<lambda>gvk m. Inr True),
      Get = (\<lambda>rs n. Inl not_found0),
      IsNotFound = is_not_found0,
      MarshalJSON = (\<lambda>uo. Inr (render0 (to_tf0 DynamicPseudoType (JObject uo)))),
      Patch = (\<lambda>rs n pt d fm. Inr result0),
      APIStatus = api_status0,
      APIStatusErrorToDiagnostics = status_diags0,
      RemoveServerSideFields = remove_server_side0,
      ToTFValue = (\<lambda>uo t p. Inr (to_tf0 t (JObject uo))),
      waitForCompletion = (\<lambda>w rs n t. None),
      DeepUnknown = (\<lambda>t v p. Inr (deep_unknown0 t v)),
      NewDynamicValue = (\<lambda>t v. Inr (encode0 v)),
      Delete = (\<lambda>rs n. None),
      Error = error0,
      fmt_q = (\<lambda>x. [dquote] @ x @ [dquote])\<rparr>"

definition s0 :: state where
  "s0 = \<lparr>OAPIFoundry = None, store_calls = []\<rparr>"

text \<open>A server whose cache of discovered types is filled.\<close>

definition s0_cached :: state where
  "s0_cached = \<lparr>OAPIFoundry = Some (Foundry ''openapi v2''), store_calls = []\<rparr>"

definition request0 :: "tfvalue \<Rightarrow> tfvalue \<Rightarrow> ApplyResourceChangeRequest" where
  "request0 prior planned =
     \<lparr>TypeName = ''kubernetes_manifest'', PriorState = encode0 prior,
      PlannedState = encode0 planned\<rparr>"

text \<open>The object of the new state in the examples, and the requests they send.\<close>

definition new_object0 :: tfvalue where
  "new_object0 =
     Assoc objT
       [(''metadata'', Assoc metaT
           [(''name'', Prim String (PString ''x'')),
            (''namespace'', Prim String (PString ''ns'')),
            (''labels'', Assoc (Map String) [(''app'', Prim String (PString ''web''))]),
            (''annotations'', Null (Map String))]),
        (''spec'', Assoc specT [(''replicas'', Prim Number (PNumber 3))])]"

definition gvk0 :: GroupVersionKind where
  "gvk0 = GroupVersionKind ''apps'' ''v1'' ''Deployment''"

definition rs0 :: ResourceInterface where
  "rs0 = Namespace (Resource DynamicClient (GroupVersionResource ''apps'' ''v1'' ''deployments'')) ''ns''"

definition payload0 :: string where
  "payload0 = ''{metadata:{name:\"x\",namespace:\"ns\",labels:{app:\"web\",},},spec:{replicas:number,},}''"

definition payload_no_labels0 :: string where
  "payload_no_labels0 = ''{metadata:{name:\"x\",namespace:\"ns\",},spec:{replicas:number,},}''"

definition patch0 :: store_call where
  "patch0 = CallPatch rs0 ''x'' ApplyPatchType payload0 ''Terraform''"

text \<open>
  The planned object of the examples after the backfill, its conversion, and the object
  that is written; the object that the prior state of the examples holds.
\<close>

definition backfilled0 :: tfvalue where
  "backfilled0 =
     Assoc objT
       [(''metadata'', Assoc metaT
           [(''name'', Prim String (PString ''x'')),
            (''namespace'', Prim String (PString ''ns'')),
            (''labels'', Assoc (Map String) [(''app'', Prim String (PString ''web''))]),
            (''annotations'', Unknown (Map String))]),
        (''spec'', Assoc specT [(''replicas'', Prim Number (PNumber 3))])]"

definition converted0 :: unstructured where
  "converted0 =
     [(''metadata'', JObject
         [(''name'', JString ''x''),
          (''namespace'', JString ''ns''),
          (''labels'', JObject [(''app'', JString ''web'')]),
          (''annotations'', JNull)]),
      (''spec'', JObject [(''replicas'', JNumber 3)])]"

definition written0 :: unstructured where
  "written0 =
     [(''metadata'', JObject
         [(''name'', JString ''x''),
          (''namespace'', JString ''ns''),
          (''labels'', JObject [(''app'', JString ''web'')])]),
      (''spec'', JObject [(''replicas'', JNumber 3)])]"

definition stored_object0 :: unstructured where
  "stored_object0 =
     [(''metadata'', JObject [(''name'', JString ''x''), (''namespace'', JString ''ns'')]),
      (''spec'', JObject [(''replicas'', JNumber 1)])]"

text \<open>Stores that answer differently, and a waiter that gives up.\<close>

definition invalid0 :: Status where
  "invalid0 =
     \<lparr>status_status = ''Failure'', status_message = ''Deployment x is invalid'',
      status_reason = ''Invalid'',
      status_details = Some
        \<lparr>details_name = ''x'', details_group = ''apps'', details_kind = ''Deployment'',
         details_causes =
           [\<lparr>cause_type = ''FieldValueInvalid'', cause_message = ''must be positive'',
             cause_field = ''spec.replicas''\<rparr>,
            \<lparr>cause_type = ''FieldValueRequired'', cause_message = ''is required'',
             cause_field = ''spec.selector''\<rparr>]\<rparr>,
      status_code = 422\<rparr>"

definition forbidden0 :: go_error where
  "forbidden0 =
     StatusError \<lparr>status_status = ''Failure'', status_message = ''deployments x is forbidden'',
                  status_reason = ''Forbidden'', status_details = None, status_code = 403\<rparr>"

definition timeout0 :: go_error where
  "timeout0 = errorString ''timed out waiting for the condition''"

definition env_exists :: env where
  "env_exists = env0\<lparr>Get := (\<lambda>rs n. Inr result0)\<rparr>"

definition env_forbidden :: env where
  "env_forbidden = env0\<lparr>Get := (\<lambda>rs n. Inl forbidden0)\<rparr>"

definition env_invalid :: env where
  "env_invalid = env0\<lparr>Patch := (\<lambda>rs n pt d fm. Inl (StatusError invalid0))\<rparr>"

definition env_refused :: env where
  "env_refused = env0\<lparr>Patch := (\<lambda>rs n pt d fm. Inl (errorString ''connection refused''))\<rparr>"

definition env_gone :: env where
  "env_gone = env0\<lparr>Delete := (\<lambda>rs n. Some not_found0)\<rparr>"

definition env_timeout :: env where
  "env_timeout = env0\<lparr>waitForCompletion := (\<lambda>w rs n t. Some timeout0)\<rparr>"


section \<open>Lemmas about the parts of the function\<close>

subsection \<open>The computed fields\<close>

lemma computed_fields_loop_NewState:
  "NewState (snd (computed_fields_loop env cf (cfs, resp))) = NewState resp"
  by (induction cf arbitrary: cfs resp) (auto simp: add_diag_def split: sum.splits)

lemma computed_fields_loop_Diagnostics:
  "\<exists>ds. Diagnostics (snd (computed_fields_loop env cf (cfs, resp))) = Diagnostics resp @ ds"
proof (induction cf arbitrary: cfs resp)
  case Nil
  then show ?case by simp
next
  case (Cons v cf)
  show ?case
  proof (cases "As_string v")
    case (Inl e)
    with Cons show ?thesis by simp
  next
    case (Inr vs)
    show ?thesis
    proof (cases "FieldPathToTftypesPath env vs")
      case (Inl e)
      from Cons[of cfs "add_diag resp (parse_diag env vs e)"] Inr Inl
      show ?thesis by (auto simp: add_diag_def)
    next
      case r: (Inr atp)
      with Cons Inr show ?thesis by simp
    qed
  qed
qed

lemma computed_fields_loop_NewState':
  "computed_fields_loop env cf (cfs0, resp) = (cfs, resp1) \<Longrightarrow> NewState resp1 = NewState resp"
  using computed_fields_loop_NewState[of env cf cfs0 resp] by simp

lemma computed_fields_loop_Diagnostics':
  "computed_fields_loop env cf (cfs0, resp) = (cfs, resp1) \<Longrightarrow>
   \<exists>ds. Diagnostics resp1 = Diagnostics resp @ ds"
  using computed_fields_loop_Diagnostics[of env cf cfs0 resp] by simp

lemma computed_fields_NewState:
  "computed_fields env psv resp = (cfs, resp1) \<Longrightarrow> NewState resp1 = NewState resp"
  by (auto simp: computed_fields_def split: option.splits if_splits
           dest: computed_fields_loop_NewState')

lemma computed_fields_Diagnostics:
  "computed_fields env psv resp = (cfs, resp1) \<Longrightarrow> \<exists>ds. Diagnostics resp1 = Diagnostics resp @ ds"
  by (auto simp: computed_fields_def split: option.splits if_splits
           dest: computed_fields_loop_Diagnostics')

subsection \<open>The parts of the first case\<close>

lemma apply_prepare_calls:
  "apply_prepare env s psv cfs c m resp = (s', x) \<Longrightarrow> store_calls s' = store_calls s"
  by (auto simp: apply_prepare_def Let_def
           split: option.splits sum.splits prod.splits json.splits if_splits)

lemma apply_prepare_Inl:
  "apply_prepare env s psv cfs c m resp = (s', Inl r) \<Longrightarrow>
   r = Panic \<or> (\<exists>resp' e. r = Return resp' e \<and> NewState resp' = NewState resp)"
  by (auto simp: apply_prepare_def Let_def add_diag_def
           split: option.splits sum.splits prod.splits json.splits if_splits)


lemma apply_check_exists_Some:
  assumes "apply_check_exists env s pr rs rname rnn resp = (s', Some r)"
  shows "IsNull pr \<and> s' = s\<lparr>store_calls := store_calls s @ [CallGet rs rname]\<rparr> \<and>
     (case Get env rs rname of
        Inr found \<Rightarrow>
          r = Return (add_diag resp
                (error_diag ''Cannot create resource that already exists''
                   (''resource '' @ fmt_q env rnn @ '' already exists''))) None
      | Inl err \<Rightarrow>
          \<not> IsNotFound env err \<and>
          r = Return (add_diag resp
                (error_diag (''Failed to determine if resource '' @ fmt_q env rnn @ '' exists'')
                   (Error env err))) None)"
  using assms
  by (auto simp: apply_check_exists_def Let_def split: sum.splits if_splits)

lemma apply_check_exists_None:
  assumes "apply_check_exists env s pr rs rname rnn resp = (s', None)"
  shows "if IsNull pr
         then s' = s\<lparr>store_calls := store_calls s @ [CallGet rs rname]\<rparr> \<and>
              (\<exists>err. Get env rs rname = Inl err \<and> IsNotFound env err)
         else s' = s"
  using assms
  by (auto simp: apply_check_exists_def Let_def split: sum.splits if_splits)

lemma apply_write_Inl:
  assumes "apply_write env s uo rs rname rnn resp = (s', Inl r)"
  shows "(\<exists>err. MarshalJSON env uo = Inl err \<and> s' = s \<and>
            r = Return (add_diag resp
                  (error_diag (''Failed to marshall resource '' @ [squote] @ rnn @ [squote] @ '' to JSON'')
                     (Error env err))) None) \<or>
         (\<exists>j err. MarshalJSON env uo = Inr j \<and>
            s' = s\<lparr>store_calls := store_calls s @ [CallPatch rs rname ApplyPatchType j ''Terraform'']\<rparr> \<and>
            Patch env rs rname ApplyPatchType j ''Terraform'' = Inl err \<and>
            r = Return (resp\<lparr>Diagnostics := Diagnostics resp @
                    (case APIStatus env err of
                       Some status \<Rightarrow> APIStatusErrorToDiagnostics env status
                     | None \<Rightarrow> [error_diag (patch_failed_summary rnn) (Error env err)])\<rparr>) None)"
  using assms
  by (auto simp: apply_write_def Let_def add_diag_def split: sum.splits option.splits if_splits)

lemma apply_write_Inr:
  assumes "apply_write env s uo rs rname rnn resp = (s', Inr result)"
  shows "\<exists>j. MarshalJSON env uo = Inr j \<and>
            s' = s\<lparr>store_calls := store_calls s @ [CallPatch rs rname ApplyPatchType j ''Terraform'']\<rparr> \<and>
            Patch env rs rname ApplyPatchType j ''Terraform'' = Inr result"
  using assms
  by (auto simp: apply_write_def Let_def split: sum.splits option.splits if_splits)

lemma apply_finish_Inl:
  assumes "apply_finish env s pl psv result rs rname gvk tsch resp = (s', Inl r)"
  shows "\<exists>err. r = Return resp (Some err)"
  using assms
  by (auto simp: apply_finish_def Let_def split: sum.splits option.splits prod.splits if_splits)

lemma apply_finish_calls:
  "apply_finish env s pl psv result rs rname gvk tsch resp = (s', x) \<Longrightarrow>
   store_calls s' = store_calls s \<or> store_calls s' = store_calls s @ [CallWaitFor rs rname]"
  by (auto simp: apply_finish_def Let_def split: option.splits sum.splits prod.splits if_splits)

lemma apply_resource_cases:
  assumes "apply_resource env s pl pr psv cfs c m resp = (s', x)"
  obtains
    r where "apply_prepare env s psv cfs c m resp = (s', Inl r)" "x = Inl r"
  | s1 uo rname rnn rs gvk tsch r where
      "apply_prepare env s psv cfs c m resp = (s1, Inr (uo, rname, rnn, rs, gvk, tsch))"
      "apply_check_exists env s1 pr rs rname rnn resp = (s', Some r)" "x = Inl r"
  | s1 uo rname rnn rs gvk tsch s2 r where
      "apply_prepare env s psv cfs c m resp = (s1, Inr (uo, rname, rnn, rs, gvk, tsch))"
      "apply_check_exists env s1 pr rs rname rnn resp = (s2, None)"
      "apply_write env s2 uo rs rname rnn resp = (s', Inl r)" "x = Inl r"
  | s1 uo rname rnn rs gvk tsch s2 s3 result where
      "apply_prepare env s psv cfs c m resp = (s1, Inr (uo, rname, rnn, rs, gvk, tsch))"
      "apply_check_exists env s1 pr rs rname rnn resp = (s2, None)"
      "apply_write env s2 uo rs rname rnn resp = (s3, Inr result)"
      "apply_finish env s3 pl psv result rs rname gvk tsch resp = (s', x)"
  using assms
  by (auto simp: apply_resource_def split: prod.splits sum.splits option.splits)

lemma ApplyResourceChange_cases:
  assumes "ApplyResourceChange env s req = (s', r)"
  obtains
    resp where "s' = s" "r = Return resp None" "NewState resp = None"
  | rt pl pr psv cfs resp1 c m s1 x where
      "GetResourceType env (TypeName req) = Inr rt"
      "Unmarshal env (PlannedState req) rt = Inr pl"
      "Unmarshal env (PriorState req) rt = Inr pr"
      "As_map pl = Inr psv"
      "computed_fields env psv empty_response = (cfs, resp1)"
      "IsNull pr \<or> \<not> IsNull pl"
      "apply_resource env s pl pr psv cfs c m resp1 = (s1, x)"
      "finish_call (s1, x) = (s', r)"
      "canExecute env = []" "getDynamicClient env = Inr c" "getRestMapper env = Inr m"
  | rt pl pr psv cfs resp1 c m s1 x where
      "GetResourceType env (TypeName req) = Inr rt"
      "Unmarshal env (PlannedState req) rt = Inr pl"
      "Unmarshal env (PriorState req) rt = Inr pr"
      "As_map pl = Inr psv"
      "computed_fields env psv empty_response = (cfs, resp1)"
      "\<not> IsNull pr" "IsNull pl"
      "delete_resource env s req pr c m resp1 = (s1, x)"
      "finish_call (s1, x) = (s', r)"
      "canExecute env = []" "getDynamicClient env = Inr c" "getRestMapper env = Inr m"
proof (cases "computed_fields env (case As_map (case Unmarshal env (PlannedState req) (case GetResourceType env (TypeName req) of Inr rt \<Rightarrow> rt | Inl e \<Rightarrow> NilType) of Inr pl \<Rightarrow> pl | Inl e \<Rightarrow> Null NilType) of Inr psv \<Rightarrow> psv | Inl e \<Rightarrow> []) empty_response")
  case (Pair cfs resp1)
  note ns = computed_fields_NewState[OF Pair]
  show ?thesis
    using assms Pair ns that
    apply (simp add: ApplyResourceChange_def empty_response_def add_diag_def Let_def
                split: if_splits sum.splits prod.splits)
    apply (auto split: if_splits)
    subgoal for psv rt pl pr c m
      by (cases "apply_resource env s pl pr psv cfs c m resp1") (simp add: empty_response_def)
    subgoal for psv rt pl pr c m
      by (cases "apply_resource env s pl pr psv cfs c m resp1") (simp add: empty_response_def)
    subgoal for psv rt pl pr c m
      by (cases "delete_resource env s req pr c m resp1") (simp add: empty_response_def)
    done
qed


lemma apply_finish_Inr:
  assumes "apply_finish env s pl psv result rs rname gvk tsch resp = (s', Inr resp')"
  shows "\<exists>newResObject compObj dv.
           ToTFValue env (RemoveServerSideFields env result) tsch [] = Inr newResObject \<and>
           DeepUnknown env tsch newResObject [] = Inr compObj \<and>
           NewDynamicValue env (Type pl)
             (NewValue (Type pl) (AList.update ''object'' (UnknownToNull env compObj) psv)) = Inr dv \<and>
           resp' = resp\<lparr>NewState := Some dv\<rparr>"
  using assms
  by (auto simp: apply_finish_def Let_def NewValue_def
           split: sum.splits option.splits prod.splits if_splits)

lemma apply_finish_wait:
  assumes "apply_finish env s pl psv result rs rname gvk tsch resp = (s', x)"
    and "store_calls s' \<noteq> store_calls s"
  shows "\<exists>wfVal wt f.
           map_of psv ''wait_for'' = Some wfVal \<and>
           TFTypeFromOpenAPI env (OAPIFoundry s) gvk True = (Inr wt, f) \<and>
           store_calls s' = store_calls s @ [CallWaitFor rs rname] \<and>
           (\<forall>err. waitForCompletion env wfVal rs rname wt = Some err \<longrightarrow>
                  x = Inl (Return resp (Some err)))"
  using assms
  by (auto simp: apply_finish_def Let_def
           split: sum.splits option.splits prod.splits if_splits)

subsection \<open>The second case\<close>

lemma delete_resource_Inl:
  assumes "delete_resource env s req pr c m resp = (s', Inl r)"
  shows "(s' = s \<and> (r = Panic \<or> (\<exists>resp' e. r = Return resp' e \<and> NewState resp' = NewState resp))) \<or>
         (\<exists>rs rname err rn.
            s' = s\<lparr>store_calls := store_calls s @ [CallDelete rs rname]\<rparr> \<and>
            Delete env rs rname = Some err \<and>
            r = Return (add_diag resp
                  (error_diag (''DELETE resource '' @ rn @ '' failed: '' @ Error env err)
                     (Error env err))) None)"
  using assms
  by (auto simp: delete_resource_def Let_def add_diag_def
           split: sum.splits option.splits json.splits if_splits)

lemma delete_resource_Inr:
  assumes "delete_resource env s req pr c m resp = (s', Inr resp')"
  shows "\<exists>rs rname.
            s' = s\<lparr>store_calls := store_calls s @ [CallDelete rs rname]\<rparr> \<and>
            Delete env rs rname = None \<and>
            resp' = resp\<lparr>NewState := Some (PlannedState req)\<rparr>"
  using assms
  by (auto simp: delete_resource_def Let_def
           split: sum.splits option.splits json.splits if_splits)

lemma finish_call_calls: "finish_call (s1, x) = (s', r) \<Longrightarrow> store_calls s' = store_calls s1"
  by (auto simp: finish_call_def split: sum.splits)

lemma finish_call_Inl: "finish_call (s1, Inl r0) = (s', r) \<longleftrightarrow> s' = s1 \<and> r = r0"
  by (auto simp: finish_call_def)

lemma finish_call_Inr:
  "finish_call (s1, Inr resp) = (s', r) \<longleftrightarrow> s' = s1\<lparr>OAPIFoundry := None\<rparr> \<and> r = Return resp None"
  by (auto simp: finish_call_def)

lemma apply_resource_Inl_NewState:
  assumes "apply_resource env s pl pr psv cfs c m resp = (s', Inl (Return resp' e))"
  shows "NewState resp' = NewState resp"
  using assms
proof (cases rule: apply_resource_cases)
  case (1 r)
  with apply_prepare_Inl[OF 1(1)] show ?thesis by auto
next
  case (2 s1 uo rname rnn rs gvk tsch r)
  from apply_check_exists_Some[OF 2(2)] 2(3) show ?thesis
    by (auto simp: add_diag_def split: sum.splits)
next
  case (3 s1 uo rname rnn rs gvk tsch s2 r)
  from apply_write_Inl[OF 3(3)] 3(4) show ?thesis
    by (auto simp: add_diag_def)
next
  case (4 s1 uo rname rnn rs gvk tsch s2 s3 result)
  from apply_finish_Inl[OF 4(4)] show ?thesis by auto
qed


subsection \<open>The requests of a case of the switch\<close>

lemma apply_check_exists_calls:
  "apply_check_exists env s prior rs rname rnn resp = (s', x) \<Longrightarrow>
   store_calls s' = store_calls s @ (if IsNull prior then [CallGet rs rname] else [])"
  by (auto simp: apply_check_exists_def Let_def split: option.splits sum.splits prod.splits if_splits)

lemma apply_write_calls_Inr:
  "apply_write env s uo rs rname rnn resp = (s', Inr result) \<Longrightarrow>
   \<exists>j. store_calls s' = store_calls s @ [CallPatch rs rname ApplyPatchType j ''Terraform'']"
  by (auto simp: apply_write_def Let_def split: option.splits sum.splits prod.splits if_splits)

lemma apply_write_calls_Inl:
  "apply_write env s uo rs rname rnn resp = (s', Inl r) \<Longrightarrow>
   store_calls s' = store_calls s \<or>
   (\<exists>j. store_calls s' = store_calls s @ [CallPatch rs rname ApplyPatchType j ''Terraform''])"
  by (auto simp: apply_write_def Let_def split: option.splits sum.splits prod.splits if_splits)

lemma delete_resource_calls:
  "delete_resource env s req prior c m resp = (s', x) \<Longrightarrow>
   store_calls s' = store_calls s \<or> (\<exists>rs rname. store_calls s' = store_calls s @ [CallDelete rs rname])"
  by (auto simp: delete_resource_def Let_def split: option.splits sum.splits prod.splits json.splits if_splits)

lemma apply_resource_calls:
  assumes "apply_resource env s pl pr psv cfs c m resp = (s', x)"
  shows "\<exists>cs. store_calls s' = store_calls s @ cs \<and>
           map kind cs \<in> (if IsNull pr then create_traces else update_traces)"
proof (cases "apply_prepare env s psv cfs c m resp")
  case (Pair s1 x1)
  note prep = apply_prepare_calls[OF Pair]
  show ?thesis
  proof (cases x1)
    case (Inl r)
    with assms Pair prep show ?thesis
      by (auto simp: apply_resource_def create_traces_def update_traces_def)
  next
    case (Inr t)
    obtain uo rname rnn rs gvk tsch where t: "t = (uo, rname, rnn, rs, gvk, tsch)"
      by (cases t) auto
    obtain s2 x2 where chk: "apply_check_exists env s1 pr rs rname rnn resp = (s2, x2)"
      by (cases "apply_check_exists env s1 pr rs rname rnn resp") auto
    note c2 = apply_check_exists_calls[OF chk]
    show ?thesis
    proof (cases x2)
      case (Some r)
      with assms Pair Inr t chk prep c2 show ?thesis
        by (auto simp: apply_resource_def create_traces_def update_traces_def)
    next
      case None
      obtain s3 x3 where wr: "apply_write env s2 uo rs rname rnn resp = (s3, x3)"
        by (cases "apply_write env s2 uo rs rname rnn resp") auto
      show ?thesis
      proof (cases x3)
        case (Inl r)
        from wr Inl have "apply_write env s2 uo rs rname rnn resp = (s3, Inl r)" by simp
        from apply_write_calls_Inl[OF this] assms Pair Inr t chk prep c2 None wr Inl
        show ?thesis
          by (auto simp: apply_resource_def create_traces_def update_traces_def)
      next
        case (Inr result)
        from wr Inr have w: "apply_write env s2 uo rs rname rnn resp = (s3, Inr result)" by simp
        from assms Pair \<open>x1 = Inr t\<close> t chk None wr Inr
        have fin: "apply_finish env s3 pl psv result rs rname gvk tsch resp = (s', x)"
          by (simp add: apply_resource_def)
        from apply_write_calls_Inr[OF w] apply_finish_calls[OF fin] prep c2
        show ?thesis
          by (auto simp: create_traces_def update_traces_def)
      qed
    qed
  qed
qed

lemma apply_prepare_no_object:
  "map_of psv ''object'' = None \<Longrightarrow> fst (apply_prepare env s psv cfs c m resp) = s"
  by (simp add: apply_prepare_def)

lemma apply_resource_no_object:
  "map_of psv ''object'' = None \<Longrightarrow> fst (apply_resource env s pl pr psv cfs c m resp) = s"
  by (simp add: apply_resource_def apply_prepare_def)

lemma IsNull_As_map: "IsNull v \<Longrightarrow> As_map v = Inr []"
  by (cases v) auto



lemma apply_check_exists_None_calls:
  assumes "apply_check_exists env s pr rs rname rnn resp = (s', None)"
  shows "store_calls s' = store_calls s \<or> store_calls s' = store_calls s @ [CallGet rs rname]"
  using apply_check_exists_None[OF assms] by (auto split: if_splits)

subsection \<open>The response does not steer the function\<close>

lemma apply_prepare_erase:
  "erase (apply_prepare env s psv cfs c m resp) = erase (apply_prepare env s psv cfs c m resp')"
  by (simp add: apply_prepare_def erase_def Let_def
      split: option.splits sum.splits prod.splits json.splits)

lemma apply_check_exists_erase:
  "map_prod id (map_option (\<lambda>r. ())) (apply_check_exists env s pr rs rname rnn resp) =
   map_prod id (map_option (\<lambda>r. ())) (apply_check_exists env s pr rs rname rnn resp')"
  by (simp add: apply_check_exists_def Let_def split: sum.splits)

lemma apply_write_erase:
  "erase (apply_write env s uo rs rname rnn resp) = erase (apply_write env s uo rs rname rnn resp')"
  by (simp add: apply_write_def erase_def Let_def split: option.splits sum.splits)

lemma apply_finish_state:
  "fst (apply_finish env s pl psv result rs rname gvk tsch resp) =
   fst (apply_finish env s pl psv result rs rname gvk tsch resp')"
  by (simp add: apply_finish_def Let_def split: option.splits sum.splits prod.splits)

lemma delete_resource_state_independent:
  "fst (delete_resource env s req pr c m resp) = fst (delete_resource env s req pr c m resp')"
  by (simp add: delete_resource_def Let_def
      split: option.splits sum.splits prod.splits json.splits)

lemma apply_resource_state_independent:
  "fst (apply_resource env s pl pr psv cfs c m resp) =
   fst (apply_resource env s pl pr psv cfs c m resp')"
proof -
  obtain s1 x1 where p: "apply_prepare env s psv cfs c m resp = (s1, x1)" by force
  obtain s1' x1' where p': "apply_prepare env s psv cfs c m resp' = (s1', x1')" by force
  from apply_prepare_erase[of env s psv cfs c m resp resp'] p p'
  have e1: "s1' = s1" "map_sum (\<lambda>r. ()) id x1 = map_sum (\<lambda>r. ()) id x1'"
    by (simp_all add: erase_def)
  show ?thesis
  proof (cases x1)
    case (Inl r)
    with e1 obtain r' where "x1' = Inl r'" by (cases x1') auto
    with Inl p p' e1 show ?thesis by (simp add: apply_resource_def)
  next
    case (Inr t)
    with e1 have x1': "x1' = Inr t" by (cases x1') auto
    obtain uo rname rnn rs gvk tsch where t: "t = (uo, rname, rnn, rs, gvk, tsch)"
      by (cases t) auto
    obtain s2 x2 where q: "apply_check_exists env s1 pr rs rname rnn resp = (s2, x2)" by force
    obtain s2' x2' where q': "apply_check_exists env s1 pr rs rname rnn resp' = (s2', x2')" by force
    from apply_check_exists_erase[of env s1 pr rs rname rnn resp resp'] q q'
    have e2: "s2' = s2" "map_option (\<lambda>r. ()) x2 = map_option (\<lambda>r. ()) x2'" by simp_all
    show ?thesis
    proof (cases x2)
      case (Some r)
      with e2 obtain r' where "x2' = Some r'" by (cases x2') auto
      with Some p p' e1 Inr x1' t q q' e2 show ?thesis by (simp add: apply_resource_def)
    next
      case None
      with e2 have x2': "x2' = None" by (cases x2') auto
      obtain s3 x3 where w: "apply_write env s2 uo rs rname rnn resp = (s3, x3)" by force
      obtain s3' x3' where w': "apply_write env s2 uo rs rname rnn resp' = (s3', x3')" by force
      from apply_write_erase[of env s2 uo rs rname rnn resp resp'] w w'
      have e3: "s3' = s3" "map_sum (\<lambda>r. ()) id x3 = map_sum (\<lambda>r. ()) id x3'"
        by (simp_all add: erase_def)
      show ?thesis
      proof (cases x3)
        case (Inl r)
        with e3 obtain r' where "x3' = Inl r'" by (cases x3') auto
        with Inl None x2' p p' e1 Inr x1' t q q' e2 w w' e3 show ?thesis
          by (simp add: apply_resource_def)
      next
        case res: (Inr result)
        with e3 have "x3' = Inr result" by (cases x3') auto
        with res None x2' p p' e1 Inr x1' t q q' e2 w w' e3
          apply_finish_state[of env s3 pl psv result rs rname gvk tsch resp resp']
        show ?thesis by (simp add: apply_resource_def)
      qed
    qed
  qed
qed

subsection \<open>Diagnostics are only ever added\<close>

lemma apply_resource_Diagnostics:
  assumes "apply_resource env s pl pr psv cfs c m resp = (s', x)"
  shows "case x of
           Inl Panic \<Rightarrow> True
         | Inl (Return resp' e) \<Rightarrow> \<exists>ds. Diagnostics resp' = Diagnostics resp @ ds
         | Inr resp' \<Rightarrow> \<exists>ds. Diagnostics resp' = Diagnostics resp @ ds"
  using assms
proof (cases rule: apply_resource_cases)
  case (1 r)
  then show ?thesis
    by (auto simp: apply_prepare_def Let_def add_diag_def
             split: option.splits sum.splits prod.splits json.splits ret.splits)
next
  case (2 s1 uo rname rnn rs gvk tsch r)
  from apply_check_exists_Some[OF 2(2)] 2(3) show ?thesis
    by (auto simp: add_diag_def split: sum.splits ret.splits)
next
  case (3 s1 uo rname rnn rs gvk tsch s2 r)
  from apply_write_Inl[OF 3(3)] 3(4) show ?thesis
    by (auto simp: add_diag_def split: ret.splits)
next
  case (4 s1 uo rname rnn rs gvk tsch s2 s3 result)
  show ?thesis
  proof (cases x)
    case (Inl r)
    with apply_finish_Inl[OF 4(4)[unfolded Inl]] show ?thesis by auto
  next
    case (Inr resp')
    with apply_finish_Inr[OF 4(4)[unfolded Inr]] show ?thesis by auto
  qed
qed

lemma delete_resource_Diagnostics:
  assumes "delete_resource env s req pr c m resp = (s', x)"
  shows "case x of
           Inl Panic \<Rightarrow> True
         | Inl (Return resp' e) \<Rightarrow> \<exists>ds. Diagnostics resp' = Diagnostics resp @ ds
         | Inr resp' \<Rightarrow> \<exists>ds. Diagnostics resp' = Diagnostics resp @ ds"
  using assms
  by (auto simp: delete_resource_def Let_def add_diag_def
           split: option.splits sum.splits prod.splits json.splits ret.splits)

lemma computed_fields_loop_keeps:
  "d \<in> set (Diagnostics resp) \<Longrightarrow>
   d \<in> set (Diagnostics (snd (computed_fields_loop env cf (cfs, resp))))"
  using computed_fields_loop_Diagnostics[of env cf cfs resp] by auto

lemma computed_fields_loop_reports:
  assumes "v \<in> set cf" and "As_string v = Inr vs" and "FieldPathToTftypesPath env vs = Inl err"
  shows "parse_diag env vs err \<in> set (Diagnostics (snd (computed_fields_loop env cf (cfs, resp))))"
  using assms(1)
proof (induction cf arbitrary: cfs resp)
  case Nil
  then show ?case by simp
next
  case (Cons w cf)
  show ?case
  proof (cases "w = v")
    case True
    with assms(2,3) computed_fields_loop_keeps[of "parse_diag env vs err"
        "add_diag resp (parse_diag env vs err)" env cf cfs]
    show ?thesis by (simp add: add_diag_def)
  next
    case False
    with Cons show ?thesis by (auto split: sum.splits)
  qed
qed



subsection \<open>The requests that are sent for certain\<close>

lemma apply_prepare_success:
  assumes "map_of psv ''object'' = Some obj"
    and "GVKFromTftypesObject env obj m = Inr gvk"
    and "TFTypeFromOpenAPI env (OAPIFoundry s) gvk False = (Inr tsch, f)"
    and "Transform env obj (backfill env cfs psv) = Inr obj'"
    and "FromTFValue env (UnknownToNull env obj') [] = Inr (JObject pum)"
    and "GVRFromUnstructured env (mapRemoveNulls env pum) m = Inr gvr"
    and "IsResourceNamespaced env gvk m = Inr ns"
  shows "apply_prepare env s psv cfs c m resp =
     (s\<lparr>OAPIFoundry := f\<rparr>,
      Inr (mapRemoveNulls env pum, GetName env (mapRemoveNulls env pum),
           NamespacedName_String env (GetNamespace env (mapRemoveNulls env pum))
             (GetName env (mapRemoveNulls env pum)),
           (if ns then Namespace (Resource c gvr) (GetNamespace env (mapRemoveNulls env pum))
            else Resource c gvr),
           gvk, tsch))"
  using assms by (simp add: apply_prepare_def Let_def)

lemma apply_prepare_names:
  assumes "apply_prepare env s psv cfs c m resp = (s', Inr (uo, rname, rnn, rs, gvk, tsch))"
  shows "rname = GetName env uo \<and> rnn = NamespacedName_String env (GetNamespace env uo) rname"
  using assms
  by (auto simp: apply_prepare_def Let_def
           split: option.splits sum.splits prod.splits json.splits if_splits)

lemma apply_resource_sends:
  assumes prep: "apply_prepare env s psv cfs c m resp = (s1, Inr (uo, rname, rnn, rs, gvk, tsch))"
    and ar: "apply_resource env s pl pr psv cfs c m resp = (s', x)"
  shows "\<exists>rest. store_calls s' =
             store_calls s @ (if IsNull pr then [CallGet rs rname] else []) @ rest \<and>
           (\<forall>j. (\<not> IsNull pr \<or> (\<exists>e. Get env rs rname = Inl e \<and> IsNotFound env e)) \<and>
                 MarshalJSON env uo = Inr j \<longrightarrow>
                 (\<exists>w. rest = CallPatch rs rname ApplyPatchType j ''Terraform'' # w))"
  using ar
proof (cases rule: apply_resource_cases)
  case (1 r)
  with prep show ?thesis by simp
next
  case (2 s1' uo' rname' rnn' rs' gvk' tsch' r)
  with prep have eq: "s1' = s1" "uo' = uo" "rname' = rname" "rnn' = rnn" "rs' = rs" by simp_all
  from apply_check_exists_Some[OF 2(2)] apply_prepare_calls[OF prep] eq
  show ?thesis by (auto split: sum.splits)
next
  case (3 s1' uo' rname' rnn' rs' gvk' tsch' s2 r)
  with prep have eq: "s1' = s1" "uo' = uo" "rname' = rname" "rnn' = rnn" "rs' = rs" by simp_all
  from apply_check_exists_calls[OF 3(2)] apply_prepare_calls[OF prep] eq
  have c2: "store_calls s2 = store_calls s @ (if IsNull pr then [CallGet rs rname] else [])"
    by simp
  from apply_write_Inl[OF 3(3)] eq c2 show ?thesis by auto
next
  case (4 s1' uo' rname' rnn' rs' gvk' tsch' s2 s3 result)
  with prep have eq: "s1' = s1" "uo' = uo" "rname' = rname" "rnn' = rnn" "rs' = rs" by simp_all
  from apply_check_exists_calls[OF 4(2)] apply_prepare_calls[OF prep] eq
  have c2: "store_calls s2 = store_calls s @ (if IsNull pr then [CallGet rs rname] else [])"
    by simp
  from apply_write_Inr[OF 4(3)] eq obtain j where
    j: "MarshalJSON env uo = Inr j"
      "store_calls s3 = store_calls s2 @ [CallPatch rs rname ApplyPatchType j ''Terraform'']"
    by auto
  from apply_finish_calls[OF 4(4)] j c2 show ?thesis by auto
qed

lemma apply_resource_Inr_calls:
  assumes "apply_resource env s pl pr psv cfs c m resp = (s', Inr resp')"
  shows "\<exists>rs rname j w. store_calls s' =
           store_calls s @ (if IsNull pr then [CallGet rs rname] else []) @
             CallPatch rs rname ApplyPatchType j ''Terraform'' # w \<and>
           (w = [] \<or> w = [CallWaitFor rs rname])"
  using assms
proof (cases rule: apply_resource_cases)
  case (4 s1 uo rname rnn rs gvk tsch s2 s3 result)
  from apply_write_Inr[OF 4(3)] obtain j where
    "store_calls s3 = store_calls s2 @ [CallPatch rs rname ApplyPatchType j ''Terraform'']"
    by auto
  with apply_check_exists_calls[OF 4(2)] apply_prepare_calls[OF 4(1)] apply_finish_calls[OF 4(4)]
  have "store_calls s' =
           store_calls s @ (if IsNull pr then [CallGet rs rname] else []) @
             CallPatch rs rname ApplyPatchType j ''Terraform'' # [] \<or>
        store_calls s' =
           store_calls s @ (if IsNull pr then [CallGet rs rname] else []) @
             CallPatch rs rname ApplyPatchType j ''Terraform'' # [CallWaitFor rs rname]"
    by auto
  then show ?thesis by blast
qed simp_all

lemma delete_resource_sends:
  assumes "As_map pr = Inr priorStateVal"
    and "map_of priorStateVal ''object'' = Some pco"
    and "FromTFValue env pco [] = Inr (JObject uo)"
    and "GVRFromUnstructured env uo m = Inr gvr"
    and "GVKFromTftypesObject env pco m = Inr gvk"
    and "IsResourceNamespaced env gvk m = Inr ns"
  shows "store_calls (fst (delete_resource env s req pr c m resp)) =
     store_calls s @
       [CallDelete (if ns then Namespace (Resource c gvr) (GetNamespace env uo) else Resource c gvr)
          (GetName env uo)]"
  using assms by (simp add: delete_resource_def Let_def split: option.splits)

lemma finish_call_fst_calls: "store_calls (fst (finish_call x)) = store_calls (fst x)"
  by (cases x) (auto simp: finish_call_def split: sum.splits)

lemma ApplyResourceChange_apply:
  assumes "canExecute env = []"
    and "GetResourceType env (TypeName req) = Inr rt"
    and "Unmarshal env (PlannedState req) rt = Inr pl"
    and "Unmarshal env (PriorState req) rt = Inr pr"
    and "As_map pl = Inr psv"
    and "getDynamicClient env = Inr c"
    and "getRestMapper env = Inr m"
    and "IsNull pr \<or> \<not> IsNull pl"
  shows "ApplyResourceChange env s req =
     finish_call (apply_resource env s pl pr psv (fst (computed_fields env psv empty_response)) c m
                    (snd (computed_fields env psv empty_response)))"
  using assms
  by (auto simp: ApplyResourceChange_def empty_response_def split: prod.splits)

lemma ApplyResourceChange_delete:
  assumes "canExecute env = []"
    and "GetResourceType env (TypeName req) = Inr rt"
    and "Unmarshal env (PlannedState req) rt = Inr pl"
    and "Unmarshal env (PriorState req) rt = Inr pr"
    and "As_map pl = Inr psv"
    and "getDynamicClient env = Inr c"
    and "getRestMapper env = Inr m"
    and "\<not> IsNull pr" and "IsNull pl"
  shows "ApplyResourceChange env s req =
     finish_call (delete_resource env s req pr c m (snd (computed_fields env psv empty_response)))"
  using assms
  by (auto simp: ApplyResourceChange_def empty_response_def split: prod.splits)

lemma request_kinds_bounded:
  assumes "GetResourceType env (TypeName req) = Inr rt"
    and "Unmarshal env (PlannedState req) rt = Inr planned"
    and "Unmarshal env (PriorState req) rt = Inr prior"
    and "ApplyResourceChange env s req = (s', r)"
  shows "\<exists>cs. store_calls s' = store_calls s @ cs \<and>
     (IsNull prior \<and> \<not> IsNull planned \<longrightarrow> map kind cs \<in> create_traces) \<and>
     (\<not> IsNull prior \<and> \<not> IsNull planned \<longrightarrow> map kind cs \<in> update_traces) \<and>
     (\<not> IsNull prior \<and> IsNull planned \<longrightarrow> map kind cs \<in> delete_traces) \<and>
     (IsNull prior \<and> IsNull planned \<longrightarrow> cs = [])"
proof (cases "0 < length (canExecute env)")
  case True
  with assms show ?thesis
    by (auto simp: ApplyResourceChange_def create_traces_def update_traces_def delete_traces_def)
next
  case False
  note ce = this
  show ?thesis
  proof (cases "As_map planned")
    case (Inl e)
    then have "\<not> IsNull planned" by (cases planned) auto
    with ce assms Inl show ?thesis
      by (auto simp: ApplyResourceChange_def add_diag_def create_traces_def update_traces_def)
  next
    case (Inr psv)
    obtain cfs resp where cf: "computed_fields env psv \<lparr>NewState = None, Diagnostics = []\<rparr> = (cfs, resp)"
      by (cases "computed_fields env psv \<lparr>NewState = None, Diagnostics = []\<rparr>") auto
    show ?thesis
    proof (cases "getDynamicClient env")
      case (Inl e)
      with ce assms Inr cf show ?thesis
        by (auto simp: ApplyResourceChange_def create_traces_def update_traces_def delete_traces_def)
    next
      case c: (Inr c)
      show ?thesis
      proof (cases "getRestMapper env")
        case (Inl e)
        with ce assms Inr cf c show ?thesis
          by (auto simp: ApplyResourceChange_def create_traces_def update_traces_def delete_traces_def)
      next
        case m: (Inr m)
        show ?thesis
        proof (cases "IsNull prior \<or> \<not> IsNull planned")
          case True
          obtain s1 x where ar: "apply_resource env s planned prior psv cfs c m resp = (s1, x)"
            by (cases "apply_resource env s planned prior psv cfs c m resp") auto
          with ce assms Inr cf c m True have fc: "finish_call (s1, x) = (s', r)"
            by (auto simp: ApplyResourceChange_def)
          from apply_resource_calls[OF ar] finish_call_calls[OF fc]
          obtain cs where cs: "store_calls s' = store_calls s @ cs"
            "map kind cs \<in> (if IsNull prior then create_traces else update_traces)" by auto
          have "cs = []" if "IsNull planned"
          proof -
            from that Inr have "psv = []" by (simp add: IsNull_As_map)
            then have "fst (apply_resource env s planned prior psv cfs c m resp) = s"
              by (simp add: apply_resource_no_object)
            with ar have "s1 = s" by simp
            with finish_call_calls[OF fc] cs show ?thesis by simp
          qed
          with cs True show ?thesis by (intro exI[of _ cs]) auto
        next
          case False
          obtain s1 x where dr: "delete_resource env s req prior c m resp = (s1, x)"
            by (cases "delete_resource env s req prior c m resp") auto
          with ce assms Inr cf c m False have fc: "finish_call (s1, x) = (s', r)"
            by (auto simp: ApplyResourceChange_def)
          from delete_resource_calls[OF dr] finish_call_calls[OF fc] False
          show ?thesis by (auto simp: delete_traces_def)
        qed
      qed
    qed
  qed
qed

lemma successful_call_requests:
  assumes "GetResourceType env (TypeName req) = Inr rt"
    and "Unmarshal env (PlannedState req) rt = Inr planned"
    and "Unmarshal env (PriorState req) rt = Inr prior"
    and "ApplyResourceChange env s req = (s', Return resp err)"
    and "NewState resp \<noteq> None"
  shows "\<exists>cs. store_calls s' = store_calls s @ cs \<and>
     (IsNull prior \<longrightarrow> map kind cs \<in> {[KGet, KPatch], [KGet, KPatch, KWaitFor]}) \<and>
     (\<not> IsNull prior \<and> \<not> IsNull planned \<longrightarrow> map kind cs \<in> {[KPatch], [KPatch, KWaitFor]}) \<and>
     (\<not> IsNull prior \<and> IsNull planned \<longrightarrow> map kind cs = [KDelete])"
  using assms(4)
proof (cases rule: ApplyResourceChange_cases)
  case (1 resp0)
  with assms(5) show ?thesis by simp
next
  case (2 rt' pl pr psv cfs resp1 c m s1 x)
  with assms(1,2,3) have eq: "pl = planned" "pr = prior" by simp_all
  from computed_fields_NewState[OF 2(5)] have ns: "NewState resp1 = None"
    by (simp add: empty_response_def)
  show ?thesis
  proof (cases x)
    case (Inl r0)
    with 2(8) have "r0 = Return resp err" "s' = s1" by (simp_all add: finish_call_Inl)
    with apply_resource_Inl_NewState[of env s pl pr psv cfs c m resp1 s1 resp err] 2(7) Inl ns
      assms(5)
    show ?thesis by simp
  next
    case (Inr resp')
    from finish_call_calls[OF 2(8)] apply_resource_Inr_calls[OF 2(7)[unfolded Inr]]
    obtain rs rname j w where
      "store_calls s' = store_calls s @ (if IsNull pr then [CallGet rs rname] else []) @
             CallPatch rs rname ApplyPatchType j ''Terraform'' # w"
      "w = [] \<or> w = [CallWaitFor rs rname]"
      by auto
    with 2(6) eq show ?thesis by auto
  qed
next
  case (3 rt' pl pr psv cfs resp1 c m s1 x)
  with assms(1,2,3) have eq: "pl = planned" "pr = prior" by simp_all
  from computed_fields_NewState[OF 3(5)] have ns: "NewState resp1 = None"
    by (simp add: empty_response_def)
  show ?thesis
  proof (cases x)
    case (Inl r0)
    with 3(9) have "r0 = Return resp err" "s' = s1" by (simp_all add: finish_call_Inl)
    with delete_resource_Inl[OF 3(8)[unfolded Inl]] ns assms(5)
    show ?thesis by (auto simp: add_diag_def)
  next
    case (Inr resp')
    from finish_call_calls[OF 3(9)] delete_resource_Inr[OF 3(8)[unfolded Inr]] 3(6,7) eq
    show ?thesis by auto
  qed
qed


section \<open>The examples, evaluated\<close>

lemmas example_defs = env0_def s0_def s0_cached_def request0_def
  decode0_def encode0_def planned0_def prior0_def manifest0_def obj0_def stored0_def result0_def
  planned_wait0_def planned_cf0_def planned_empty_cf0_def planned_bad0_def manifest_bad0_def
  rt0_def objT_def objT_status_def metaT_def specT_def not_found0_def is_not_found0_def
  nested_string0_def server_side_fields0_def attr_type0_def status_diags0_def group_kind0_def
  parse_path0_def
  new_object0_def rs0_def patch0_def payload0_def payload_no_labels0_def gvk0_def
  invalid0_def forbidden0_def timeout0_def
  env_exists_def env_forbidden_def env_invalid_def env_refused_def env_gone_def env_timeout_def

lemmas model_defs = ApplyResourceChange_def finish_call_def apply_resource_def apply_prepare_def
  apply_check_exists_def apply_write_def apply_finish_def delete_resource_def computed_fields_def
  default_computed_fields_def backfill_def index_or_zero_def add_diag_def error_diag_def
  NewValue_def ApplyPatchType_def dquote_def squote_def patch_failed_summary_def parse_diag_def

lemma GetResourceType_request0 [simp]:
  "GetResourceType env0 (TypeName (request0 prior planned)) = Inr rt0"
  by (simp add: env0_def request0_def)

lemma Unmarshal_null0:
  "Unmarshal env0 (encode0 (Null rt0)) t = Inr (Null rt0)"
  by (simp add: env0_def decode0_def encode0_def)

lemma Unmarshal_planned0:
  "Unmarshal env0 (encode0 planned0) t = Inr planned0"
  by (simp add: example_defs)

lemma Unmarshal_prior0:
  "Unmarshal env0 (encode0 prior0) t = Inr prior0"
  by (simp add: example_defs)

lemma run_create:
  "ApplyResourceChange env0 s0 (request0 (Null rt0) planned0) =
     (\<lparr>OAPIFoundry = None, store_calls = [CallGet rs0 ''x'', patch0]\<rparr>,
      Return \<lparr>NewState = Some (encode0 (Assoc rt0 [(''manifest'', manifest0), (''object'', new_object0)])),
              Diagnostics = []\<rparr> None)"
  by (simp add: model_defs example_defs Let_def)

lemma run_update:
  "ApplyResourceChange env0 s0 (request0 prior0 planned0) =
     (\<lparr>OAPIFoundry = None, store_calls = [patch0]\<rparr>,
      Return \<lparr>NewState = Some (encode0 (Assoc rt0 [(''manifest'', manifest0), (''object'', new_object0)])),
              Diagnostics = []\<rparr> None)"
  by (simp add: model_defs example_defs Let_def)

lemma run_delete:
  "ApplyResourceChange env0 s0 (request0 prior0 (Null rt0)) =
     (\<lparr>OAPIFoundry = None, store_calls = [CallDelete rs0 ''x'']\<rparr>,
      Return \<lparr>NewState = Some (encode0 (Null rt0)), Diagnostics = []\<rparr> None)"
  by (simp add: model_defs example_defs Let_def)

lemma run_none:
  "ApplyResourceChange env0 s0 (request0 (Null rt0) (Null rt0)) =
     (s0,
      Return \<lparr>NewState = None,
              Diagnostics = [error_diag ''Failed to find object value in planned resource state'' []]\<rparr>
        None)"
  by (simp add: model_defs example_defs Let_def)


lemma Unmarshal_request0_planned0 [simp]:
  "Unmarshal env0 (PlannedState (request0 prior planned0)) rt0 = Inr planned0"
  by (simp add: request0_def Unmarshal_planned0)

lemma Unmarshal_request0_planned_null [simp]:
  "Unmarshal env0 (PlannedState (request0 prior (Null rt0))) rt0 = Inr (Null rt0)"
  by (simp add: request0_def Unmarshal_null0)

lemma Unmarshal_request0_prior0 [simp]:
  "Unmarshal env0 (PriorState (request0 prior0 planned)) rt0 = Inr prior0"
  by (simp add: request0_def Unmarshal_prior0)

lemma Unmarshal_request0_prior_null [simp]:
  "Unmarshal env0 (PriorState (request0 (Null rt0) planned)) rt0 = Inr (Null rt0)"
  by (simp add: request0_def Unmarshal_null0)

lemma IsNull_examples [simp]: "\<not> IsNull planned0" "\<not> IsNull prior0"
  by (simp_all add: planned0_def prior0_def)


lemma run_exists:
  "ApplyResourceChange env_exists s0 (request0 (Null rt0) planned0) =
     (\<lparr>OAPIFoundry = Some (Foundry ''openapi v2''), store_calls = [CallGet rs0 ''x'']\<rparr>,
      Return \<lparr>NewState = None,
              Diagnostics = [error_diag ''Cannot create resource that already exists''
                               ''resource \"ns/x\" already exists'']\<rparr> None)"
  by (simp add: model_defs example_defs Let_def)

lemma run_forbidden:
  "ApplyResourceChange env_forbidden s0 (request0 (Null rt0) planned0) =
     (\<lparr>OAPIFoundry = Some (Foundry ''openapi v2''), store_calls = [CallGet rs0 ''x'']\<rparr>,
      Return \<lparr>NewState = None,
              Diagnostics = [error_diag ''Failed to determine if resource \"ns/x\" exists''
                               ''deployments x is forbidden'']\<rparr> None)"
  by (simp add: model_defs example_defs Let_def)

lemma run_invalid:
  "ApplyResourceChange env_invalid s0 (request0 (Null rt0) planned0) =
     (\<lparr>OAPIFoundry = Some (Foundry ''openapi v2''), store_calls = [CallGet rs0 ''x'', patch0]\<rparr>,
      Return \<lparr>NewState = None,
              Diagnostics = [error_diag ''API response status: Failure'' ''Deployment x is invalid'',
                             error_diag ''Kubernetes API Error: Invalid Deployment.apps [x]'' [],
                             error_diag ''spec.replicas'' ''must be positive'',
                             error_diag ''spec.selector'' ''is required'']\<rparr> None)"
  by (simp add: model_defs example_defs Let_def)

lemma run_refused:
  "ApplyResourceChange env_refused s0 (request0 prior0 planned0) =
     (\<lparr>OAPIFoundry = Some (Foundry ''openapi v2''), store_calls = [patch0]\<rparr>,
      Return \<lparr>NewState = None,
              Diagnostics = [error_diag (patch_failed_summary ''ns/x'') ''connection refused'']\<rparr>
        None)"
  by (simp add: model_defs example_defs Let_def)

lemma run_gone:
  "ApplyResourceChange env_gone s0 (request0 prior0 (Null rt0)) =
     (\<lparr>OAPIFoundry = None, store_calls = [CallDelete rs0 ''x'']\<rparr>,
      Return \<lparr>NewState = None,
              Diagnostics = [error_diag ''DELETE resource ns/x failed: deployments x not found''
                               ''deployments x not found'']\<rparr> None)"
  by (simp add: model_defs example_defs Let_def)

lemma run_timeout:
  "ApplyResourceChange env_timeout s0 (request0 (Null rt0) planned_wait0) =
     (\<lparr>OAPIFoundry = Some (Foundry ''openapi v2''),
       store_calls = [CallGet rs0 ''x'', patch0, CallWaitFor rs0 ''x'']\<rparr>,
      Return \<lparr>NewState = None, Diagnostics = []\<rparr> (Some timeout0))"
  by (simp add: model_defs example_defs Let_def)

lemma run_cf:
  "ApplyResourceChange env0 s0 (request0 (Null rt0) planned_cf0) =
     (\<lparr>OAPIFoundry = None, store_calls = [CallGet rs0 ''x'', patch0]\<rparr>,
      Return \<lparr>NewState = Some (encode0 (Assoc rt0
                 [(''manifest'', manifest0), (''object'', new_object0),
                  (''computed_fields'', Seq (List String)
                     [Prim String (PString ''metadata.labels''),
                      Prim String (PString ''spec..replicas'')])])),
              Diagnostics = [parse_diag env0 ''spec..replicas'' (errorString ''empty path element'')]\<rparr>
        None)"
  by (simp add: model_defs example_defs Let_def)

lemma run_empty_cf:
  "ApplyResourceChange env0 s0 (request0 (Null rt0) planned_empty_cf0) =
     (\<lparr>OAPIFoundry = None,
       store_calls = [CallGet rs0 ''x'',
                      CallPatch rs0 ''x'' ApplyPatchType payload_no_labels0 ''Terraform'']\<rparr>,
      Return \<lparr>NewState = Some (encode0 (Assoc rt0
                 [(''manifest'', manifest0), (''object'', new_object0),
                  (''computed_fields'', Seq (List String) [])])),
              Diagnostics = []\<rparr> None)"
  by (simp add: model_defs example_defs Let_def)

lemma run_bad:
  "ApplyResourceChange env0 s0 (request0 (Null rt0) planned_bad0) =
     (\<lparr>OAPIFoundry = Some (Foundry ''openapi v2''), store_calls = []\<rparr>,
      Return \<lparr>NewState = None,
              Diagnostics = [error_diag ''Failed to backfill computed values in proposed object''
                               ''metadata.labels: unsupported morph of primitive value'']\<rparr> None)"
  by (simp add: model_defs example_defs Let_def)


lemma run_create_cached:
  "ApplyResourceChange env0 s0_cached (request0 (Null rt0) planned0) =
     (\<lparr>OAPIFoundry = None, store_calls = [CallGet rs0 ''x'', patch0]\<rparr>,
      Return \<lparr>NewState = Some (encode0 (Assoc rt0 [(''manifest'', manifest0), (''object'', new_object0)])),
              Diagnostics = []\<rparr> None)"
  by (simp add: model_defs example_defs Let_def)

lemma run_delete_cached:
  "ApplyResourceChange env0 s0_cached (request0 prior0 (Null rt0)) =
     (\<lparr>OAPIFoundry = None, store_calls = [CallDelete rs0 ''x'']\<rparr>,
      Return \<lparr>NewState = Some (encode0 (Null rt0)), Diagnostics = []\<rparr> None)"
  by (simp add: model_defs example_defs Let_def)

lemma run_gone_cached:
  "ApplyResourceChange env_gone s0_cached (request0 prior0 (Null rt0)) =
     (\<lparr>OAPIFoundry = Some (Foundry ''openapi v2''), store_calls = [CallDelete rs0 ''x'']\<rparr>,
      Return \<lparr>NewState = None,
              Diagnostics = [error_diag ''DELETE resource ns/x failed: deployments x not found''
                               ''deployments x not found'']\<rparr> None)"
  by (simp add: model_defs example_defs Let_def)

subsection \<open>The collaborators of the examples, at the inputs of the examples\<close>

lemma canExecute_examples [simp]:
  "canExecute env0 = []" "canExecute env_exists = []" "canExecute env_forbidden = []"
  "canExecute env_invalid = []" "canExecute env_refused = []" "canExecute env_gone = []"
  "canExecute env_timeout = []"
  by (simp_all add: env0_def env_exists_def env_forbidden_def env_invalid_def env_refused_def
        env_gone_def env_timeout_def)

lemma GetResourceType_examples [simp]:
  "GetResourceType env_exists (TypeName (request0 prior planned)) = Inr rt0"
  "GetResourceType env_forbidden (TypeName (request0 prior planned)) = Inr rt0"
  "GetResourceType env_invalid (TypeName (request0 prior planned)) = Inr rt0"
  "GetResourceType env_refused (TypeName (request0 prior planned)) = Inr rt0"
  "GetResourceType env_gone (TypeName (request0 prior planned)) = Inr rt0"
  "GetResourceType env_timeout (TypeName (request0 prior planned)) = Inr rt0"
  by (simp_all add: env_exists_def env_forbidden_def env_invalid_def env_refused_def
        env_gone_def env_timeout_def)

lemma Unmarshal_examples [simp]:
  "Unmarshal env_exists = Unmarshal env0" "Unmarshal env_forbidden = Unmarshal env0"
  "Unmarshal env_invalid = Unmarshal env0" "Unmarshal env_refused = Unmarshal env0"
  "Unmarshal env_gone = Unmarshal env0" "Unmarshal env_timeout = Unmarshal env0"
  by (simp_all add: env_exists_def env_forbidden_def env_invalid_def env_refused_def
        env_gone_def env_timeout_def)

lemma Unmarshal_request0_others [simp]:
  "Unmarshal env0 (PlannedState (request0 prior planned_wait0)) rt0 = Inr planned_wait0"
  "Unmarshal env0 (PlannedState (request0 prior planned_cf0)) rt0 = Inr planned_cf0"
  "Unmarshal env0 (PlannedState (request0 prior planned_empty_cf0)) rt0 = Inr planned_empty_cf0"
  "Unmarshal env0 (PlannedState (request0 prior planned_bad0)) rt0 = Inr planned_bad0"
  by (simp_all add: example_defs)

lemma As_map_examples [simp]:
  "As_map planned0 = Inr [(''manifest'', manifest0), (''object'', obj0)]"
  "As_map planned_bad0 = Inr [(''manifest'', manifest_bad0), (''object'', obj0)]"
  "As_map planned_wait0 =
     Inr [(''manifest'', manifest0), (''object'', obj0),
          (''wait_for'', Assoc (Map String) [(''rollout'', Prim String (PString ''true''))])]"
  "As_map planned_cf0 =
     Inr [(''manifest'', manifest0), (''object'', obj0),
          (''computed_fields'', Seq (List String)
             [Prim String (PString ''metadata.labels''),
              Prim String (PString ''spec..replicas'')])]"
  by (simp_all add: planned0_def planned_bad0_def planned_wait0_def planned_cf0_def)

lemma s0_calls: "store_calls s0 = []"
  by (simp add: s0_def)

lemma env0_clients:
  "canExecute env0 = []" "getDynamicClient env0 = Inr DynamicClient"
  "getRestMapper env0 = Inr RESTMapper"
  by (simp_all add: env0_def)

lemma env0_resource:
  "GVKFromTftypesObject env0 v RESTMapper = Inr gvk0"
  "TFTypeFromOpenAPI env0 (OAPIFoundry s0) gvk0 False = (Inr objT, Some (Foundry ''openapi v2''))"
  "GVRFromUnstructured env0 uo RESTMapper = Inr (GroupVersionResource ''apps'' ''v1'' ''deployments'')"
  "IsResourceNamespaced env0 gvk0 RESTMapper = Inr True"
  "Get env0 rs n = Inl not_found0" "IsNotFound env0 not_found0"
  by (simp_all add: env0_def gvk0_def not_found0_def is_not_found0_def)

lemma env0_planned_object:
  "computed_fields env0 [(''manifest'', manifest0), (''object'', obj0)] empty_response
     = (default_computed_fields env0, empty_response)"
  "Transform env0 obj0
     (backfill env0 (default_computed_fields env0) [(''manifest'', manifest0), (''object'', obj0)])
     = Inr backfilled0"
  "FromTFValue env0 (UnknownToNull env0 backfilled0) [] = Inr (JObject converted0)"
  "mapRemoveNulls env0 converted0 = written0"
  "GetName env0 written0 = ''x''" "GetNamespace env0 written0 = ''ns''"
  "MarshalJSON env0 written0 = Inr payload0"
  by (simp_all add: computed_fields_def env0_def obj0_def objT_def metaT_def specT_def
        manifest0_def backfill_def default_computed_fields_def index_or_zero_def
        backfilled0_def converted0_def written0_def payload0_def nested_string0_def
        attr_type0_def dquote_def)

lemma env0_prior_object:
  "As_map prior0 = Inr [(''manifest'', manifest0), (''object'', stored0)]"
  "FromTFValue env0 stored0 [] = Inr (JObject stored_object0)"
  "GetName env0 stored_object0 = ''x''" "GetNamespace env0 stored_object0 = ''ns''"
  by (simp_all add: prior0_def env0_def stored0_def stored_object0_def nested_string0_def)

section \<open>The properties\<close>

subsection \<open>C1: the operation follows from which states are Null\<close>

text \<open>
  Claim C1. Which requests a call sends to the store is decided by the nullness of the
  prior and the planned state. From above: with a Null prior state and a planned state
  that is not Null the call sends the requests of a create (a Get, then a Patch, then
  possibly the wait) and no Delete; with both states not Null it sends the requests of
  an update (a Patch, then possibly the wait) and neither Get nor Delete; with a prior
  state that is not Null and a Null planned state it sends at most one Delete and
  nothing else; with both states Null it sends nothing to the store.
  From below: a call that returns a new state has sent the Get and the Patch of a
  create, the Patch of an update, or the one Delete of a delete, as the two states
  say. A delete whose resource can be determined from the prior state sends exactly
  the Delete of that resource. An apply whose resource can be determined from the
  planned object begins with the Get of that resource when the prior state is Null,
  and sends the Patch of that resource, first when the prior state is not Null and
  after the Get when that reports that the resource is not found, whenever the object
  can be serialised.
\<close>

theorem operation_from_nullness:
  assumes "GetResourceType env (TypeName req) = Inr rt"
    and "Unmarshal env (PlannedState req) rt = Inr planned"
    and "Unmarshal env (PriorState req) rt = Inr prior"
    and "ApplyResourceChange env s req = (s', r)"
  shows "\<exists>cs. store_calls s' = store_calls s @ cs \<and>
     (IsNull prior \<and> \<not> IsNull planned \<longrightarrow> map kind cs \<in> create_traces) \<and>
     (\<not> IsNull prior \<and> \<not> IsNull planned \<longrightarrow> map kind cs \<in> update_traces) \<and>
     (\<not> IsNull prior \<and> IsNull planned \<longrightarrow> map kind cs \<in> delete_traces) \<and>
     (IsNull prior \<and> IsNull planned \<longrightarrow> cs = []) \<and>
     (\<forall>resp err. r = Return resp err \<and> NewState resp \<noteq> None \<longrightarrow>
        (IsNull prior \<longrightarrow> map kind cs \<in> {[KGet, KPatch], [KGet, KPatch, KWaitFor]}) \<and>
        (\<not> IsNull prior \<and> \<not> IsNull planned \<longrightarrow> map kind cs \<in> {[KPatch], [KPatch, KWaitFor]}) \<and>
        (\<not> IsNull prior \<and> IsNull planned \<longrightarrow> map kind cs = [KDelete])) \<and>
     (\<forall>c m priorStateVal pco uo gvr gvk ns.
        canExecute env = [] \<and> getDynamicClient env = Inr c \<and> getRestMapper env = Inr m \<and>
        \<not> IsNull prior \<and> IsNull planned \<and>
        As_map prior = Inr priorStateVal \<and>
        map_of priorStateVal ''object'' = Some pco \<and>
        FromTFValue env pco [] = Inr (JObject uo) \<and>
        GVRFromUnstructured env uo m = Inr gvr \<and>
        GVKFromTftypesObject env pco m = Inr gvk \<and>
        IsResourceNamespaced env gvk m = Inr ns \<longrightarrow>
        cs = [CallDelete
                (if ns then Namespace (Resource c gvr) (GetNamespace env uo) else Resource c gvr)
                (GetName env uo)]) \<and>
     (\<forall>c m psv obj gvk tsch f obj' pum gvr ns uo rname rs j.
        canExecute env = [] \<and> getDynamicClient env = Inr c \<and> getRestMapper env = Inr m \<and>
        (IsNull prior \<or> \<not> IsNull planned) \<and>
        As_map planned = Inr psv \<and>
        map_of psv ''object'' = Some obj \<and>
        GVKFromTftypesObject env obj m = Inr gvk \<and>
        TFTypeFromOpenAPI env (OAPIFoundry s) gvk False = (Inr tsch, f) \<and>
        Transform env obj (backfill env (fst (computed_fields env psv empty_response)) psv)
          = Inr obj' \<and>
        FromTFValue env (UnknownToNull env obj') [] = Inr (JObject pum) \<and>
        uo = mapRemoveNulls env pum \<and>
        GVRFromUnstructured env uo m = Inr gvr \<and>
        IsResourceNamespaced env gvk m = Inr ns \<and>
        rname = GetName env uo \<and>
        rs = (if ns then Namespace (Resource c gvr) (GetNamespace env uo) else Resource c gvr)
        \<longrightarrow>
        (IsNull prior \<longrightarrow> (\<exists>rest. cs = CallGet rs rname # rest)) \<and>
        ((\<not> IsNull prior \<or> (\<exists>e. Get env rs rname = Inl e \<and> IsNotFound env e)) \<and>
         MarshalJSON env uo = Inr j \<longrightarrow>
           (\<exists>w. cs = (if IsNull prior then [CallGet rs rname] else []) @
                        CallPatch rs rname ApplyPatchType j ''Terraform'' # w)))"
proof -
  from request_kinds_bounded[OF assms] obtain cs where
    cs: "store_calls s' = store_calls s @ cs"
    and ub: "IsNull prior \<and> \<not> IsNull planned \<longrightarrow> map kind cs \<in> create_traces"
      "\<not> IsNull prior \<and> \<not> IsNull planned \<longrightarrow> map kind cs \<in> update_traces"
      "\<not> IsNull prior \<and> IsNull planned \<longrightarrow> map kind cs \<in> delete_traces"
      "IsNull prior \<and> IsNull planned \<longrightarrow> cs = []"
    by blast
  from assms(4) cs have run: "store_calls (fst (ApplyResourceChange env s req)) = store_calls s @ cs"
    by simp
  have succ: "\<forall>resp err. r = Return resp err \<and> NewState resp \<noteq> None \<longrightarrow>
        (IsNull prior \<longrightarrow> map kind cs \<in> {[KGet, KPatch], [KGet, KPatch, KWaitFor]}) \<and>
        (\<not> IsNull prior \<and> \<not> IsNull planned \<longrightarrow> map kind cs \<in> {[KPatch], [KPatch, KWaitFor]}) \<and>
        (\<not> IsNull prior \<and> IsNull planned \<longrightarrow> map kind cs = [KDelete])"
  proof (intro allI impI, elim conjE)
    fix resp err
    assume r: "r = Return resp err" and n: "NewState resp \<noteq> None"
    from successful_call_requests[OF assms(1,2,3) assms(4)[unfolded r] n] cs
    show "(IsNull prior \<longrightarrow> map kind cs \<in> {[KGet, KPatch], [KGet, KPatch, KWaitFor]}) \<and>
        (\<not> IsNull prior \<and> \<not> IsNull planned \<longrightarrow> map kind cs \<in> {[KPatch], [KPatch, KWaitFor]}) \<and>
        (\<not> IsNull prior \<and> IsNull planned \<longrightarrow> map kind cs = [KDelete])"
      by auto
  qed
  have del: "\<forall>c m priorStateVal pco uo gvr gvk ns.
        canExecute env = [] \<and> getDynamicClient env = Inr c \<and> getRestMapper env = Inr m \<and>
        \<not> IsNull prior \<and> IsNull planned \<and>
        As_map prior = Inr priorStateVal \<and>
        map_of priorStateVal ''object'' = Some pco \<and>
        FromTFValue env pco [] = Inr (JObject uo) \<and>
        GVRFromUnstructured env uo m = Inr gvr \<and>
        GVKFromTftypesObject env pco m = Inr gvk \<and>
        IsResourceNamespaced env gvk m = Inr ns \<longrightarrow>
        cs = [CallDelete
                (if ns then Namespace (Resource c gvr) (GetNamespace env uo) else Resource c gvr)
                (GetName env uo)]"
  proof (intro allI impI, elim conjE)
    fix c m priorStateVal pco uo gvr gvk ns
    assume h: "canExecute env = []" "getDynamicClient env = Inr c" "getRestMapper env = Inr m"
      "\<not> IsNull prior" "IsNull planned"
      and d: "As_map prior = Inr priorStateVal"
        "map_of priorStateVal ''object'' = Some pco"
        "FromTFValue env pco [] = Inr (JObject uo)"
        "GVRFromUnstructured env uo m = Inr gvr"
        "GVKFromTftypesObject env pco m = Inr gvk"
        "IsResourceNamespaced env gvk m = Inr ns"
    from h(5) have "As_map planned = Inr []" by (rule IsNull_As_map)
    from ApplyResourceChange_delete[OF h(1) assms(1,2,3) this h(2,3,4,5)]
    have "store_calls (fst (ApplyResourceChange env s req)) =
          store_calls (fst (delete_resource env s req prior c m
                              (snd (computed_fields env [] empty_response))))"
      by (simp add: finish_call_fst_calls)
    with delete_resource_sends[OF d] run
    show "cs = [CallDelete
                (if ns then Namespace (Resource c gvr) (GetNamespace env uo) else Resource c gvr)
                (GetName env uo)]"
      by simp
  qed
  have app: "\<forall>c m psv obj gvk tsch f obj' pum gvr ns uo rname rs j.
        canExecute env = [] \<and> getDynamicClient env = Inr c \<and> getRestMapper env = Inr m \<and>
        (IsNull prior \<or> \<not> IsNull planned) \<and>
        As_map planned = Inr psv \<and>
        map_of psv ''object'' = Some obj \<and>
        GVKFromTftypesObject env obj m = Inr gvk \<and>
        TFTypeFromOpenAPI env (OAPIFoundry s) gvk False = (Inr tsch, f) \<and>
        Transform env obj (backfill env (fst (computed_fields env psv empty_response)) psv)
          = Inr obj' \<and>
        FromTFValue env (UnknownToNull env obj') [] = Inr (JObject pum) \<and>
        uo = mapRemoveNulls env pum \<and>
        GVRFromUnstructured env uo m = Inr gvr \<and>
        IsResourceNamespaced env gvk m = Inr ns \<and>
        rname = GetName env uo \<and>
        rs = (if ns then Namespace (Resource c gvr) (GetNamespace env uo) else Resource c gvr)
        \<longrightarrow>
        (IsNull prior \<longrightarrow> (\<exists>rest. cs = CallGet rs rname # rest)) \<and>
        ((\<not> IsNull prior \<or> (\<exists>e. Get env rs rname = Inl e \<and> IsNotFound env e)) \<and>
         MarshalJSON env uo = Inr j \<longrightarrow>
           (\<exists>w. cs = (if IsNull prior then [CallGet rs rname] else []) @
                        CallPatch rs rname ApplyPatchType j ''Terraform'' # w))"
  proof (intro allI impI, elim conjE)
    fix c m psv obj gvk tsch f obj' pum gvr ns uo rname rs j
    assume h: "canExecute env = []" "getDynamicClient env = Inr c" "getRestMapper env = Inr m"
      "IsNull prior \<or> \<not> IsNull planned" "As_map planned = Inr psv"
      and p: "map_of psv ''object'' = Some obj"
        "GVKFromTftypesObject env obj m = Inr gvk"
        "TFTypeFromOpenAPI env (OAPIFoundry s) gvk False = (Inr tsch, f)"
        "Transform env obj (backfill env (fst (computed_fields env psv empty_response)) psv)
           = Inr obj'"
        "FromTFValue env (UnknownToNull env obj') [] = Inr (JObject pum)"
      and uo: "uo = mapRemoveNulls env pum"
      and q: "GVRFromUnstructured env uo m = Inr gvr" "IsResourceNamespaced env gvk m = Inr ns"
      and n: "rname = GetName env uo"
        "rs = (if ns then Namespace (Resource c gvr) (GetNamespace env uo) else Resource c gvr)"
    let ?cfs = "fst (computed_fields env psv empty_response)"
    let ?resp = "snd (computed_fields env psv empty_response)"
    from apply_prepare_success[OF p q(1)[unfolded uo] q(2), of c ?resp] uo n
    have prep: "apply_prepare env s psv ?cfs c m ?resp =
        (s\<lparr>OAPIFoundry := f\<rparr>,
         Inr (uo, rname, NamespacedName_String env (GetNamespace env uo) rname, rs, gvk, tsch))"
      by simp
    obtain s1 x where ar: "apply_resource env s planned prior psv ?cfs c m ?resp = (s1, x)"
      by (cases "apply_resource env s planned prior psv ?cfs c m ?resp") auto
    from ApplyResourceChange_apply[OF h(1) assms(1,2,3) h(5,2,3,4), of s] ar
    have "store_calls (fst (ApplyResourceChange env s req)) = store_calls s1"
      by (simp add: finish_call_fst_calls)
    with run have s1: "store_calls s1 = store_calls s @ cs" by simp
    from apply_resource_sends[OF prep ar] s1 obtain rest where
      rest: "cs = (if IsNull prior then [CallGet rs rname] else []) @ rest"
        "\<forall>j. (\<not> IsNull prior \<or> (\<exists>e. Get env rs rname = Inl e \<and> IsNotFound env e)) \<and>
                 MarshalJSON env uo = Inr j \<longrightarrow>
                 (\<exists>w. rest = CallPatch rs rname ApplyPatchType j ''Terraform'' # w)"
      by auto
    from rest(1) have a: "IsNull prior \<longrightarrow> (\<exists>rest. cs = CallGet rs rname # rest)" by simp
    from rest have b: "(\<not> IsNull prior \<or> (\<exists>e. Get env rs rname = Inl e \<and> IsNotFound env e)) \<and>
         MarshalJSON env uo = Inr j \<longrightarrow>
           (\<exists>w. cs = (if IsNull prior then [CallGet rs rname] else []) @
                        CallPatch rs rname ApplyPatchType j ''Terraform'' # w)"
      by blast
    from a b show "(IsNull prior \<longrightarrow> (\<exists>rest. cs = CallGet rs rname # rest)) \<and>
        ((\<not> IsNull prior \<or> (\<exists>e. Get env rs rname = Inl e \<and> IsNotFound env e)) \<and>
         MarshalJSON env uo = Inr j \<longrightarrow>
           (\<exists>w. cs = (if IsNull prior then [CallGet rs rname] else []) @
                        CallPatch rs rname ApplyPatchType j ''Terraform'' # w))"
      by (rule conjI)
  qed
  from cs ub succ del app show ?thesis
    by (intro exI[of _ cs] conjI)
qed


text \<open>
  The four cases on the example store: a create, an update, a delete and a call with
  both states Null, each with the requests it sends.
\<close>

theorem operation_from_nullness_witness:
  "store_calls (fst (ApplyResourceChange env0 s0 (request0 (Null rt0) planned0)))
     = [CallGet rs0 ''x'', patch0] \<and>
   store_calls (fst (ApplyResourceChange env0 s0 (request0 prior0 planned0))) = [patch0] \<and>
   store_calls (fst (ApplyResourceChange env0 s0 (request0 prior0 (Null rt0))))
     = [CallDelete rs0 ''x''] \<and>
   store_calls (fst (ApplyResourceChange env0 s0 (request0 (Null rt0) (Null rt0)))) = []"
proof -
  let ?psv = "[(''manifest'', manifest0), (''object'', obj0)]"
  let ?gvr = "GroupVersionResource ''apps'' ''v1'' ''deployments''"
  have rs: "rs0 = (if True then Namespace (Resource DynamicClient ?gvr) ''ns''
                   else Resource DynamicClient ?gvr)"
    by (simp add: rs0_def)
  have n: "IsNull (Null rt0)" "\<not> IsNull planned0" "\<not> IsNull prior0"
    by (simp_all add: planned0_def prior0_def)
  have m: "As_map planned0 = Inr ?psv" by simp
  have tr: "Transform env0 obj0
      (backfill env0 (fst (computed_fields env0 ?psv empty_response)) ?psv) = Inr backfilled0"
    by (simp add: env0_planned_object)
  have nf: "\<exists>e. Get env0 rs0 ''x'' = Inl e \<and> IsNotFound env0 e"
    by (simp add: env0_resource)
  from operation_from_nullness[where env=env0 and s=s0 and prior="Null rt0" and planned=planned0,
      OF _ _ _ run_create]
  obtain cs1 where
    c1: "store_calls \<lparr>OAPIFoundry = None, store_calls = [CallGet rs0 ''x'', patch0]\<rparr>
           = store_calls s0 @ cs1"
    and k1: "\<forall>resp err.
        Return \<lparr>NewState = Some (encode0 (Assoc rt0 [(''manifest'', manifest0),
                                                      (''object'', new_object0)])),
                Diagnostics = []\<rparr> None = Return resp err \<and> NewState resp \<noteq> None \<longrightarrow>
        (IsNull (Null rt0) \<longrightarrow> map kind cs1 \<in> {[KGet, KPatch], [KGet, KPatch, KWaitFor]}) \<and>
        (\<not> IsNull (Null rt0) \<and> \<not> IsNull planned0 \<longrightarrow>
           map kind cs1 \<in> {[KPatch], [KPatch, KWaitFor]}) \<and>
        (\<not> IsNull (Null rt0) \<and> IsNull planned0 \<longrightarrow> map kind cs1 = [KDelete])"
    and a1: "\<forall>c m psv obj gvk tsch f obj' pum gvr ns uo rname rs j.
        canExecute env0 = [] \<and> getDynamicClient env0 = Inr c \<and> getRestMapper env0 = Inr m \<and>
        (IsNull (Null rt0) \<or> \<not> IsNull planned0) \<and>
        As_map planned0 = Inr psv \<and>
        map_of psv ''object'' = Some obj \<and>
        GVKFromTftypesObject env0 obj m = Inr gvk \<and>
        TFTypeFromOpenAPI env0 (OAPIFoundry s0) gvk False = (Inr tsch, f) \<and>
        Transform env0 obj (backfill env0 (fst (computed_fields env0 psv empty_response)) psv)
          = Inr obj' \<and>
        FromTFValue env0 (UnknownToNull env0 obj') [] = Inr (JObject pum) \<and>
        uo = mapRemoveNulls env0 pum \<and>
        GVRFromUnstructured env0 uo m = Inr gvr \<and>
        IsResourceNamespaced env0 gvk m = Inr ns \<and>
        rname = GetName env0 uo \<and>
        rs = (if ns then Namespace (Resource c gvr) (GetNamespace env0 uo) else Resource c gvr)
        \<longrightarrow>
        (IsNull (Null rt0) \<longrightarrow> (\<exists>rest. cs1 = CallGet rs rname # rest)) \<and>
        ((\<not> IsNull (Null rt0) \<or> (\<exists>e. Get env0 rs rname = Inl e \<and> IsNotFound env0 e)) \<and>
         MarshalJSON env0 uo = Inr j \<longrightarrow>
           (\<exists>w. cs1 = (if IsNull (Null rt0) then [CallGet rs rname] else []) @
                        CallPatch rs rname ApplyPatchType j ''Terraform'' # w))"
    by auto
  from k1 have "map kind cs1 \<in> {[KGet, KPatch], [KGet, KPatch, KWaitFor]}" by simp
  moreover
  from a1[rule_format, where c=DynamicClient and m=RESTMapper and psv="?psv" and obj=obj0
      and gvk=gvk0 and tsch=objT and f="Some (Foundry ''openapi v2'')" and obj'=backfilled0
      and pum=converted0 and gvr="?gvr" and ns=True and uo=written0 and rname="''x''"
      and rs=rs0 and j=payload0]
    env0_clients env0_resource env0_planned_object m tr nf rs
  have "\<exists>w. cs1 = CallGet rs0 ''x'' # patch0 # w"
    by (simp add: patch0_def)
  ultimately have "cs1 = [CallGet rs0 ''x'', patch0] \<or>
                   (\<exists>x. cs1 = [CallGet rs0 ''x'', patch0, x])"
    by auto
  with c1 have a: "cs1 = [CallGet rs0 ''x'', patch0]" by (auto simp: s0_calls)
  from operation_from_nullness[where env=env0 and s=s0 and prior=prior0 and planned=planned0,
      OF _ _ _ run_update]
  obtain cs2 where
    c2: "store_calls \<lparr>OAPIFoundry = None, store_calls = [patch0]\<rparr> = store_calls s0 @ cs2"
    and a2: "\<forall>c m psv obj gvk tsch f obj' pum gvr ns uo rname rs j.
        canExecute env0 = [] \<and> getDynamicClient env0 = Inr c \<and> getRestMapper env0 = Inr m \<and>
        (IsNull prior0 \<or> \<not> IsNull planned0) \<and>
        As_map planned0 = Inr psv \<and>
        map_of psv ''object'' = Some obj \<and>
        GVKFromTftypesObject env0 obj m = Inr gvk \<and>
        TFTypeFromOpenAPI env0 (OAPIFoundry s0) gvk False = (Inr tsch, f) \<and>
        Transform env0 obj (backfill env0 (fst (computed_fields env0 psv empty_response)) psv)
          = Inr obj' \<and>
        FromTFValue env0 (UnknownToNull env0 obj') [] = Inr (JObject pum) \<and>
        uo = mapRemoveNulls env0 pum \<and>
        GVRFromUnstructured env0 uo m = Inr gvr \<and>
        IsResourceNamespaced env0 gvk m = Inr ns \<and>
        rname = GetName env0 uo \<and>
        rs = (if ns then Namespace (Resource c gvr) (GetNamespace env0 uo) else Resource c gvr)
        \<longrightarrow>
        (IsNull prior0 \<longrightarrow> (\<exists>rest. cs2 = CallGet rs rname # rest)) \<and>
        ((\<not> IsNull prior0 \<or> (\<exists>e. Get env0 rs rname = Inl e \<and> IsNotFound env0 e)) \<and>
         MarshalJSON env0 uo = Inr j \<longrightarrow>
           (\<exists>w. cs2 = (if IsNull prior0 then [CallGet rs rname] else []) @
                        CallPatch rs rname ApplyPatchType j ''Terraform'' # w))"
    by auto
  from a2[rule_format, where c=DynamicClient and m=RESTMapper and psv="?psv" and obj=obj0
      and gvk=gvk0 and tsch=objT and f="Some (Foundry ''openapi v2'')" and obj'=backfilled0
      and pum=converted0 and gvr="?gvr" and ns=True and uo=written0 and rname="''x''"
      and rs=rs0 and j=payload0]
    env0_clients env0_resource env0_planned_object m tr n rs
  have "\<exists>w. cs2 = patch0 # w"
    by (simp add: patch0_def)
  with c2 have b: "cs2 = [patch0]" by (auto simp: s0_calls)
  from operation_from_nullness[where env=env0 and s=s0 and prior=prior0 and planned="Null rt0",
      OF _ _ _ run_delete]
  obtain cs3 where
    c3: "store_calls \<lparr>OAPIFoundry = None, store_calls = [CallDelete rs0 ''x'']\<rparr>
           = store_calls s0 @ cs3"
    and d3: "\<forall>c m priorStateVal pco uo gvr gvk ns.
        canExecute env0 = [] \<and> getDynamicClient env0 = Inr c \<and> getRestMapper env0 = Inr m \<and>
        \<not> IsNull prior0 \<and> IsNull (Null rt0) \<and>
        As_map prior0 = Inr priorStateVal \<and>
        map_of priorStateVal ''object'' = Some pco \<and>
        FromTFValue env0 pco [] = Inr (JObject uo) \<and>
        GVRFromUnstructured env0 uo m = Inr gvr \<and>
        GVKFromTftypesObject env0 pco m = Inr gvk \<and>
        IsResourceNamespaced env0 gvk m = Inr ns \<longrightarrow>
        cs3 = [CallDelete
                (if ns then Namespace (Resource c gvr) (GetNamespace env0 uo) else Resource c gvr)
                (GetName env0 uo)]"
    by auto
  from d3[rule_format, where c=DynamicClient and m=RESTMapper
      and priorStateVal="[(''manifest'', manifest0), (''object'', stored0)]"
      and pco=stored0 and uo=stored_object0 and gvr="?gvr" and gvk=gvk0 and ns=True]
    env0_clients env0_resource env0_prior_object n rs
  have c: "cs3 = [CallDelete rs0 ''x'']" by simp
  from operation_from_nullness[where env=env0 and s=s0 and prior="Null rt0" and planned="Null rt0",
      OF _ _ _ run_none]
  obtain cs4 where
    c4: "store_calls s0 = store_calls s0 @ cs4"
    and e4: "IsNull (Null rt0) \<and> IsNull (Null rt0) \<longrightarrow> cs4 = []"
    by auto
  from e4 have d: "cs4 = []" by simp
  from a b c d c1 c2 c3 c4 show ?thesis
    by (simp add: run_create run_update run_delete run_none s0_calls)
qed


subsection \<open>C2: what the backfill does at a position\<close>

text \<open>
  Claim C2. The function given to the walk over the planned object leaves the value at
  a position unchanged when the path of the position is not a computed field or the
  value is known. When the value is unknown at a computed field and the manifest has
  no value at the path (the lookup fails with steps of the path left over), the value
  stays as it is, unknown. When the manifest has a value at the path, that value is
  converted to the type of the planned value and takes its place, and when the
  conversion fails the function fails with an error that carries the path. When the
  walk fails, the call returns the diagnostic of the failed backfill, without a new
  state and without any request to the store. When the walk succeeds, its result is
  the object the apply goes on with: what the Patch sends is the serialisation of the
  result of the walk, with its unknowns turned to Null, converted and freed of its
  Null entries, and the Patch is sent whenever the resource of that object can be
  determined, the object can be serialised, and the call is an update or the Get of a
  create reports that the resource is not found.
\<close>

theorem backfill_positions:
  "(computedFields (path_String env ap) = None \<or> IsKnown v \<longrightarrow>
      backfill env computedFields psv ap v = Inr v) \<and>
   (computedFields (path_String env ap) \<noteq> None \<and> \<not> IsKnown v \<longrightarrow>
      (case WalkAttributePath env (index_or_zero psv ''manifest'') ap of
         (ppMan, restPath, Some err) \<Rightarrow>
           restPath \<noteq> [] \<longrightarrow> backfill env computedFields psv ap v = Inr v
       | (ppMan, restPath, None) \<Rightarrow>
           (case ValueToType env ppMan (Type v) [] of
              Inr nv \<Rightarrow> backfill env computedFields psv ap v = Inr nv
            | Inl err \<Rightarrow> backfill env computedFields psv ap v = Inl (AttributePathError ap err)))) \<and>
   (canExecute env = [] \<and>
    GetResourceType env (TypeName req) = Inr rt \<and>
    Unmarshal env (PlannedState req) rt = Inr planned \<and>
    Unmarshal env (PriorState req) rt = Inr prior \<and>
    (IsNull prior \<or> \<not> IsNull planned) \<and>
    As_map planned = Inr psv \<and>
    computed_fields env psv empty_response = (computedFields, resp) \<and>
    getDynamicClient env = Inr c \<and>
    getRestMapper env = Inr m \<and>
    map_of psv ''object'' = Some obj \<and>
    GVKFromTftypesObject env obj m = Inr gvk \<and>
    TFTypeFromOpenAPI env (OAPIFoundry s) gvk False = (Inr tsch, f) \<and>
    Transform env obj (backfill env computedFields psv) = Inl terr \<longrightarrow>
      ApplyResourceChange env s req =
        (s\<lparr>OAPIFoundry := f\<rparr>,
         Return (add_diag resp
           (error_diag ''Failed to backfill computed values in proposed object'' (Error env terr)))
           None) \<and>
      NewState resp = None) \<and>
   (canExecute env = [] \<and>
    GetResourceType env (TypeName req) = Inr rt \<and>
    Unmarshal env (PlannedState req) rt = Inr planned \<and>
    Unmarshal env (PriorState req) rt = Inr prior \<and>
    (IsNull prior \<or> \<not> IsNull planned) \<and>
    As_map planned = Inr psv \<and>
    computed_fields env psv empty_response = (computedFields, resp) \<and>
    getDynamicClient env = Inr c \<and>
    getRestMapper env = Inr m \<and>
    map_of psv ''object'' = Some obj \<and>
    GVKFromTftypesObject env obj m = Inr gvk \<and>
    TFTypeFromOpenAPI env (OAPIFoundry s) gvk False = (Inr tsch, f) \<and>
    Transform env obj (backfill env computedFields psv) = Inr obj' \<and>
    FromTFValue env (UnknownToNull env obj') [] = Inr (JObject pum) \<and>
    uo = mapRemoveNulls env pum \<and>
    GVRFromUnstructured env uo m = Inr gvr \<and>
    IsResourceNamespaced env gvk m = Inr ns \<and>
    rname = GetName env uo \<and>
    rs = (if ns then Namespace (Resource c gvr) (GetNamespace env uo) else Resource c gvr) \<and>
    (\<not> IsNull prior \<or> (\<exists>e. Get env rs rname = Inl e \<and> IsNotFound env e)) \<and>
    MarshalJSON env uo = Inr j \<longrightarrow>
      (\<exists>w. store_calls (fst (ApplyResourceChange env s req)) =
             store_calls s @ (if IsNull prior then [CallGet rs rname] else []) @
               CallPatch rs rname ApplyPatchType j ''Terraform'' # w))"
proof (intro conjI impI)
  assume "computedFields (path_String env ap) = None \<or> IsKnown v"
  then show "backfill env computedFields psv ap v = Inr v"
    by (auto simp: backfill_def split: option.splits)
next
  assume "computedFields (path_String env ap) \<noteq> None \<and> \<not> IsKnown v"
  then show "case WalkAttributePath env (index_or_zero psv ''manifest'') ap of
         (ppMan, restPath, Some err) \<Rightarrow>
           restPath \<noteq> [] \<longrightarrow> backfill env computedFields psv ap v = Inr v
       | (ppMan, restPath, None) \<Rightarrow>
           (case ValueToType env ppMan (Type v) [] of
              Inr nv \<Rightarrow> backfill env computedFields psv ap v = Inr nv
            | Inl err \<Rightarrow> backfill env computedFields psv ap v = Inl (AttributePathError ap err))"
    by (auto simp: backfill_def split: option.splits prod.splits sum.splits)
next
  assume a: "canExecute env = [] \<and>
    GetResourceType env (TypeName req) = Inr rt \<and>
    Unmarshal env (PlannedState req) rt = Inr planned \<and>
    Unmarshal env (PriorState req) rt = Inr prior \<and>
    (IsNull prior \<or> \<not> IsNull planned) \<and>
    As_map planned = Inr psv \<and>
    computed_fields env psv empty_response = (computedFields, resp) \<and>
    getDynamicClient env = Inr c \<and>
    getRestMapper env = Inr m \<and>
    map_of psv ''object'' = Some obj \<and>
    GVKFromTftypesObject env obj m = Inr gvk \<and>
    TFTypeFromOpenAPI env (OAPIFoundry s) gvk False = (Inr tsch, f) \<and>
    Transform env obj (backfill env computedFields psv) = Inl terr"
  then have prep: "apply_prepare env s psv computedFields c m resp =
      (s\<lparr>OAPIFoundry := f\<rparr>,
       Inl (Return (add_diag resp
         (error_diag ''Failed to backfill computed values in proposed object'' (Error env terr)))
         None))"
    by (simp add: apply_prepare_def)
  from a have cf: "computed_fields env psv \<lparr>NewState = None, Diagnostics = []\<rparr> = (computedFields, resp)"
    by (simp add: empty_response_def)
  from a prep cf show "ApplyResourceChange env s req =
        (s\<lparr>OAPIFoundry := f\<rparr>,
         Return (add_diag resp
           (error_diag ''Failed to backfill computed values in proposed object'' (Error env terr)))
           None)"
    by (auto simp: ApplyResourceChange_def apply_resource_def finish_call_def)
  from a computed_fields_NewState[of env psv empty_response computedFields resp]
  show "NewState resp = None" by (simp add: empty_response_def)
next
  assume a: "canExecute env = [] \<and>
    GetResourceType env (TypeName req) = Inr rt \<and>
    Unmarshal env (PlannedState req) rt = Inr planned \<and>
    Unmarshal env (PriorState req) rt = Inr prior \<and>
    (IsNull prior \<or> \<not> IsNull planned) \<and>
    As_map planned = Inr psv \<and>
    computed_fields env psv empty_response = (computedFields, resp) \<and>
    getDynamicClient env = Inr c \<and>
    getRestMapper env = Inr m \<and>
    map_of psv ''object'' = Some obj \<and>
    GVKFromTftypesObject env obj m = Inr gvk \<and>
    TFTypeFromOpenAPI env (OAPIFoundry s) gvk False = (Inr tsch, f) \<and>
    Transform env obj (backfill env computedFields psv) = Inr obj' \<and>
    FromTFValue env (UnknownToNull env obj') [] = Inr (JObject pum) \<and>
    uo = mapRemoveNulls env pum \<and>
    GVRFromUnstructured env uo m = Inr gvr \<and>
    IsResourceNamespaced env gvk m = Inr ns \<and>
    rname = GetName env uo \<and>
    rs = (if ns then Namespace (Resource c gvr) (GetNamespace env uo) else Resource c gvr) \<and>
    (\<not> IsNull prior \<or> (\<exists>e. Get env rs rname = Inl e \<and> IsNotFound env e)) \<and>
    MarshalJSON env uo = Inr j"
  then have h: "canExecute env = []" "GetResourceType env (TypeName req) = Inr rt"
    "Unmarshal env (PlannedState req) rt = Inr planned"
    "Unmarshal env (PriorState req) rt = Inr prior"
    "IsNull prior \<or> \<not> IsNull planned" "As_map planned = Inr psv"
    "getDynamicClient env = Inr c" "getRestMapper env = Inr m"
    and cf: "computed_fields env psv empty_response = (computedFields, resp)"
    and p: "map_of psv ''object'' = Some obj" "GVKFromTftypesObject env obj m = Inr gvk"
      "TFTypeFromOpenAPI env (OAPIFoundry s) gvk False = (Inr tsch, f)"
      "Transform env obj (backfill env computedFields psv) = Inr obj'"
      "FromTFValue env (UnknownToNull env obj') [] = Inr (JObject pum)"
    and q: "GVRFromUnstructured env uo m = Inr gvr"
      "IsResourceNamespaced env gvk m = Inr ns"
    and n: "uo = mapRemoveNulls env pum" "rname = GetName env uo"
      "rs = (if ns then Namespace (Resource c gvr) (GetNamespace env uo) else Resource c gvr)"
    and w: "\<not> IsNull prior \<or> (\<exists>e. Get env rs rname = Inl e \<and> IsNotFound env e)"
      "MarshalJSON env uo = Inr j"
    by blast+
  from apply_prepare_success[OF p q(1)[unfolded n(1)] q(2), of c resp] n
  have prep: "apply_prepare env s psv computedFields c m resp =
      (s\<lparr>OAPIFoundry := f\<rparr>,
       Inr (uo, rname, NamespacedName_String env (GetNamespace env uo) rname, rs, gvk, tsch))"
    by simp
  obtain s1 x where ar: "apply_resource env s planned prior psv computedFields c m resp = (s1, x)"
    by (cases "apply_resource env s planned prior psv computedFields c m resp") auto
  from ApplyResourceChange_apply[OF h(1,2,3,4,6,7,8,5), of s] cf ar
  have "store_calls (fst (ApplyResourceChange env s req)) = store_calls s1"
    by (simp add: finish_call_fst_calls)
  with apply_resource_sends[OF prep ar] w
  show "\<exists>w. store_calls (fst (ApplyResourceChange env s req)) =
             store_calls s @ (if IsNull prior then [CallGet rs rname] else []) @
               CallPatch rs rname ApplyPatchType j ''Terraform'' # w"
    by auto
qed


text \<open>
  On the example: the replicas are not a computed field; the annotations are one and
  are absent from the manifest; the labels are taken from the manifest; labels that are
  a string cannot become a map, and the call that plans them returns the diagnostic.
  The create of the example walks the planned object, whose labels are unknown, into
  the object with the labels of the manifest, and the Patch sends these labels.
\<close>

theorem backfill_positions_witness:
  "backfill env0 (default_computed_fields env0) [(''manifest'', manifest0), (''object'', obj0)]
     [AttributeName ''spec'', AttributeName ''replicas''] (Unknown Number) = Inr (Unknown Number) \<and>
   backfill env0 (default_computed_fields env0) [(''manifest'', manifest0), (''object'', obj0)]
     [AttributeName ''metadata'', AttributeName ''annotations''] (Unknown (Map String))
     = Inr (Unknown (Map String)) \<and>
   backfill env0 (default_computed_fields env0) [(''manifest'', manifest0), (''object'', obj0)]
     [AttributeName ''metadata'', AttributeName ''labels''] (Unknown (Map String))
     = Inr (Assoc (Map String) [(''app'', Prim String (PString ''web''))]) \<and>
   backfill env0 (default_computed_fields env0) [(''manifest'', manifest_bad0), (''object'', obj0)]
     [AttributeName ''metadata'', AttributeName ''labels''] (Unknown (Map String))
     = Inl (AttributePathError [AttributeName ''metadata'', AttributeName ''labels'']
              (errorString ''unsupported morph of primitive value'')) \<and>
   ApplyResourceChange env0 s0 (request0 (Null rt0) planned_bad0) =
     (s0\<lparr>OAPIFoundry := Some (Foundry ''openapi v2'')\<rparr>,
      Return (add_diag empty_response
        (error_diag ''Failed to backfill computed values in proposed object''
           ''metadata.labels: unsupported morph of primitive value'')) None) \<and>
   Transform env0 obj0
     (backfill env0 (default_computed_fields env0) [(''manifest'', manifest0), (''object'', obj0)])
     = Inr backfilled0 \<and>
   (\<exists>w. store_calls (fst (ApplyResourceChange env0 s0 (request0 (Null rt0) planned0))) =
          CallGet rs0 ''x'' #
          CallPatch rs0 ''x'' ApplyPatchType
            ''{metadata:{name:\"x\",namespace:\"ns\",labels:{app:\"web\",},},spec:{replicas:number,},}''
            ''Terraform'' # w)"
proof -
  let ?cfs = "default_computed_fields env0"
  let ?psv = "[(''manifest'', manifest0), (''object'', obj0)]"
  let ?bad = "[(''manifest'', manifest_bad0), (''object'', obj0)]"
  let ?labels = "[AttributeName ''metadata'', AttributeName ''labels'']"
  let ?annotations = "[AttributeName ''metadata'', AttributeName ''annotations'']"
  let ?replicas = "[AttributeName ''spec'', AttributeName ''replicas'']"
  let ?terr = "AttributePathError ?labels (errorString ''unsupported morph of primitive value'')"
  have cf: "?cfs (path_String env0 ?replicas) = None"
    "?cfs (path_String env0 ?labels) \<noteq> None" "?cfs (path_String env0 ?annotations) \<noteq> None"
    by (simp_all add: default_computed_fields_def env0_def)
  have w1: "WalkAttributePath env0 (index_or_zero ?psv ''manifest'') ?annotations =
      (Assoc metaT
           [(''name'', Prim String (PString ''x'')),
            (''namespace'', Prim String (PString ''ns'')),
            (''labels'', Assoc (Map String) [(''app'', Prim String (PString ''web''))])],
       [AttributeName ''annotations''],
       Some (errorString ''step cannot be applied to this value''))"
    by (simp add: env0_def index_or_zero_def manifest0_def)
  have w2: "WalkAttributePath env0 (index_or_zero ?psv ''manifest'') ?labels =
      (Assoc (Map String) [(''app'', Prim String (PString ''web''))], [], None)"
    by (simp add: env0_def index_or_zero_def manifest0_def)
  have w3: "WalkAttributePath env0 (index_or_zero ?bad ''manifest'') ?labels =
      (Prim String (PString ''web''), [], None)"
    by (simp add: env0_def index_or_zero_def manifest_bad0_def)
  have m2: "ValueToType env0 (Assoc (Map String) [(''app'', Prim String (PString ''web''))])
              (Type (Unknown (Map String))) [] =
            Inr (Assoc (Map String) [(''app'', Prim String (PString ''web''))])"
    "ValueToType env0 (Prim String (PString ''web'')) (Type (Unknown (Map String))) [] =
       Inl (errorString ''unsupported morph of primitive value'')"
    by (simp_all add: env0_def)
  from backfill_positions[where env=env0 and computedFields="?cfs" and psv="?psv"
      and ap="?replicas" and v="Unknown Number", THEN conjunct1] cf(1)
  have a: "backfill env0 ?cfs ?psv ?replicas (Unknown Number) = Inr (Unknown Number)"
    by simp
  from backfill_positions[where env=env0 and computedFields="?cfs" and psv="?psv"
      and ap="?annotations" and v="Unknown (Map String)", THEN conjunct2, THEN conjunct1] cf(3) w1
  have b: "backfill env0 ?cfs ?psv ?annotations (Unknown (Map String)) = Inr (Unknown (Map String))"
    by simp
  from backfill_positions[where env=env0 and computedFields="?cfs" and psv="?psv"
      and ap="?labels" and v="Unknown (Map String)", THEN conjunct2, THEN conjunct1] cf(2) w2 m2(1)
  have c: "backfill env0 ?cfs ?psv ?labels (Unknown (Map String))
     = Inr (Assoc (Map String) [(''app'', Prim String (PString ''web''))])"
    by simp
  from backfill_positions[where env=env0 and computedFields="?cfs" and psv="?bad"
      and ap="?labels" and v="Unknown (Map String)", THEN conjunct2, THEN conjunct1] cf(2) w3 m2(2)
  have d: "backfill env0 ?cfs ?bad ?labels (Unknown (Map String)) = Inl ?terr"
    by simp
  have t: "Transform env0 obj0 (backfill env0 ?cfs ?bad) = Inl ?terr"
    by (simp add: env0_def obj0_def objT_def metaT_def specT_def manifest_bad0_def backfill_def
          default_computed_fields_def index_or_zero_def)
  have h: "computed_fields env0 ?bad empty_response = (?cfs, empty_response)"
    "getDynamicClient env0 = Inr DynamicClient" "getRestMapper env0 = Inr RESTMapper"
    "GVKFromTftypesObject env0 obj0 RESTMapper = Inr gvk0"
    "TFTypeFromOpenAPI env0 (OAPIFoundry s0) gvk0 False = (Inr objT, Some (Foundry ''openapi v2''))"
    "Error env0 ?terr = ''metadata.labels: unsupported morph of primitive value''"
    by (simp_all add: computed_fields_def env0_def gvk0_def)
  from backfill_positions[where env=env0 and computedFields="?cfs" and psv="?bad"
      and req="request0 (Null rt0) planned_bad0" and rt=rt0 and planned=planned_bad0
      and prior="Null rt0" and resp=empty_response and c=DynamicClient and m=RESTMapper
      and obj=obj0 and gvk=gvk0 and s=s0 and tsch=objT and f="Some (Foundry ''openapi v2'')"
      and terr="?terr", THEN conjunct2, THEN conjunct2, THEN conjunct1] t h
  have e: "ApplyResourceChange env0 s0 (request0 (Null rt0) planned_bad0) =
     (s0\<lparr>OAPIFoundry := Some (Foundry ''openapi v2'')\<rparr>,
      Return (add_diag empty_response
        (error_diag ''Failed to backfill computed values in proposed object''
           ''metadata.labels: unsupported morph of primitive value'')) None)"
    by simp
  have rs: "rs0 = (if True then Namespace (Resource DynamicClient
                       (GroupVersionResource ''apps'' ''v1'' ''deployments'')) ''ns''
                   else Resource DynamicClient (GroupVersionResource ''apps'' ''v1'' ''deployments''))"
    by (simp add: rs0_def)
  have nf: "\<exists>e. Get env0 rs0 ''x'' = Inl e \<and> IsNotFound env0 e"
    by (simp add: env0_resource)
  have u: "Unmarshal env0 (PlannedState (request0 (Null rt0) planned0)) rt0 = Inr planned0"
    "Unmarshal env0 (PriorState (request0 (Null rt0) planned0)) rt0 = Inr (Null rt0)"
    "GetResourceType env0 (TypeName (request0 (Null rt0) planned0)) = Inr rt0"
    "As_map planned0 = Inr ?psv"
    by simp_all
  from backfill_positions[where env=env0 and computedFields="?cfs" and psv="?psv"
      and req="request0 (Null rt0) planned0" and rt=rt0 and planned=planned0
      and prior="Null rt0" and resp=empty_response and c=DynamicClient and m=RESTMapper
      and obj=obj0 and gvk=gvk0 and s=s0 and tsch=objT and f="Some (Foundry ''openapi v2'')"
      and obj'=backfilled0 and pum=converted0 and uo=written0
      and gvr="GroupVersionResource ''apps'' ''v1'' ''deployments''" and ns=True
      and rname="''x''" and rs=rs0 and j=payload0,
      THEN conjunct2, THEN conjunct2, THEN conjunct2]
    env0_clients env0_resource env0_planned_object u rs nf
  have g: "\<exists>w. store_calls (fst (ApplyResourceChange env0 s0 (request0 (Null rt0) planned0))) =
          CallGet rs0 ''x'' # CallPatch rs0 ''x'' ApplyPatchType payload0 ''Terraform'' # w"
    by (simp add: s0_calls)
  from a b c d e g env0_planned_object(2) show ?thesis by (simp add: payload0_def)
qed

subsection \<open>C3: the default computed fields\<close>

text \<open>
  Claim C3, as the function has it. When the planned state has no
  \<^verbatim>\<open>computed_fields\<close>, or has it Null or unknown, the computed fields are the two
  paths \<^verbatim>\<open>metadata.annotations\<close> and \<^verbatim>\<open>metadata.labels\<close>, each stored under the
  string of the path, and these are the computed fields with which the first case of
  the switch runs. A known list without entries is not replaced by the default: the
  computed fields are then empty, and the first case runs with none.
\<close>

theorem default_computed_fields_when_unspecified:
  "(map_of psv ''computed_fields'' = None \<or>
    (\<exists>cfVal. map_of psv ''computed_fields'' = Some cfVal \<and> (IsNull cfVal \<or> \<not> IsKnown cfVal)) \<longrightarrow>
      computed_fields env psv resp =
        ([path_String env [AttributeName ''metadata'', AttributeName ''annotations''] \<mapsto>
            [AttributeName ''metadata'', AttributeName ''annotations''],
          path_String env [AttributeName ''metadata'', AttributeName ''labels''] \<mapsto>
            [AttributeName ''metadata'', AttributeName ''labels'']], resp)) \<and>
   (map_of psv ''computed_fields'' = Some (Seq t []) \<longrightarrow>
      computed_fields env psv resp = (Map.empty, resp)) \<and>
   (canExecute env = [] \<and>
    GetResourceType env (TypeName req) = Inr rt \<and>
    Unmarshal env (PlannedState req) rt = Inr planned \<and>
    Unmarshal env (PriorState req) rt = Inr prior \<and>
    (IsNull prior \<or> \<not> IsNull planned) \<and>
    As_map planned = Inr psv \<and>
    getDynamicClient env = Inr c \<and>
    getRestMapper env = Inr m \<longrightarrow>
      (map_of psv ''computed_fields'' = None \<or>
       (\<exists>cfVal. map_of psv ''computed_fields'' = Some cfVal \<and> (IsNull cfVal \<or> \<not> IsKnown cfVal)) \<longrightarrow>
         ApplyResourceChange env s req =
           finish_call (apply_resource env s planned prior psv
             [path_String env [AttributeName ''metadata'', AttributeName ''annotations''] \<mapsto>
                [AttributeName ''metadata'', AttributeName ''annotations''],
              path_String env [AttributeName ''metadata'', AttributeName ''labels''] \<mapsto>
                [AttributeName ''metadata'', AttributeName ''labels'']]
             c m empty_response)) \<and>
      (map_of psv ''computed_fields'' = Some (Seq t []) \<longrightarrow>
         ApplyResourceChange env s req =
           finish_call (apply_resource env s planned prior psv Map.empty c m empty_response)))"
proof -
  let ?two = "[path_String env [AttributeName ''metadata'', AttributeName ''annotations''] \<mapsto>
            [AttributeName ''metadata'', AttributeName ''annotations''],
          path_String env [AttributeName ''metadata'', AttributeName ''labels''] \<mapsto>
            [AttributeName ''metadata'', AttributeName ''labels'']]"
  have a: "computed_fields env psv r = (?two, r)"
    if "map_of psv ''computed_fields'' = None \<or>
        (\<exists>cfVal. map_of psv ''computed_fields'' = Some cfVal \<and> (IsNull cfVal \<or> \<not> IsKnown cfVal))"
    for r
    using that by (auto simp: computed_fields_def default_computed_fields_def Let_def)
  have b: "computed_fields env psv r = (Map.empty, r)"
    if "map_of psv ''computed_fields'' = Some (Seq t [])" for r
    using that by (simp add: computed_fields_def)
  have run: "ApplyResourceChange env s req =
      finish_call (apply_resource env s planned prior psv cfs c m empty_response)"
    if "canExecute env = []" "GetResourceType env (TypeName req) = Inr rt"
      "Unmarshal env (PlannedState req) rt = Inr planned"
      "Unmarshal env (PriorState req) rt = Inr prior"
      "IsNull prior \<or> \<not> IsNull planned" "As_map planned = Inr psv"
      "getDynamicClient env = Inr c" "getRestMapper env = Inr m"
      "computed_fields env psv empty_response = (cfs, empty_response)" for cfs
    using that by (auto simp: ApplyResourceChange_def empty_response_def)
  show ?thesis
    using a[of resp] b[of resp] run[of ?two, OF _ _ _ _ _ _ _ _ a[of empty_response]]
      run[of Map.empty, OF _ _ _ _ _ _ _ _ b[of empty_response]]
    by blast
qed

text \<open>On the example: a planned state without the attribute, one with it Null, one with the empty list.\<close>

theorem default_computed_fields_when_unspecified_witness:
  "computed_fields env0 [(''manifest'', manifest0), (''object'', obj0)] empty_response =
     ([''metadata.annotations'' \<mapsto> [AttributeName ''metadata'', AttributeName ''annotations''],
       ''metadata.labels'' \<mapsto> [AttributeName ''metadata'', AttributeName ''labels'']],
      empty_response) \<and>
   computed_fields env0 [(''computed_fields'', Null (List String))] empty_response =
     ([''metadata.annotations'' \<mapsto> [AttributeName ''metadata'', AttributeName ''annotations''],
       ''metadata.labels'' \<mapsto> [AttributeName ''metadata'', AttributeName ''labels'']],
      empty_response) \<and>
   computed_fields env0 [(''computed_fields'', Seq (List String) [])] empty_response =
     (Map.empty, empty_response) \<and>
   ApplyResourceChange env0 s0 (request0 (Null rt0) planned0) =
     finish_call (apply_resource env0 s0 planned0 (Null rt0)
       [(''manifest'', manifest0), (''object'', obj0)]
       [''metadata.annotations'' \<mapsto> [AttributeName ''metadata'', AttributeName ''annotations''],
        ''metadata.labels'' \<mapsto> [AttributeName ''metadata'', AttributeName ''labels'']]
       DynamicClient RESTMapper empty_response) \<and>
   ApplyResourceChange env0 s0 (request0 (Null rt0) planned_empty_cf0) =
     finish_call (apply_resource env0 s0 planned_empty_cf0 (Null rt0)
       [(''manifest'', manifest0), (''object'', obj0), (''computed_fields'', Seq (List String) [])]
       Map.empty DynamicClient RESTMapper empty_response)"
proof -
  have p: "path_String env0 [AttributeName ''metadata'', AttributeName ''annotations'']
             = ''metadata.annotations''"
    "path_String env0 [AttributeName ''metadata'', AttributeName ''labels''] = ''metadata.labels''"
    by (simp_all add: env0_def)
  have cm: "getDynamicClient env0 = Inr DynamicClient" "getRestMapper env0 = Inr RESTMapper"
    by (simp_all add: env0_def)
  have e: "As_map planned_empty_cf0 =
      Inr [(''manifest'', manifest0), (''object'', obj0), (''computed_fields'', Seq (List String) [])]"
    by (simp add: planned_empty_cf0_def)
  from default_computed_fields_when_unspecified[where env=env0 and resp=empty_response
      and psv="[(''manifest'', manifest0), (''object'', obj0)]", THEN conjunct1] p
  have a: "computed_fields env0 [(''manifest'', manifest0), (''object'', obj0)] empty_response =
     ([''metadata.annotations'' \<mapsto> [AttributeName ''metadata'', AttributeName ''annotations''],
       ''metadata.labels'' \<mapsto> [AttributeName ''metadata'', AttributeName ''labels'']],
      empty_response)"
    by simp
  from default_computed_fields_when_unspecified[where env=env0 and resp=empty_response
      and psv="[(''computed_fields'', Null (List String))]", THEN conjunct1] p
  have b: "computed_fields env0 [(''computed_fields'', Null (List String))] empty_response =
     ([''metadata.annotations'' \<mapsto> [AttributeName ''metadata'', AttributeName ''annotations''],
       ''metadata.labels'' \<mapsto> [AttributeName ''metadata'', AttributeName ''labels'']],
      empty_response)"
    by simp
  from default_computed_fields_when_unspecified[where env=env0 and resp=empty_response
      and psv="[(''computed_fields'', Seq (List String) [])]" and t="List String",
      THEN conjunct2, THEN conjunct1]
  have c: "computed_fields env0 [(''computed_fields'', Seq (List String) [])] empty_response =
     (Map.empty, empty_response)"
    by simp
  from default_computed_fields_when_unspecified[where env=env0 and s=s0
      and req="request0 (Null rt0) planned0" and rt=rt0 and planned=planned0 and prior="Null rt0"
      and psv="[(''manifest'', manifest0), (''object'', obj0)]" and c=DynamicClient and m=RESTMapper,
      THEN conjunct2, THEN conjunct2] p cm
  have d: "ApplyResourceChange env0 s0 (request0 (Null rt0) planned0) =
     finish_call (apply_resource env0 s0 planned0 (Null rt0)
       [(''manifest'', manifest0), (''object'', obj0)]
       [''metadata.annotations'' \<mapsto> [AttributeName ''metadata'', AttributeName ''annotations''],
        ''metadata.labels'' \<mapsto> [AttributeName ''metadata'', AttributeName ''labels'']]
       DynamicClient RESTMapper empty_response)"
    by simp
  from default_computed_fields_when_unspecified[where env=env0 and s=s0
      and req="request0 (Null rt0) planned_empty_cf0" and rt=rt0 and planned=planned_empty_cf0
      and prior="Null rt0" and t="List String"
      and psv="[(''manifest'', manifest0), (''object'', obj0), (''computed_fields'', Seq (List String) [])]"
      and c=DynamicClient and m=RESTMapper,
      THEN conjunct2, THEN conjunct2] cm e
  have f: "ApplyResourceChange env0 s0 (request0 (Null rt0) planned_empty_cf0) =
     finish_call (apply_resource env0 s0 planned_empty_cf0 (Null rt0)
       [(''manifest'', manifest0), (''object'', obj0), (''computed_fields'', Seq (List String) [])]
       Map.empty DynamicClient RESTMapper empty_response)"
    by simp
  from a b c d f show ?thesis by simp
qed

text \<open>
  With the empty list planned, neither default path is a computed field, and the write
  of the example goes out without the labels of the manifest, which the write of the
  same plan without the attribute carries.
\<close>

theorem empty_list_is_not_defaulted:
  "fst (computed_fields env0
          [(''manifest'', manifest0), (''object'', obj0),
           (''computed_fields'', Seq (List String) [])] empty_response) ''metadata.labels'' = None \<and>
   fst (computed_fields env0
          [(''manifest'', manifest0), (''object'', obj0),
           (''computed_fields'', Seq (List String) [])] empty_response) ''metadata.annotations'' = None \<and>
   default_computed_fields env0 ''metadata.labels''
     = Some [AttributeName ''metadata'', AttributeName ''labels''] \<and>
   store_calls (fst (ApplyResourceChange env0 s0 (request0 (Null rt0) planned_empty_cf0))) =
     [CallGet rs0 ''x'', CallPatch rs0 ''x'' ApplyPatchType payload_no_labels0 ''Terraform''] \<and>
   store_calls (fst (ApplyResourceChange env0 s0 (request0 (Null rt0) planned0))) =
     [CallGet rs0 ''x'', CallPatch rs0 ''x'' ApplyPatchType payload0 ''Terraform''] \<and>
   payload_no_labels0 \<noteq> payload0"
proof -
  have a: "fst (computed_fields env0
          [(''manifest'', manifest0), (''object'', obj0),
           (''computed_fields'', Seq (List String) [])] empty_response) = Map.empty"
    by (simp add: computed_fields_def)
  have b: "default_computed_fields env0 ''metadata.labels''
     = Some [AttributeName ''metadata'', AttributeName ''labels'']"
    by (simp add: default_computed_fields_def env0_def)
  have c: "store_calls (fst (ApplyResourceChange env0 s0 (request0 (Null rt0) planned_empty_cf0))) =
     [CallGet rs0 ''x'', CallPatch rs0 ''x'' ApplyPatchType payload_no_labels0 ''Terraform'']"
    by (simp add: run_empty_cf)
  have d: "store_calls (fst (ApplyResourceChange env0 s0 (request0 (Null rt0) planned0))) =
     [CallGet rs0 ''x'', CallPatch rs0 ''x'' ApplyPatchType payload0 ''Terraform'']"
    by (simp add: run_create patch0_def)
  have e: "payload_no_labels0 \<noteq> payload0"
    by (simp add: payload0_def payload_no_labels0_def)
  from a b c d e show ?thesis by simp
qed


subsection \<open>C4: a create checks first that the resource does not exist\<close>

text \<open>
  Claim C4. When the prior state is Null, the first request of the call, if it sends
  any, is a Get for the name of the resource. When the Get succeeds, the call sends
  nothing more and returns the diagnostic of the conflict, without a new state. When
  the Get fails with an error that is not a not-found error, the call sends nothing
  more and returns a diagnostic with the error, without a new state. Only after a
  not-found error can a write follow the Get.
\<close>

theorem create_checks_existence_first:
  assumes "GetResourceType env (TypeName req) = Inr rt"
    and "Unmarshal env (PriorState req) rt = Inr prior"
    and "IsNull prior"
    and "ApplyResourceChange env s req = (s', r)"
  shows "store_calls s' = store_calls s \<or>
     (\<exists>rs rname rest rnn resp.
        store_calls s' = store_calls s @ CallGet rs rname # rest \<and>
        map kind rest \<in> update_traces \<and>
        (case Get env rs rname of
           Inr found \<Rightarrow>
             rest = [] \<and> NewState resp = None \<and>
             r = Return (add_diag resp
                   (error_diag ''Cannot create resource that already exists''
                      (''resource '' @ fmt_q env rnn @ '' already exists''))) None
         | Inl err \<Rightarrow>
             IsNotFound env err \<or>
             (rest = [] \<and> NewState resp = None \<and>
              r = Return (add_diag resp
                    (error_diag (''Failed to determine if resource '' @ fmt_q env rnn @ '' exists'')
                       (Error env err))) None)))"
  using assms(4)
proof (cases rule: ApplyResourceChange_cases)
  case (1 resp)
  then show ?thesis by simp
next
  case (2 rt' pl pr psv cfs resp1 c m s1 x)
  with assms have pr: "IsNull pr" by simp
  note ns = computed_fields_NewState[OF 2(5)]
  note fc = finish_call_calls[OF 2(8)]
  from 2(7) show ?thesis
  proof (cases rule: apply_resource_cases)
    case (1 r0)
    with apply_prepare_calls[OF 1(1)] fc show ?thesis by simp
  next
    case (2 s2 uo rname rnn rs gvk tsch r0)
    from apply_prepare_calls[OF 2(1)] apply_check_exists_Some[OF 2(2)] fc
    have calls: "store_calls s' = store_calls s @ [CallGet rs rname]" by simp
    from 2(3) \<open>finish_call (s1, x) = (s', r)\<close> have r: "r = r0" by (simp add: finish_call_Inl)
    from apply_check_exists_Some[OF 2(2)] r ns
    have "case Get env rs rname of
           Inr found \<Rightarrow>
             [] = ([]::store_call list) \<and> NewState resp1 = None \<and>
             r = Return (add_diag resp1
                   (error_diag ''Cannot create resource that already exists''
                      (''resource '' @ fmt_q env rnn @ '' already exists''))) None
         | Inl err \<Rightarrow>
             IsNotFound env err \<or>
             ([] = ([]::store_call list) \<and> NewState resp1 = None \<and>
              r = Return (add_diag resp1
                    (error_diag (''Failed to determine if resource '' @ fmt_q env rnn @ '' exists'')
                       (Error env err))) None)"
      by (auto simp: empty_response_def split: sum.splits)
    with calls show ?thesis
      by (intro disjI2 exI[of _ rs] exI[of _ rname] exI[of _ "[]"] exI[of _ rnn] exI[of _ resp1])
         (simp add: update_traces_def)
  next
    case (3 s2 uo rname rnn rs gvk tsch s3 r0)
    from apply_check_exists_None[OF 3(2)] pr
    obtain err where g: "Get env rs rname = Inl err" "IsNotFound env err"
      and s3: "store_calls s3 = store_calls s2 @ [CallGet rs rname]" by auto
    from apply_write_Inl[OF 3(3)] s3 apply_prepare_calls[OF 3(1)] fc
    obtain rest where "store_calls s' = store_calls s @ CallGet rs rname # rest"
      "map kind rest \<in> update_traces"
      by (auto simp: update_traces_def)
    with g show ?thesis
      by (intro disjI2 exI[of _ rs] exI[of _ rname] exI[of _ rest]) simp
  next
    case (4 s2 uo rname rnn rs gvk tsch s3 s4 result)
    from apply_check_exists_None[OF 4(2)] pr
    obtain err where g: "Get env rs rname = Inl err" "IsNotFound env err"
      and s3: "store_calls s3 = store_calls s2 @ [CallGet rs rname]" by auto
    from apply_write_Inr[OF 4(3)] apply_finish_calls[OF 4(4)] s3 apply_prepare_calls[OF 4(1)] fc
    obtain rest where "store_calls s' = store_calls s @ CallGet rs rname # rest"
      "map kind rest \<in> update_traces"
      by (auto simp: update_traces_def)
    with g show ?thesis
      by (intro disjI2 exI[of _ rs] exI[of _ rname] exI[of _ rest]) simp
  qed
next
  case (3 rt' pl pr psv cfs resp1 c m s1 x)
  with assms show ?thesis by simp
qed



text \<open>
  On a store that has the resource, on a store that forbids the Get, and on a store that
  answers not found.
\<close>

theorem create_checks_existence_first_witness:
  "store_calls (fst (ApplyResourceChange env_exists s0 (request0 (Null rt0) planned0)))
     = [CallGet rs0 ''x''] \<and>
   (\<exists>rnn resp. NewState resp = None \<and>
      snd (ApplyResourceChange env_exists s0 (request0 (Null rt0) planned0)) =
        Return (add_diag resp
          (error_diag ''Cannot create resource that already exists''
             (''resource '' @ fmt_q env_exists rnn @ '' already exists''))) None) \<and>
   \<not> IsNotFound env_forbidden forbidden0 \<and>
   store_calls (fst (ApplyResourceChange env_forbidden s0 (request0 (Null rt0) planned0)))
     = [CallGet rs0 ''x''] \<and>
   (\<exists>rnn resp. NewState resp = None \<and>
      snd (ApplyResourceChange env_forbidden s0 (request0 (Null rt0) planned0)) =
        Return (add_diag resp
          (error_diag (''Failed to determine if resource '' @ fmt_q env_forbidden rnn @ '' exists'')
             (Error env_forbidden forbidden0))) None) \<and>
   IsNotFound env0 not_found0 \<and>
   store_calls (fst (ApplyResourceChange env0 s0 (request0 (Null rt0) planned0)))
     = [CallGet rs0 ''x'', patch0]"
proof -
  have g: "Get env_exists rs0 ''x'' = Inr result0" "Get env_forbidden rs0 ''x'' = Inl forbidden0"
    "Get env0 rs0 ''x'' = Inl not_found0"
    by (simp_all add: env_exists_def env_forbidden_def env0_def)
  have nf: "\<not> IsNotFound env_forbidden forbidden0" "IsNotFound env0 not_found0"
    by (simp_all add: env_forbidden_def env0_def is_not_found0_def forbidden0_def not_found0_def)
  have n: "IsNull (Null rt0)" by simp
  have u: "Unmarshal env_exists (PriorState (request0 (Null rt0) planned0)) rt0 = Inr (Null rt0)"
    "Unmarshal env_forbidden (PriorState (request0 (Null rt0) planned0)) rt0 = Inr (Null rt0)"
    by simp_all
  from create_checks_existence_first[where env=env_exists and s=s0, OF _ u(1) n run_exists] g(1)
  have a: "\<exists>rnn resp. NewState resp = None \<and>
      snd (ApplyResourceChange env_exists s0 (request0 (Null rt0) planned0)) =
        Return (add_diag resp
          (error_diag ''Cannot create resource that already exists''
             (''resource '' @ fmt_q env_exists rnn @ '' already exists''))) None"
    by (auto simp: s0_calls run_exists)
  from create_checks_existence_first[where env=env_forbidden and s=s0, OF _ u(2) n run_forbidden]
    g(2) nf(1)
  have b: "\<exists>rnn resp. NewState resp = None \<and>
      snd (ApplyResourceChange env_forbidden s0 (request0 (Null rt0) planned0)) =
        Return (add_diag resp
          (error_diag (''Failed to determine if resource '' @ fmt_q env_forbidden rnn @ '' exists'')
             (Error env_forbidden forbidden0))) None"
    by (auto simp: s0_calls run_forbidden)
  from a b nf show ?thesis by (simp add: run_exists run_forbidden run_create)
qed

subsection \<open>C5: the object of the new state\<close>




subsection \<open>C6: the diagnostics of a failed write\<close>

text \<open>
  Claim C6, as the function has it. When the write fails, the failed Patch is the last
  request of the call, and the call returns without a new state and without an error
  of its own; its diagnostics are those of the computed fields followed by the
  diagnostics of the failure. When the error carries an API status, these are exactly
  the diagnostics into which the status is translated, as many as the translation
  gives, and the function adds no generic diagnostic. Otherwise it is the single
  generic diagnostic, which names the resource and carries the text of the error.
  The translation of a status is not part of the embedded file; the theorem holds for
  every translation.
\<close>

theorem write_failure_diagnostics:
  assumes "GetResourceType env (TypeName req) = Inr rt"
    and "Unmarshal env (PlannedState req) rt = Inr planned"
    and "As_map planned = Inr psv"
    and "ApplyResourceChange env s req = (s', r)"
    and "store_calls s' = store_calls s @ cs"
    and "CallPatch rs rname pt j fm \<in> set cs"
    and "Patch env rs rname pt j fm = Inl err"
  shows "\<exists>new. r = Return \<lparr>NewState = None,
                    Diagnostics = Diagnostics (snd (computed_fields env psv empty_response)) @ new\<rparr>
                  None \<and>
           last cs = CallPatch rs rname pt j fm \<and>
           (case APIStatus env err of
              Some status \<Rightarrow> new = APIStatusErrorToDiagnostics env status
            | None \<Rightarrow>
                \<exists>rnamespace. new = [error_diag
                   (patch_failed_summary (NamespacedName_String env rnamespace rname))
                   (Error env err)])"
  using assms(4)
proof (cases rule: ApplyResourceChange_cases)
  case (1 resp)
  with assms(5,6) show ?thesis by simp
next
  case (2 rt' pl pr psv' cfs resp1 c m s1 x)
  with assms(1,2,3) have eq: "psv' = psv" by simp
  with 2(5) have resp1: "resp1 = snd (computed_fields env psv empty_response)" by simp
  note ns = computed_fields_NewState[OF 2(5)]
  note fc = finish_call_calls[OF 2(8)]
  from 2(7) show ?thesis
  proof (cases rule: apply_resource_cases)
    case (1 r0)
    with apply_prepare_calls[OF 1(1)] fc assms(5,6) show ?thesis by simp
  next
    case (2 s2 uo rname' rnn rs' gvk tsch r0)
    from apply_prepare_calls[OF 2(1)] apply_check_exists_Some[OF 2(2)] fc assms(5,6)
    show ?thesis by auto
  next
    case (3 s2 uo rname' rnn rs' gvk tsch s3 r0)
    from 3(4) \<open>finish_call (s1, x) = (s', r)\<close> have r: "r = r0" "s' = s1"
      by (simp_all add: finish_call_Inl)
    from apply_prepare_names[OF 3(1)]
    have rnn: "rnn = NamespacedName_String env (GetNamespace env uo) rname'" by simp
    from apply_write_Inl[OF 3(3)]
    show ?thesis
    proof (elim disjE exE conjE)
      fix e
      assume "s1 = s3"
      with apply_check_exists_None_calls[OF 3(2)] apply_prepare_calls[OF 3(1)] r assms(5,6)
      show ?thesis by auto
    next
      fix j' err'
      assume w: "s1 = s3\<lparr>store_calls := store_calls s3 @ [CallPatch rs' rname' ApplyPatchType j' ''Terraform'']\<rparr>"
        "Patch env rs' rname' ApplyPatchType j' ''Terraform'' = Inl err'"
        "r0 = Return (resp1\<lparr>Diagnostics := Diagnostics resp1 @
                    (case APIStatus env err' of
                       Some status \<Rightarrow> APIStatusErrorToDiagnostics env status
                     | None \<Rightarrow> [error_diag (patch_failed_summary rnn) (Error env err')])\<rparr>) None"
      from w(1) apply_check_exists_None_calls[OF 3(2)] apply_prepare_calls[OF 3(1)] r assms(5,6)
      have same: "CallPatch rs rname pt j fm = CallPatch rs' rname' ApplyPatchType j' ''Terraform''"
        by auto
      with w(2) assms(7) have e: "err' = err" by simp
      from w(1) apply_check_exists_None_calls[OF 3(2)] apply_prepare_calls[OF 3(1)] r assms(5) same
      have l: "last cs = CallPatch rs rname pt j fm" by auto
      have rec: "resp1\<lparr>Diagnostics := ds\<rparr> = \<lparr>NewState = None, Diagnostics = ds\<rparr>" for ds
        using ns by (cases resp1) (simp add: empty_response_def)
      show ?thesis
      proof (cases "APIStatus env err")
        case None
        with w(3) r e rec resp1 l rnn same show ?thesis by auto
      next
        case (Some status)
        with w(3) r e rec resp1 l show ?thesis by auto
      qed
    qed
  next
    case (4 s2 uo rname' rnn rs' gvk tsch s3 s4 result)
    from apply_write_Inr[OF 4(3)] obtain j' where
      w: "s4 = s3\<lparr>store_calls := store_calls s3 @ [CallPatch rs' rname' ApplyPatchType j' ''Terraform'']\<rparr>"
        "Patch env rs' rname' ApplyPatchType j' ''Terraform'' = Inr result" by auto
    from w(1) apply_finish_calls[OF 4(4)] apply_check_exists_None_calls[OF 4(2)]
      apply_prepare_calls[OF 4(1)] fc assms(5,6)
    have "CallPatch rs rname pt j fm = CallPatch rs' rname' ApplyPatchType j' ''Terraform''"
      by auto
    with w(2) assms(7) show ?thesis by simp
  qed
next
  case (3 rt' pl pr psv' cfs resp1 c m s1 x)
  from delete_resource_calls[OF 3(8)] finish_call_calls[OF 3(9)] assms(5,6)
  show ?thesis by auto
qed


text \<open>
  On a store that rejects the write with a status, and on a store that cannot be
  reached.
\<close>

theorem write_failure_diagnostics_witness:
  "snd (ApplyResourceChange env_invalid s0 (request0 (Null rt0) planned0)) =
     Return \<lparr>NewState = None, Diagnostics = status_diags0 invalid0\<rparr> None \<and>
   (\<exists>rnamespace. snd (ApplyResourceChange env_refused s0 (request0 prior0 planned0)) =
      Return \<lparr>NewState = None,
              Diagnostics = [error_diag (patch_failed_summary (rnamespace @ ''/x''))
                               ''connection refused'']\<rparr>
        None)"
proof -
  let ?psv = "[(''manifest'', manifest0), (''object'', obj0)]"
  have cf: "computed_fields env_invalid ?psv empty_response
              = (default_computed_fields env_invalid, empty_response)"
    "computed_fields env_refused ?psv empty_response
              = (default_computed_fields env_refused, empty_response)"
    by (simp_all add: computed_fields_def)
  have p: "Patch env_invalid rs0 ''x'' ApplyPatchType payload0 ''Terraform'' = Inl (StatusError invalid0)"
    "Patch env_refused rs0 ''x'' ApplyPatchType payload0 ''Terraform''
       = Inl (errorString ''connection refused'')"
    by (simp_all add: env_invalid_def env_refused_def)
  have st: "APIStatus env_invalid (StatusError invalid0) = Some invalid0"
    "APIStatusErrorToDiagnostics env_invalid invalid0 = status_diags0 invalid0"
    "APIStatus env_refused (errorString ''connection refused'') = None"
    "Error env_refused (errorString ''connection refused'') = ''connection refused''"
    "NamespacedName_String env_refused rnamespace ''x'' = rnamespace @ ''/x''" for rnamespace
    by (simp_all add: env_invalid_def env_refused_def env0_def)
  have u: "Unmarshal env_invalid (PlannedState (request0 (Null rt0) planned0)) rt0 = Inr planned0"
    "Unmarshal env_refused (PlannedState (request0 prior0 planned0)) rt0 = Inr planned0"
    by simp_all
  have m: "As_map planned0 = Inr ?psv" by simp
  have g: "GetResourceType env_invalid (TypeName (request0 (Null rt0) planned0)) = Inr rt0"
    "GetResourceType env_refused (TypeName (request0 prior0 planned0)) = Inr rt0"
    by simp_all
  have c: "store_calls \<lparr>OAPIFoundry = Some (Foundry ''openapi v2''),
                        store_calls = [CallGet rs0 ''x'', patch0]\<rparr>
             = store_calls s0 @ [CallGet rs0 ''x'', patch0]"
    "store_calls \<lparr>OAPIFoundry = Some (Foundry ''openapi v2''), store_calls = [patch0]\<rparr>
             = store_calls s0 @ [patch0]"
    by (simp_all add: s0_calls)
  have mem: "CallPatch rs0 ''x'' ApplyPatchType payload0 ''Terraform'' \<in> set [CallGet rs0 ''x'', patch0]"
    "CallPatch rs0 ''x'' ApplyPatchType payload0 ''Terraform'' \<in> set [patch0]"
    by (simp_all add: patch0_def)
  from write_failure_diagnostics[OF g(1) u(1) m run_invalid c(1) mem(1) p(1)]
  obtain new where
    x: "snd (ApplyResourceChange env_invalid s0 (request0 (Null rt0) planned0)) =
        Return \<lparr>NewState = None,
                Diagnostics = Diagnostics (snd (computed_fields env_invalid ?psv empty_response)) @ new\<rparr>
          None"
      "case APIStatus env_invalid (StatusError invalid0) of
              Some status \<Rightarrow> new = APIStatusErrorToDiagnostics env_invalid status
            | None \<Rightarrow>
                \<exists>rnamespace. new = [error_diag
                   (patch_failed_summary (NamespacedName_String env_invalid rnamespace ''x''))
                   (Error env_invalid (StatusError invalid0))]"
    by (auto simp: run_invalid)
  from x(2) st(1,2) have "new = status_diags0 invalid0" by simp
  with x(1) cf(1)
  have a: "snd (ApplyResourceChange env_invalid s0 (request0 (Null rt0) planned0)) =
     Return \<lparr>NewState = None, Diagnostics = status_diags0 invalid0\<rparr> None"
    by (simp add: empty_response_def)
  from write_failure_diagnostics[OF g(2) u(2) m run_refused c(2) mem(2) p(2)]
  obtain new' where
    y: "snd (ApplyResourceChange env_refused s0 (request0 prior0 planned0)) =
        Return \<lparr>NewState = None,
                Diagnostics = Diagnostics (snd (computed_fields env_refused ?psv empty_response)) @ new'\<rparr>
          None"
      "case APIStatus env_refused (errorString ''connection refused'') of
              Some status \<Rightarrow> new' = APIStatusErrorToDiagnostics env_refused status
            | None \<Rightarrow>
                \<exists>rnamespace. new' = [error_diag
                   (patch_failed_summary (NamespacedName_String env_refused rnamespace ''x''))
                   (Error env_refused (errorString ''connection refused''))]"
    by (auto simp: run_refused)
  from y(2) st(3,4,5) obtain rnamespace where
    "new' = [error_diag (patch_failed_summary (rnamespace @ ''/x'')) ''connection refused'']"
    by auto
  with y(1) cf(2)
  have b: "\<exists>rnamespace. snd (ApplyResourceChange env_refused s0 (request0 prior0 planned0)) =
      Return \<lparr>NewState = None,
              Diagnostics = [error_diag (patch_failed_summary (rnamespace @ ''/x''))
                               ''connection refused'']\<rparr>
        None"
    by (auto simp: empty_response_def)
  from a b show ?thesis by simp
qed

text \<open>
  The claim as it is written promises one diagnostic for each detail of the status: two
  diagnostics for a status with two causes. The function appends whatever the
  translation returns, and a translation of the shape of the provider's (one
  diagnostic for the status, one for its details, one for each cause) returns four for
  the status of the example, which has two causes.
\<close>

theorem two_causes_give_four_diagnostics:
  "Patch env_invalid rs0 ''x'' ApplyPatchType payload0 ''Terraform'' = Inl (StatusError invalid0) \<and>
   APIStatus env_invalid (StatusError invalid0) = Some invalid0 \<and>
   length (status_causes invalid0) = 2 \<and>
   ApplyResourceChange env_invalid s0 (request0 (Null rt0) planned0) =
     (\<lparr>OAPIFoundry = Some (Foundry ''openapi v2''), store_calls = [CallGet rs0 ''x'', patch0]\<rparr>,
      Return \<lparr>NewState = None,
              Diagnostics = [error_diag ''API response status: Failure'' ''Deployment x is invalid'',
                             error_diag ''Kubernetes API Error: Invalid Deployment.apps [x]'' [],
                             error_diag ''spec.replicas'' ''must be positive'',
                             error_diag ''spec.selector'' ''is required'']\<rparr> None) \<and>
   length (Diagnostics \<lparr>NewState = None,
              Diagnostics = [error_diag ''API response status: Failure'' ''Deployment x is invalid'',
                             error_diag ''Kubernetes API Error: Invalid Deployment.apps [x]'' [],
                             error_diag ''spec.replicas'' ''must be positive'',
                             error_diag ''spec.selector'' ''is required'']\<rparr>) \<noteq> 2"
proof -
  have "Patch env_invalid rs0 ''x'' ApplyPatchType payload0 ''Terraform'' = Inl (StatusError invalid0)"
    "APIStatus env_invalid (StatusError invalid0) = Some invalid0"
    by (simp_all add: env_invalid_def env0_def)
  moreover have "length (status_causes invalid0) = 2"
    by (simp add: status_causes_def invalid0_def)
  ultimately show ?thesis by (simp add: run_invalid)
qed

subsection \<open>C7: errors and success of a delete\<close>

text \<open>
  Claim C7. When the call sends a Delete, the planned state is Null and the Delete is
  the only request. Every error of the Delete, a not-found error like any other (the
  function does not ask which error it is), makes the call return a diagnostic of
  severity error with the text of the error, without a new state. When
  the Delete succeeds, the new state is the planned state of the request itself.
\<close>

theorem delete_errors_are_diagnostics:
  assumes "GetResourceType env (TypeName req) = Inr rt"
    and "Unmarshal env (PlannedState req) rt = Inr planned"
    and "ApplyResourceChange env s req = (s', r)"
    and "store_calls s' = store_calls s @ cs"
    and "CallDelete rs rname \<in> set cs"
  shows "IsNull planned \<and> cs = [CallDelete rs rname] \<and>
     (case Delete env rs rname of
        Some err \<Rightarrow>
          \<exists>resp d. r = Return (add_diag resp d) None \<and> NewState resp = None \<and>
            Severity d = DiagnosticSeverityError \<and> Detail d = Error env err \<and>
            (\<exists>rn. Summary d = ''DELETE resource '' @ rn @ '' failed: '' @ Error env err)
      | None \<Rightarrow> \<exists>resp. r = Return resp None \<and> NewState resp = Some (PlannedState req))"
  using assms(3)
proof (cases rule: ApplyResourceChange_cases)
  case (1 resp)
  with assms(4,5) show ?thesis by simp
next
  case (2 rt' pl pr psv cfs resp1 c m s1 x)
  from apply_resource_calls[OF 2(7)] finish_call_calls[OF 2(8)] assms(4,5)
  show ?thesis by (auto simp: create_traces_def update_traces_def split: if_splits)
next
  case (3 rt' pl pr psv cfs resp1 c m s1 x)
  with assms(1,2) have pl: "IsNull planned" by simp
  note ns = computed_fields_NewState[OF 3(5)]
  show ?thesis
  proof (cases x)
    case (Inl r0)
    with 3(9) have r: "r = r0" "s' = s1" by (simp_all add: finish_call_Inl)
    from delete_resource_Inl[OF 3(8)[unfolded Inl]]
    consider "s1 = s"
      | rs' rname' err rn where
        "s1 = s\<lparr>store_calls := store_calls s @ [CallDelete rs' rname']\<rparr>"
        "Delete env rs' rname' = Some err"
        "r0 = Return (add_diag resp1
                  (error_diag (''DELETE resource '' @ rn @ '' failed: '' @ Error env err)
                     (Error env err))) None"
      by blast
    then show ?thesis
    proof cases
      case 1
      with r assms(4,5) show ?thesis by simp
    next
      case d: (2 rs' rname' err rn)
      from d(1) r assms(4,5) have cs: "cs = [CallDelete rs rname]" "rs' = rs" "rname' = rname"
        by auto
      have "\<exists>resp d. r = Return (add_diag resp d) None \<and> NewState resp = None \<and>
            Severity d = DiagnosticSeverityError \<and> Detail d = Error env err \<and>
            (\<exists>rn. Summary d = ''DELETE resource '' @ rn @ '' failed: '' @ Error env err)"
        using d(3) r ns
        by (intro exI[of _ resp1]
              exI[of _ "error_diag (''DELETE resource '' @ rn @ '' failed: '' @ Error env err)
                     (Error env err)"])
           (auto simp: empty_response_def error_diag_def)
      with cs d(2) pl show ?thesis by simp
    qed
  next
    case (Inr resp')
    with 3(9) have r: "r = Return resp' None" "store_calls s' = store_calls s1"
      by (simp_all add: finish_call_Inr)
    from delete_resource_Inr[OF 3(8)[unfolded Inr]] r assms(4,5) pl
    show ?thesis by auto
  qed
qed


text \<open>On a store that does not have the resource any more, and on one that deletes it.\<close>

theorem delete_errors_are_diagnostics_witness:
  "IsNotFound env_gone not_found0 \<and>
   Delete env_gone rs0 ''x'' = Some not_found0 \<and>
   (\<exists>resp d. snd (ApplyResourceChange env_gone s0 (request0 prior0 (Null rt0))) =
               Return (add_diag resp d) None \<and>
             NewState resp = None \<and> Severity d = DiagnosticSeverityError \<and>
             Detail d = Error env_gone not_found0) \<and>
   Delete env0 rs0 ''x'' = None \<and>
   (\<exists>resp. snd (ApplyResourceChange env0 s0 (request0 prior0 (Null rt0))) = Return resp None \<and>
           NewState resp = Some (PlannedState (request0 prior0 (Null rt0))))"
proof -
  have d: "Delete env_gone rs0 ''x'' = Some not_found0" "Delete env0 rs0 ''x'' = None"
    by (simp_all add: env_gone_def env0_def)
  have nf: "IsNotFound env_gone not_found0"
    by (simp add: env_gone_def env0_def is_not_found0_def not_found0_def)
  have u: "Unmarshal env_gone (PlannedState (request0 prior0 (Null rt0))) rt0 = Inr (Null rt0)"
    "Unmarshal env0 (PlannedState (request0 prior0 (Null rt0))) rt0 = Inr (Null rt0)"
    by simp_all
  from delete_errors_are_diagnostics[where env=env_gone and s=s0 and cs="[CallDelete rs0 ''x'']"
      and rs=rs0 and rname="''x''", OF _ u(1) run_gone] d(1)
  have a: "\<exists>resp d. snd (ApplyResourceChange env_gone s0 (request0 prior0 (Null rt0))) =
               Return (add_diag resp d) None \<and>
             NewState resp = None \<and> Severity d = DiagnosticSeverityError \<and>
             Detail d = Error env_gone not_found0"
    by (auto simp: s0_calls run_gone)
  from delete_errors_are_diagnostics[where env=env0 and s=s0 and cs="[CallDelete rs0 ''x'']"
      and rs=rs0 and rname="''x''", OF _ u(2) run_delete] d(2)
  have b: "\<exists>resp. snd (ApplyResourceChange env0 s0 (request0 prior0 (Null rt0))) = Return resp None \<and>
           NewState resp = Some (PlannedState (request0 prior0 (Null rt0)))"
    by (auto simp: s0_calls run_delete)
  from a b d nf show ?thesis by simp
qed

subsection \<open>C8: a failed wait\<close>

text \<open>
  Claim C8, as the function has it. When the call has invoked the completion waiter,
  the planned state declares a completion condition, the write has succeeded just
  before, and the invocation of the waiter is the last request of the call. When the
  waiter returns an error, the call returns that very error, with no new state and with
  no diagnostic other than those of the computed fields: nothing is deleted or rolled
  back, and the function adds no text of its own to the error of the waiter.
\<close>

theorem wait_failure_returns_waiter_error:
  assumes "GetResourceType env (TypeName req) = Inr rt"
    and "Unmarshal env (PlannedState req) rt = Inr planned"
    and "As_map planned = Inr psv"
    and "ApplyResourceChange env s req = (s', r)"
    and "store_calls s' = store_calls s @ cs"
    and "CallWaitFor rs rname \<in> set cs"
  shows "\<exists>wfVal wt gvk f f' pre j result.
      map_of psv ''wait_for'' = Some wfVal \<and>
      TFTypeFromOpenAPI env f gvk True = (Inr wt, f') \<and>
      cs = pre @ [CallPatch rs rname ApplyPatchType j ''Terraform'', CallWaitFor rs rname] \<and>
      Patch env rs rname ApplyPatchType j ''Terraform'' = Inr result \<and>
      (\<forall>err. waitForCompletion env wfVal rs rname wt = Some err \<longrightarrow>
         r = Return \<lparr>NewState = None,
                      Diagnostics = Diagnostics (snd (computed_fields env psv empty_response))\<rparr>
               (Some err))"
  using assms(4)
proof (cases rule: ApplyResourceChange_cases)
  case (1 resp)
  with assms(5,6) show ?thesis by simp
next
  case (2 rt' pl pr psv' cfs resp1 c m s1 x)
  with assms(1,2,3) have eq: "psv' = psv" by simp
  with 2(5) have resp1: "resp1 = snd (computed_fields env psv empty_response)" by simp
  note ns = computed_fields_NewState[OF 2(5)]
  have rec: "resp1 = \<lparr>NewState = None, Diagnostics = Diagnostics resp1\<rparr>"
    using ns by (cases resp1) (simp add: empty_response_def)
  note fc = finish_call_calls[OF 2(8)]
  from 2(7) show ?thesis
  proof (cases rule: apply_resource_cases)
    case (1 r0)
    with apply_prepare_calls[OF 1(1)] fc assms(5,6) show ?thesis by simp
  next
    case (2 s2 uo rname' rnn rs' gvk tsch r0)
    from apply_prepare_calls[OF 2(1)] apply_check_exists_Some[OF 2(2)] fc assms(5,6)
    show ?thesis by auto
  next
    case (3 s2 uo rname' rnn rs' gvk tsch s3 r0)
    from apply_write_Inl[OF 3(3)] apply_check_exists_None_calls[OF 3(2)]
      apply_prepare_calls[OF 3(1)] fc assms(5,6)
    show ?thesis by auto
  next
    case (4 s2 uo rname' rnn rs' gvk tsch s3 s4 result)
    from apply_write_Inr[OF 4(3)] obtain j where
      w: "s4 = s3\<lparr>store_calls := store_calls s3 @ [CallPatch rs' rname' ApplyPatchType j ''Terraform'']\<rparr>"
        "Patch env rs' rname' ApplyPatchType j ''Terraform'' = Inr result" by auto
    from apply_check_exists_None_calls[OF 4(2)] apply_prepare_calls[OF 4(1)] w(1)
    obtain pre where pre: "store_calls s4 = store_calls s @ pre @ [CallPatch rs' rname' ApplyPatchType j ''Terraform'']"
      "\<forall>c \<in> set pre. kind c = KGet"
      by auto
    have ne: "store_calls s1 \<noteq> store_calls s4"
    proof
      assume "store_calls s1 = store_calls s4"
      with pre fc assms(5,6) show False by auto
    qed
    from apply_finish_wait[OF 4(4) ne] obtain wfVal wt f where
      wf: "map_of psv' ''wait_for'' = Some wfVal"
        "TFTypeFromOpenAPI env (OAPIFoundry s4) gvk True = (Inr wt, f)"
        "store_calls s1 = store_calls s4 @ [CallWaitFor rs' rname']"
        "\<forall>err. waitForCompletion env wfVal rs' rname' wt = Some err \<longrightarrow>
               x = Inl (Return resp1 (Some err))" by blast
    from wf(3) pre fc assms(5,6) have same: "rs' = rs" "rname' = rname"
      and cs: "cs = pre @ [CallPatch rs' rname' ApplyPatchType j ''Terraform'', CallWaitFor rs' rname']"
      by auto
    have "\<forall>err. waitForCompletion env wfVal rs rname wt = Some err \<longrightarrow>
         r = Return \<lparr>NewState = None,
                      Diagnostics = Diagnostics (snd (computed_fields env psv empty_response))\<rparr>
               (Some err)"
    proof (intro allI impI)
      fix err assume "waitForCompletion env wfVal rs rname wt = Some err"
      with wf(4) same have "x = Inl (Return resp1 (Some err))" by simp
      with \<open>finish_call (s1, x) = (s', r)\<close> have "r = Return resp1 (Some err)"
        by (simp add: finish_call_Inl)
      with rec resp1 show "r = Return \<lparr>NewState = None,
                      Diagnostics = Diagnostics (snd (computed_fields env psv empty_response))\<rparr>
               (Some err)" by simp
    qed
    with wf(1,2) w(2) cs same eq show ?thesis by blast
  qed
next
  case (3 rt' pl pr psv' cfs resp1 c m s1 x)
  from delete_resource_calls[OF 3(8)] finish_call_calls[OF 3(9)] assms(5,6)
  show ?thesis by auto
qed


text \<open>On a waiter that gives up.\<close>

theorem wait_failure_returns_waiter_error_witness:
  "\<exists>wfVal wt gvk f f' pre j result.
      map_of [(''manifest'', manifest0), (''object'', obj0),
              (''wait_for'', Assoc (Map String) [(''rollout'', Prim String (PString ''true''))])]
        ''wait_for'' = Some wfVal \<and>
      TFTypeFromOpenAPI env_timeout f gvk True = (Inr wt, f') \<and>
      [CallGet rs0 ''x'', patch0, CallWaitFor rs0 ''x''] =
        pre @ [CallPatch rs0 ''x'' ApplyPatchType j ''Terraform'', CallWaitFor rs0 ''x''] \<and>
      Patch env_timeout rs0 ''x'' ApplyPatchType j ''Terraform'' = Inr result \<and>
      waitForCompletion env_timeout wfVal rs0 ''x'' wt = Some timeout0 \<and>
      snd (ApplyResourceChange env_timeout s0 (request0 (Null rt0) planned_wait0)) =
        Return \<lparr>NewState = None, Diagnostics = []\<rparr> (Some timeout0)"
proof -
  let ?psv = "[(''manifest'', manifest0), (''object'', obj0),
              (''wait_for'', Assoc (Map String) [(''rollout'', Prim String (PString ''true''))])]"
  have u: "Unmarshal env_timeout (PlannedState (request0 (Null rt0) planned_wait0)) rt0
             = Inr planned_wait0"
    by simp
  have m: "As_map planned_wait0 = Inr ?psv" by simp
  have c: "store_calls \<lparr>OAPIFoundry = Some (Foundry ''openapi v2''),
                        store_calls = [CallGet rs0 ''x'', patch0, CallWaitFor rs0 ''x'']\<rparr> =
           store_calls s0 @ [CallGet rs0 ''x'', patch0, CallWaitFor rs0 ''x'']"
    by (simp add: s0_calls)
  have w: "waitForCompletion env_timeout v rs n t = Some timeout0" for v rs n t
    by (simp add: env_timeout_def)
  from wait_failure_returns_waiter_error[where env=env_timeout and s=s0
      and rs=rs0 and rname="''x''", OF _ u m run_timeout c]
  show ?thesis by (auto simp: w run_timeout)
qed

text \<open>
  The waiter of the example returns the error \<open>timeout0\<close>. The call returns just this
  error and no diagnostic: the text the caller receives is the text of the waiter,
  which does not say that the resource has been written.
\<close>

theorem wait_failure_message_is_the_waiters:
  "ApplyResourceChange env_timeout s0 (request0 (Null rt0) planned_wait0) =
     (\<lparr>OAPIFoundry = Some (Foundry ''openapi v2''),
       store_calls = [CallGet rs0 ''x'', patch0, CallWaitFor rs0 ''x'']\<rparr>,
      Return \<lparr>NewState = None, Diagnostics = []\<rparr>
        (Some (errorString ''timed out waiting for the condition''))) \<and>
   Error env_timeout (errorString ''timed out waiting for the condition'')
     = ''timed out waiting for the condition''"
proof -
  have e: "Error env_timeout (errorString ''timed out waiting for the condition'')
     = ''timed out waiting for the condition''"
    by (simp add: env_timeout_def env0_def)
  from e show ?thesis by (simp add: run_timeout timeout0_def)
qed

subsection \<open>C9: when the cache of discovered types is dropped\<close>

text \<open>
  Claim C9, as the function has it. Every call that returns a new state, on the apply
  path and on the delete path alike, returns without an error and leaves
  \<^verbatim>\<open>s.OAPIFoundry\<close> nil.
\<close>

theorem invalidate_on_success:
  assumes "ApplyResourceChange env s req = (s', Return resp err)"
    and "NewState resp \<noteq> None"
  shows "OAPIFoundry s' = None \<and> err = None"
  using assms(1)
proof (cases rule: ApplyResourceChange_cases)
  case (1 resp0)
  with assms(2) show ?thesis by simp
next
  case (2 rt pl pr psv cfs resp1 c m s1 x)
  note ns = computed_fields_NewState[OF 2(5)]
  show ?thesis
  proof (cases x)
    case (Inl r0)
    with 2(8) have "r0 = Return resp err" "s' = s1" by (auto simp: finish_call_Inl)
    with 2(7) Inl have "NewState resp = NewState resp1"
      by (auto dest: apply_resource_Inl_NewState)
    with ns assms(2) show ?thesis by (simp add: empty_response_def)
  next
    case (Inr resp')
    with 2(8) show ?thesis by (auto simp: finish_call_Inr)
  qed
next
  case (3 rt pl pr psv cfs resp1 c m s1 x)
  note ns = computed_fields_NewState[OF 3(5)]
  show ?thesis
  proof (cases x)
    case (Inl r0)
    with 3(9) have r0: "r0 = Return resp err" "s' = s1" by (auto simp: finish_call_Inl)
    from delete_resource_Inl[OF 3(8)[unfolded Inl]] r0 ns assms(2) show ?thesis
      by (auto simp: empty_response_def add_diag_def)
  next
    case (Inr resp')
    with 3(9) show ?thesis by (auto simp: finish_call_Inr)
  qed
qed


text \<open>A create and a delete that succeed, on a server whose cache is filled.\<close>

theorem invalidate_on_success_witness:
  "OAPIFoundry s0_cached = Some (Foundry ''openapi v2'') \<and>
   OAPIFoundry (fst (ApplyResourceChange env0 s0_cached (request0 (Null rt0) planned0))) = None \<and>
   OAPIFoundry (fst (ApplyResourceChange env0 s0_cached (request0 prior0 (Null rt0)))) = None"
proof -
  have a: "ApplyResourceChange env0 s0_cached (request0 (Null rt0) planned0) =
      (fst (ApplyResourceChange env0 s0_cached (request0 (Null rt0) planned0)),
       Return \<lparr>NewState = Some (encode0 (Assoc rt0 [(''manifest'', manifest0), (''object'', new_object0)])),
              Diagnostics = []\<rparr> None)"
    by (simp add: run_create_cached)
  have b: "ApplyResourceChange env0 s0_cached (request0 prior0 (Null rt0)) =
      (fst (ApplyResourceChange env0 s0_cached (request0 prior0 (Null rt0))),
       Return \<lparr>NewState = Some (encode0 (Null rt0)), Diagnostics = []\<rparr> None)"
    by (simp add: run_delete_cached)
  from invalidate_on_success[OF a] invalidate_on_success[OF b]
  show ?thesis by (simp add: s0_cached_def)
qed

text \<open>
  A create whose write the store rejects returns through line 275, and a delete that
  the store answers with an error returns through line 370: neither reaches line 377,
  and the cache that the schema collaborator filled, or that was filled before the
  call, is still there when the call has returned.
\<close>

theorem cache_kept_when_the_call_fails:
  "OAPIFoundry (fst (ApplyResourceChange env_invalid s0 (request0 (Null rt0) planned0)))
     = Some (Foundry ''openapi v2'') \<and>
   OAPIFoundry (fst (ApplyResourceChange env_gone s0_cached (request0 prior0 (Null rt0))))
     = Some (Foundry ''openapi v2'')"
  by (simp add: run_invalid run_gone_cached)

subsection \<open>C10: a computed field that does not parse\<close>

text \<open>
  Claim C10. When an entry of \<^verbatim>\<open>computed_fields\<close> is a string that does not parse
  as a path, the loop adds a diagnostic of severity error for it and goes on with the
  entries that follow. The call does not stop there: it enters the switch with the
  diagnostic in its response, what the switch sends to the store is what it would send
  with no diagnostic in the response, and every response the call returns carries the
  diagnostic.
\<close>

theorem parse_failure_does_not_abort:
  assumes "As_string v = Inr vs" and "FieldPathToTftypesPath env vs = Inl err"
  shows "computed_fields_loop env (v # cf) (cfs, resp) =
           computed_fields_loop env cf (cfs, add_diag resp (parse_diag env vs err)) \<and>
         Severity (parse_diag env vs err) = DiagnosticSeverityError \<and>
         (canExecute env = [] \<and>
          GetResourceType env (TypeName req) = Inr rt \<and>
          Unmarshal env (PlannedState req) rt = Inr planned \<and>
          Unmarshal env (PriorState req) rt = Inr prior \<and>
          As_map planned = Inr psv \<and>
          map_of psv ''computed_fields'' = Some cfVal \<and> \<not> IsNull cfVal \<and> IsKnown cfVal \<and>
          As_list cfVal = Inr entries \<and> v \<in> set entries \<and>
          getDynamicClient env = Inr c \<and> getRestMapper env = Inr m \<and>
          computed_fields env psv empty_response = (computedFields, resp1) \<longrightarrow>
            parse_diag env vs err \<in> set (Diagnostics resp1) \<and>
            ApplyResourceChange env s req =
              finish_call
                (if IsNull prior \<or> \<not> IsNull planned
                 then apply_resource env s planned prior psv computedFields c m resp1
                 else delete_resource env s req prior c m resp1) \<and>
            fst (apply_resource env s planned prior psv computedFields c m resp1) =
              fst (apply_resource env s planned prior psv computedFields c m empty_response) \<and>
            fst (delete_resource env s req prior c m resp1) =
              fst (delete_resource env s req prior c m empty_response) \<and>
            (\<forall>s' resp' e. ApplyResourceChange env s req = (s', Return resp' e) \<longrightarrow>
               parse_diag env vs err \<in> set (Diagnostics resp')))"
proof (intro conjI impI)
  from assms show "computed_fields_loop env (v # cf) (cfs, resp) =
           computed_fields_loop env cf (cfs, add_diag resp (parse_diag env vs err))"
    by simp
  show "Severity (parse_diag env vs err) = DiagnosticSeverityError"
    by (simp add: parse_diag_def error_diag_def)
next
  assume a: "canExecute env = [] \<and>
          GetResourceType env (TypeName req) = Inr rt \<and>
          Unmarshal env (PlannedState req) rt = Inr planned \<and>
          Unmarshal env (PriorState req) rt = Inr prior \<and>
          As_map planned = Inr psv \<and>
          map_of psv ''computed_fields'' = Some cfVal \<and> \<not> IsNull cfVal \<and> IsKnown cfVal \<and>
          As_list cfVal = Inr entries \<and> v \<in> set entries \<and>
          getDynamicClient env = Inr c \<and> getRestMapper env = Inr m \<and>
          computed_fields env psv empty_response = (computedFields, resp1)"
  then have "resp1 = snd (computed_fields_loop env entries (Map.empty, empty_response))"
    by (auto simp: computed_fields_def)
  with a computed_fields_loop_reports[OF _ assms, of entries Map.empty empty_response]
  show d: "parse_diag env vs err \<in> set (Diagnostics resp1)" by simp
  from a have pl: "\<not> (IsNull prior \<or> \<not> IsNull planned) \<Longrightarrow> IsNull planned" by simp
  from a pl show run: "ApplyResourceChange env s req =
              finish_call
                (if IsNull prior \<or> \<not> IsNull planned
                 then apply_resource env s planned prior psv computedFields c m resp1
                 else delete_resource env s req prior c m resp1)"
    by (simp add: ApplyResourceChange_def empty_response_def)
  show "fst (apply_resource env s planned prior psv computedFields c m resp1) =
              fst (apply_resource env s planned prior psv computedFields c m empty_response)"
    by (rule apply_resource_state_independent)
  show "fst (delete_resource env s req prior c m resp1) =
              fst (delete_resource env s req prior c m empty_response)"
    by (rule delete_resource_state_independent)
  show "\<forall>s' resp' e. ApplyResourceChange env s req = (s', Return resp' e) \<longrightarrow>
               parse_diag env vs err \<in> set (Diagnostics resp')"
  proof (intro allI impI)
    fix s' resp' e
    assume r: "ApplyResourceChange env s req = (s', Return resp' e)"
    show "parse_diag env vs err \<in> set (Diagnostics resp')"
    proof (cases "IsNull prior \<or> \<not> IsNull planned")
      case True
      obtain s1 x where ar: "apply_resource env s planned prior psv computedFields c m resp1 = (s1, x)"
        by force
      with r run True have "finish_call (s1, x) = (s', Return resp' e)" by simp
      with apply_resource_Diagnostics[OF ar] d show ?thesis
        by (cases x) (auto simp: finish_call_def)
    next
      case False
      obtain s1 x where dr: "delete_resource env s req prior c m resp1 = (s1, x)"
        by force
      with r run False have "finish_call (s1, x) = (s', Return resp' e)" by simp
      with delete_resource_Diagnostics[OF dr] d show ?thesis
        by (cases x) (auto simp: finish_call_def)
    qed
  qed
qed


text \<open>
  The planned state of the example names two computed fields; the second does not
  parse. The call creates the resource and returns the new state with the diagnostic.
\<close>

theorem parse_failure_does_not_abort_witness:
  "As_string (Prim String (PString ''spec..replicas'')) = Inr ''spec..replicas'' \<and>
   FieldPathToTftypesPath env0 ''spec..replicas'' = Inl (errorString ''empty path element'') \<and>
   computed_fields_loop env0 [Prim String (PString ''spec..replicas'')] (Map.empty, empty_response) =
     (Map.empty, add_diag empty_response
        (parse_diag env0 ''spec..replicas'' (errorString ''empty path element''))) \<and>
   store_calls (fst (ApplyResourceChange env0 s0 (request0 (Null rt0) planned_cf0)))
     = [CallGet rs0 ''x'', patch0] \<and>
   (\<exists>s' dv ds. ApplyResourceChange env0 s0 (request0 (Null rt0) planned_cf0) =
        (s', Return \<lparr>NewState = Some dv, Diagnostics = ds\<rparr> None) \<and>
      parse_diag env0 ''spec..replicas'' (errorString ''empty path element'') \<in> set ds)"
proof -
  let ?v = "Prim String (PString ''spec..replicas'')"
  let ?cf = "Seq (List String) [Prim String (PString ''metadata.labels''), ?v]"
  let ?psv = "[(''manifest'', manifest0), (''object'', obj0), (''computed_fields'', ?cf)]"
  let ?d = "parse_diag env0 ''spec..replicas'' (errorString ''empty path element'')"
  let ?cfs = "[''metadata.labels'' \<mapsto> [AttributeName ''metadata'', AttributeName ''labels'']]"
  have h: "As_string ?v = Inr ''spec..replicas''"
    "FieldPathToTftypesPath env0 ''spec..replicas'' = Inl (errorString ''empty path element'')"
    by (simp_all add: env0_def parse_path0_def)
  note th = parse_failure_does_not_abort[OF h]
  from th[where cf="[]" and cfs=Map.empty and resp=empty_response, THEN conjunct1]
  have a: "computed_fields_loop env0 [?v] (Map.empty, empty_response) =
     (Map.empty, add_diag empty_response ?d)"
    by simp
  have p: "FieldPathToTftypesPath env0 ''metadata.labels''
             = Inr [AttributeName ''metadata'', AttributeName ''labels'']"
    "path_String env0 [AttributeName ''metadata'', AttributeName ''labels''] = ''metadata.labels''"
    by (simp_all add: env0_def parse_path0_def)
  have cf: "computed_fields env0 ?psv empty_response = (?cfs, add_diag empty_response ?d)"
    by (simp add: computed_fields_def h p)
  have pre: "canExecute env0 = [] \<and>
          GetResourceType env0 (TypeName (request0 (Null rt0) planned_cf0)) = Inr rt0 \<and>
          Unmarshal env0 (PlannedState (request0 (Null rt0) planned_cf0)) rt0 = Inr planned_cf0 \<and>
          Unmarshal env0 (PriorState (request0 (Null rt0) planned_cf0)) rt0 = Inr (Null rt0) \<and>
          As_map planned_cf0 = Inr ?psv \<and>
          map_of ?psv ''computed_fields'' = Some ?cf \<and> \<not> IsNull ?cf \<and> IsKnown ?cf \<and>
          As_list ?cf = Inr [Prim String (PString ''metadata.labels''), ?v] \<and>
          ?v \<in> set [Prim String (PString ''metadata.labels''), ?v] \<and>
          getDynamicClient env0 = Inr DynamicClient \<and> getRestMapper env0 = Inr RESTMapper \<and>
          computed_fields env0 ?psv empty_response = (?cfs, add_diag empty_response ?d)"
  proof -
    have "getDynamicClient env0 = Inr DynamicClient" "getRestMapper env0 = Inr RESTMapper"
      by (simp_all add: env0_def)
    with cf show ?thesis by simp
  qed
  from th[where s=s0, THEN conjunct2, THEN conjunct2, rule_format, OF pre]
  have b: "\<forall>s' resp' e. ApplyResourceChange env0 s0 (request0 (Null rt0) planned_cf0) = (s', Return resp' e) \<longrightarrow>
      ?d \<in> set (Diagnostics resp')"
    by blast
  from b[rule_format, OF run_cf]
  have c: "\<exists>s' dv ds. ApplyResourceChange env0 s0 (request0 (Null rt0) planned_cf0) =
        (s', Return \<lparr>NewState = Some dv, Diagnostics = ds\<rparr> None) \<and> ?d \<in> set ds"
    by (simp add: run_cf)
  from a c h show ?thesis by (simp add: run_cf)
qed

end
